theory Spec2Isabelle
  imports Main
begin

unbundle bit_operations_syntax

section \<open>Data model\<close>

text \<open>
  The record layout engine of \<^verbatim>\<open>lib/AST/RecordLayoutBuilder.cpp\<close> and the
  offset query of \<^verbatim>\<open>tools/libclang/CXType.cpp\<close>.

  Quantities: \<^verbatim>\<open>CharUnits\<close> (a signed 64-bit count of chars) and the
  \<^verbatim>\<open>uint64_t\<close> bit counts are both modelled as mathematical integers; every
  layout quantity is non-negative and far below the machine limits, and no modelled
  operation relies on wrap-around. The two \<^verbatim>\<open>unsigned char\<close> members of the
  Itanium builder are reduced modulo 256 where they are assigned.

  Declarations are identified by a number (the pointer identity of the source).
\<close>

type_synonym CharUnits = int

datatype TemplateSpecializationKind =
    TSK_Undeclared
  | TSK_ImplicitInstantiation
  | TSK_ExplicitSpecialization
  | TSK_ExplicitInstantiationDeclaration
  | TSK_ExplicitInstantiationDefinition

text \<open>
  A method declaration, with the queries the layout code makes of it.
  \<open>MD_hasBody\<close> is \<^verbatim>\<open>MD->hasBody(Def)\<close>: \<open>None\<close> when there is no body, and
  \<open>Some b\<close> when there is one, \<open>b\<close> being \<^verbatim>\<open>Def->isInlineSpecified()\<close>.
\<close>

record CXXMethodDecl =
  MD_id :: nat
  MD_isVirtual :: bool
  MD_isPure :: bool
  MD_isImplicit :: bool
  MD_isInlineSpecified :: bool
  MD_hasInlineBody :: bool
  MD_isUserProvided :: bool
  MD_hasBody :: "bool option"
  MD_size_overridden_methods :: nat

text \<open>
  The attributes of a record declaration that do not mention other declarations.
  \<open>MaxFieldAlignmentAttr\<close> is the \<^verbatim>\<open>#pragma pack\<close> attribute in bits (\<open>None\<close> when
  absent), \<open>getMaxAlignment\<close> the largest \<^verbatim>\<open>aligned\<close> attribute in bits (0 when none).
\<close>

record DeclInfo =
  declId :: nat
  isUnion :: bool
  isEmpty :: bool
  isDynamicClass :: bool
  isPolymorphic :: bool
  isExternallyVisible :: bool
  getTemplateSpecializationKind :: TemplateSpecializationKind
  methods :: "CXXMethodDecl list"
  isCXXRecordDecl :: bool
  isMsStruct :: bool
  hasPackedAttr :: bool
  hasAlignMac68kAttr :: bool
  MaxFieldAlignmentAttr :: "int option"
  getMaxAlignment :: int
  isNearlyEmpty :: bool

text \<open>
  A completed layout (\<^verbatim>\<open>ASTRecordLayout\<close>). Sizes, alignments and base offsets are in
  chars, field offsets in bits. The offset tables are keyed by declaration identity.
\<close>

record VBaseInfo =
  VBaseOffset :: int
  hasVtorDisp :: bool

record ASTRecordLayout =
  getSize :: int
  getDataSize :: int
  getAlignment :: int
  getRequiredAlignment :: int
  getFieldOffsets :: "int list"
  hasOwnVFPtr :: bool
  hasExtendableVFPtr :: bool
  getVBPtrOffset :: int
  getNonVirtualSize :: int
  getNonVirtualAlignment :: int
  getSizeOfLargestEmptySubobject :: int
  getPrimaryBase :: "nat option"
  isPrimaryBaseVirtual :: bool
  getBaseSharingVBPtr :: "nat option"
  hasZeroSizedSubObject :: bool
  leadsWithZeroSizedBase :: bool
  getBaseOffsetsMap :: "nat \<rightharpoonup> int"
  getVBaseOffsetsMap :: "nat \<rightharpoonup> VBaseInfo"

text \<open>
  The table readers of \<^verbatim>\<open>RecordLayout.h\<close> assert that the key is present; a missing
  key reads as zero here (what \<^verbatim>\<open>DenseMap::operator[]\<close> yields without the assertion).
\<close>

definition getBaseClassOffset :: "ASTRecordLayout \<Rightarrow> nat \<Rightarrow> int" where
  "getBaseClassOffset Layout Base =
     (case getBaseOffsetsMap Layout Base of None \<Rightarrow> 0 | Some Offset \<Rightarrow> Offset)"

definition getVBaseClassOffset :: "ASTRecordLayout \<Rightarrow> nat \<Rightarrow> int" where
  "getVBaseClassOffset Layout VBase =
     (case getVBaseOffsetsMap Layout VBase of None \<Rightarrow> 0 | Some VBI \<Rightarrow> VBaseOffset VBI)"

definition getFieldOffsetNo :: "ASTRecordLayout \<Rightarrow> nat \<Rightarrow> int" where
  "getFieldOffsetNo Layout FieldNo =
     (if FieldNo < length (getFieldOffsets Layout) then getFieldOffsets Layout ! FieldNo else 0)"

definition hasVBPtr :: "ASTRecordLayout \<Rightarrow> bool" where
  "hasVBPtr Layout \<longleftrightarrow> \<not> getVBPtrOffset Layout < 0"

text \<open>
  The attributes of a field that do not mention other declarations. The type queries are
  answered by the front end: \<open>FD_TypeInfo\<close> is \<^verbatim>\<open>Context.getTypeInfo(D->getType())\<close>
  (size and alignment in bits), \<open>FD_ElementTypeAlign\<close> the alignment in chars of the
  element type of a flexible array member, \<open>FD_BuiltinBaseElementSize\<close> the size in chars
  of the base element type when that is a builtin type.
\<close>

record FieldInfo =
  FD_id :: nat
  FD_hasIdentifier :: bool
  FD_isBitField :: bool
  FD_BitWidthValue :: int
  FD_TypeInfo :: "int \<times> int"
  FD_ElementTypeAlign :: int
  FD_BuiltinBaseElementSize :: "int option"
  FD_hasPackedAttr :: bool
  FD_MaxAlignment :: int

text \<open>
  Declarations. A class carries the declarations of its direct bases (in declaration
  order), of all its virtual bases (\<^verbatim>\<open>vbases_begin\<close>), its fields and its cached
  layout (\<^verbatim>\<open>Context.getASTRecordLayout\<close>). A constant array type is kept as its base
  element type (\<^verbatim>\<open>getBaseElementType\<close>) and its total number of elements
  (\<^verbatim>\<open>getConstantArrayElementCount\<close>).
\<close>

datatype CXXRecordDecl = CXXRecordDecl
    (info: DeclInfo)
    (bases: "CXXBaseSpecifier list")
    (vbases: "CXXRecordDecl list")
    (fieldDecls: "FieldDecl list")
    (getASTRecordLayout: ASTRecordLayout)
and CXXBaseSpecifier = CXXBaseSpecifier (isVirtual: bool) (getBaseDecl: CXXRecordDecl)
and FieldDecl = FieldDecl (fieldInfo: FieldInfo) (getType: QualType)
and QualType =
    RecordType CXXRecordDecl
  | ConstantArrayType QualType nat
  | IncompleteArrayType QualType
  | ReferenceType nat
  | OtherType

text \<open>
  A node of the base-subobject graph of the class under layout, unfolded as a tree. A
  node is identified by \<open>nodeId\<close> (its address in the source); the node of a virtual
  base occurs with the same \<open>nodeId\<close> wherever it is reached. \<open>Derived\<close> is the
  \<open>nodeId\<close> of the node that has claimed this virtual base as its primary base.
\<close>

datatype BaseSubobjectInfo = BaseSubobjectInfo
    (nodeId: nat)
    (Class: CXXRecordDecl)
    (IsVirtual: bool)
    (Bases: "BaseSubobjectInfo list")
    (PrimaryVirtualBaseInfo: "BaseSubobjectInfo option")
    (Derived: "nat option")

text \<open>The part of the target and language options the code reads.\<close>

datatype IntegralPODType =
  UnsignedCharTy | UnsignedShortTy | UnsignedIntTy | UnsignedLongTy | UnsignedLongLongTy

record ASTContext =
  CharWidth :: int
  CharAlign :: int
  PointerWidth :: "nat \<Rightarrow> int"
  PointerAlign :: "nat \<Rightarrow> int"
  useBitFieldTypeAlignment :: bool
  useZeroLengthBitfieldAlignment :: bool
  getZeroLengthBitfieldBoundary :: int
  getTypeSize :: "IntegralPODType \<Rightarrow> int"
  getTypeAlignInChars :: "IntegralPODType \<Rightarrow> int"
  CPlusPlus :: bool
  PackStruct :: int
  canKeyFunctionBeInline :: bool

definition toBits :: "ASTContext \<Rightarrow> int \<Rightarrow> int" where
  "toBits Context CharSize = CharSize * CharWidth Context"

definition toCharUnitsFromBits :: "ASTContext \<Rightarrow> int \<Rightarrow> int" where
  "toCharUnitsFromBits Context BitSize = BitSize div CharWidth Context"

text \<open>
  \<^verbatim>\<open>llvm::RoundUpToAlignment\<close> and \<^verbatim>\<open>CharUnits::RoundUpToAlignment\<close>:
  \<^verbatim>\<open>((Value + Align - 1) / Align) * Align\<close>.
\<close>

definition RoundUpToAlignment :: "int \<Rightarrow> int \<Rightarrow> int" where
  "RoundUpToAlignment Value Align = ((Value + Align - 1) div Align) * Align"

section \<open>Empty-subobject map\<close>

record EmptySubobjectMap =
  EmptyClassOffsets :: "int \<rightharpoonup> nat list"
  MaxEmptyClassOffset :: int
  SizeOfLargestEmptySubobject :: int

definition AnyEmptySubobjectsBeyondOffset :: "EmptySubobjectMap \<Rightarrow> int \<Rightarrow> bool" where
  "AnyEmptySubobjectsBeyondOffset M Offset \<longleftrightarrow> Offset \<le> MaxEmptyClassOffset M"

definition getFieldOffset :: "ASTContext \<Rightarrow> ASTRecordLayout \<Rightarrow> nat \<Rightarrow> int" where
  "getFieldOffset Context Layout FieldNo =
     toCharUnitsFromBits Context (getFieldOffsetNo Layout FieldNo)"

definition CanPlaceSubobjectAtOffset :: "EmptySubobjectMap \<Rightarrow> DeclInfo \<Rightarrow> int \<Rightarrow> bool" where
  "CanPlaceSubobjectAtOffset M RD Offset =
     (if \<not> isEmpty RD then True
      else case EmptyClassOffsets M Offset of
             None \<Rightarrow> True
           | Some Classes \<Rightarrow> if declId RD \<notin> set Classes then True else False)"

definition AddSubobjectAtOffset :: "EmptySubobjectMap \<Rightarrow> DeclInfo \<Rightarrow> int \<Rightarrow> EmptySubobjectMap" where
  "AddSubobjectAtOffset M RD Offset =
     (if \<not> isEmpty RD then M
      else
        let Classes = (case EmptyClassOffsets M Offset of None \<Rightarrow> [] | Some cs \<Rightarrow> cs) in
        if declId RD \<in> set Classes
        then M\<lparr>EmptyClassOffsets := (EmptyClassOffsets M)(Offset \<mapsto> Classes)\<rparr>
        else M\<lparr>EmptyClassOffsets := (EmptyClassOffsets M)(Offset \<mapsto> Classes @ [declId RD]),
               MaxEmptyClassOffset :=
                 (if Offset > MaxEmptyClassOffset M then Offset else MaxEmptyClassOffset M)\<rparr>)"

text \<open>
  The field family of the check: \<^verbatim>\<open>CanPlaceFieldSubobjectAtOffset\<close> for a class
  (\<open>_RD\<close>, with the loops over its non-virtual bases, its virtual bases and its
  fields) and for a field (\<open>_FD\<close>, with the loop over the elements of an array).
  \<open>MostDerived\<close> is the identity of the field's own class (\<^verbatim>\<open>Class\<close> in the source).
\<close>

function (sequential) CanPlaceFieldSubobjectAtOffset_RD ::
      "ASTContext \<Rightarrow> EmptySubobjectMap \<Rightarrow> CXXRecordDecl \<Rightarrow> nat \<Rightarrow> int \<Rightarrow> bool"
and CanPlaceField_bases ::
      "ASTContext \<Rightarrow> EmptySubobjectMap \<Rightarrow> ASTRecordLayout \<Rightarrow> CXXBaseSpecifier list \<Rightarrow> nat \<Rightarrow> int \<Rightarrow> bool"
and CanPlaceField_vbases ::
      "ASTContext \<Rightarrow> EmptySubobjectMap \<Rightarrow> ASTRecordLayout \<Rightarrow> CXXRecordDecl list \<Rightarrow> nat \<Rightarrow> int \<Rightarrow> bool"
and CanPlaceField_fields ::
      "ASTContext \<Rightarrow> EmptySubobjectMap \<Rightarrow> ASTRecordLayout \<Rightarrow> FieldDecl list \<Rightarrow> nat \<Rightarrow> int \<Rightarrow> bool"
and CanPlaceFieldSubobjectAtOffset_FD ::
      "ASTContext \<Rightarrow> EmptySubobjectMap \<Rightarrow> FieldDecl \<Rightarrow> int \<Rightarrow> bool"
and CanPlaceField_elements ::
      "ASTContext \<Rightarrow> EmptySubobjectMap \<Rightarrow> CXXRecordDecl \<Rightarrow> nat \<Rightarrow> int \<Rightarrow> bool"
where
  "CanPlaceFieldSubobjectAtOffset_RD Context M (CXXRecordDecl RD bs vbs fs Layout) MostDerived Offset =
     (if \<not> AnyEmptySubobjectsBeyondOffset M Offset then True
      else if \<not> CanPlaceSubobjectAtOffset M RD Offset then False
      else if \<not> CanPlaceField_bases Context M Layout bs MostDerived Offset then False
      else if declId RD = MostDerived \<and> \<not> CanPlaceField_vbases Context M Layout vbs MostDerived Offset
           then False
      else CanPlaceField_fields Context M Layout fs 0 Offset)"
| "CanPlaceField_bases Context M Layout [] MostDerived Offset = True"
| "CanPlaceField_bases Context M Layout (CXXBaseSpecifier virt BaseDecl # rest) MostDerived Offset =
     (if virt then CanPlaceField_bases Context M Layout rest MostDerived Offset
      else if \<not> CanPlaceFieldSubobjectAtOffset_RD Context M BaseDecl MostDerived
                   (Offset + getBaseClassOffset Layout (declId (info BaseDecl)))
           then False
      else CanPlaceField_bases Context M Layout rest MostDerived Offset)"
| "CanPlaceField_vbases Context M Layout [] MostDerived Offset = True"
| "CanPlaceField_vbases Context M Layout (VBaseDecl # rest) MostDerived Offset =
     (if \<not> CanPlaceFieldSubobjectAtOffset_RD Context M VBaseDecl MostDerived
               (Offset + getVBaseClassOffset Layout (declId (info VBaseDecl)))
      then False
      else CanPlaceField_vbases Context M Layout rest MostDerived Offset)"
| "CanPlaceField_fields Context M Layout [] FieldNo Offset = True"
| "CanPlaceField_fields Context M Layout (FieldDecl FD T # rest) FieldNo Offset =
     (if FD_isBitField FD then CanPlaceField_fields Context M Layout rest (Suc FieldNo) Offset
      else if \<not> CanPlaceFieldSubobjectAtOffset_FD Context M (FieldDecl FD T)
                   (Offset + getFieldOffset Context Layout FieldNo)
           then False
      else CanPlaceField_fields Context M Layout rest (Suc FieldNo) Offset)"
| "CanPlaceFieldSubobjectAtOffset_FD Context M (FieldDecl FD (RecordType RD)) Offset =
     (if \<not> AnyEmptySubobjectsBeyondOffset M Offset then True
      else CanPlaceFieldSubobjectAtOffset_RD Context M RD (declId (info RD)) Offset)"
| "CanPlaceFieldSubobjectAtOffset_FD Context M
       (FieldDecl FD (ConstantArrayType (RecordType RD) NumElements)) Offset =
     (if \<not> AnyEmptySubobjectsBeyondOffset M Offset then True
      else CanPlaceField_elements Context M RD NumElements Offset)"
| "CanPlaceFieldSubobjectAtOffset_FD Context M (FieldDecl FD T) Offset = True"
| "CanPlaceField_elements Context M RD 0 ElementOffset = True"
| "CanPlaceField_elements Context M RD (Suc n) ElementOffset =
     (if \<not> AnyEmptySubobjectsBeyondOffset M ElementOffset then True
      else if \<not> CanPlaceFieldSubobjectAtOffset_RD Context M RD (declId (info RD)) ElementOffset
           then False
      else CanPlaceField_elements Context M RD n
             (ElementOffset + getSize (getASTRecordLayout RD)))"
  by pat_completeness auto

termination
  by (relation "inv_image (less_than <*lex*> less_than)
        (\<lambda>x. case x of
           Inl (Inl (Context, M, RD, MostDerived, Offset)) \<Rightarrow> (size RD, 0::nat)
         | Inl (Inr (Inl (Context, M, Layout, bs, MostDerived, Offset))) \<Rightarrow> (size_list size bs, 0)
         | Inl (Inr (Inr (Context, M, Layout, vbs, MostDerived, Offset))) \<Rightarrow> (size_list size vbs, 0)
         | Inr (Inl (Context, M, Layout, fs, FieldNo, Offset)) \<Rightarrow> (size_list size fs, 0)
         | Inr (Inr (Inl (Context, M, FD, Offset))) \<Rightarrow> (size FD, 0)
         | Inr (Inr (Inr (Context, M, RD, n, Offset))) \<Rightarrow> (size RD + 1, n))")
     auto

text \<open>
  The field family of the update, \<^verbatim>\<open>UpdateEmptyFieldSubobjects\<close>, with the same
  loops; the map is threaded through.
\<close>

function (sequential) UpdateEmptyFieldSubobjects_RD ::
      "ASTContext \<Rightarrow> EmptySubobjectMap \<Rightarrow> CXXRecordDecl \<Rightarrow> nat \<Rightarrow> int \<Rightarrow> EmptySubobjectMap"
and UpdateField_bases ::
      "ASTContext \<Rightarrow> EmptySubobjectMap \<Rightarrow> ASTRecordLayout \<Rightarrow> CXXBaseSpecifier list \<Rightarrow> nat \<Rightarrow> int \<Rightarrow> EmptySubobjectMap"
and UpdateField_vbases ::
      "ASTContext \<Rightarrow> EmptySubobjectMap \<Rightarrow> ASTRecordLayout \<Rightarrow> CXXRecordDecl list \<Rightarrow> nat \<Rightarrow> int \<Rightarrow> EmptySubobjectMap"
and UpdateField_fields ::
      "ASTContext \<Rightarrow> EmptySubobjectMap \<Rightarrow> ASTRecordLayout \<Rightarrow> FieldDecl list \<Rightarrow> nat \<Rightarrow> int \<Rightarrow> EmptySubobjectMap"
and UpdateEmptyFieldSubobjects_FD ::
      "ASTContext \<Rightarrow> EmptySubobjectMap \<Rightarrow> FieldDecl \<Rightarrow> int \<Rightarrow> EmptySubobjectMap"
and UpdateField_elements ::
      "ASTContext \<Rightarrow> EmptySubobjectMap \<Rightarrow> CXXRecordDecl \<Rightarrow> nat \<Rightarrow> int \<Rightarrow> EmptySubobjectMap"
where
  "UpdateEmptyFieldSubobjects_RD Context M (CXXRecordDecl RD bs vbs fs Layout) MostDerived Offset =
     (if Offset \<ge> SizeOfLargestEmptySubobject M then M
      else if declId RD = MostDerived then
        UpdateField_fields Context
          (UpdateField_vbases Context
             (UpdateField_bases Context (AddSubobjectAtOffset M RD Offset)
                Layout bs MostDerived Offset)
             Layout vbs MostDerived Offset)
          Layout fs 0 Offset
      else
        UpdateField_fields Context
          (UpdateField_bases Context (AddSubobjectAtOffset M RD Offset)
             Layout bs MostDerived Offset)
          Layout fs 0 Offset)"
| "UpdateField_bases Context M Layout [] MostDerived Offset = M"
| "UpdateField_bases Context M Layout (CXXBaseSpecifier virt BaseDecl # rest) MostDerived Offset =
     (if virt then UpdateField_bases Context M Layout rest MostDerived Offset
      else UpdateField_bases Context
             (UpdateEmptyFieldSubobjects_RD Context M BaseDecl MostDerived
                (Offset + getBaseClassOffset Layout (declId (info BaseDecl))))
             Layout rest MostDerived Offset)"
| "UpdateField_vbases Context M Layout [] MostDerived Offset = M"
| "UpdateField_vbases Context M Layout (VBaseDecl # rest) MostDerived Offset =
     UpdateField_vbases Context
       (UpdateEmptyFieldSubobjects_RD Context M VBaseDecl MostDerived
          (Offset + getVBaseClassOffset Layout (declId (info VBaseDecl))))
       Layout rest MostDerived Offset"
| "UpdateField_fields Context M Layout [] FieldNo Offset = M"
| "UpdateField_fields Context M Layout (FieldDecl FD T # rest) FieldNo Offset =
     (if FD_isBitField FD then UpdateField_fields Context M Layout rest (Suc FieldNo) Offset
      else UpdateField_fields Context
             (UpdateEmptyFieldSubobjects_FD Context M (FieldDecl FD T)
                (Offset + getFieldOffset Context Layout FieldNo))
             Layout rest (Suc FieldNo) Offset)"
| "UpdateEmptyFieldSubobjects_FD Context M (FieldDecl FD (RecordType RD)) Offset =
     UpdateEmptyFieldSubobjects_RD Context M RD (declId (info RD)) Offset"
| "UpdateEmptyFieldSubobjects_FD Context M
       (FieldDecl FD (ConstantArrayType (RecordType RD) NumElements)) Offset =
     UpdateField_elements Context M RD NumElements Offset"
| "UpdateEmptyFieldSubobjects_FD Context M (FieldDecl FD T) Offset = M"
| "UpdateField_elements Context M RD 0 ElementOffset = M"
| "UpdateField_elements Context M RD (Suc n) ElementOffset =
     (if ElementOffset \<ge> SizeOfLargestEmptySubobject M then M
      else UpdateField_elements Context
             (UpdateEmptyFieldSubobjects_RD Context M RD (declId (info RD)) ElementOffset)
             RD n (ElementOffset + getSize (getASTRecordLayout RD)))"
  by pat_completeness auto

termination
  by (relation "inv_image (less_than <*lex*> less_than)
        (\<lambda>x. case x of
           Inl (Inl (Context, M, RD, MostDerived, Offset)) \<Rightarrow> (size RD, 0::nat)
         | Inl (Inr (Inl (Context, M, Layout, bs, MostDerived, Offset))) \<Rightarrow> (size_list size bs, 0)
         | Inl (Inr (Inr (Context, M, Layout, vbs, MostDerived, Offset))) \<Rightarrow> (size_list size vbs, 0)
         | Inr (Inl (Context, M, Layout, fs, FieldNo, Offset)) \<Rightarrow> (size_list size fs, 0)
         | Inr (Inr (Inl (Context, M, FD, Offset))) \<Rightarrow> (size FD, 0)
         | Inr (Inr (Inr (Context, M, RD, n, Offset))) \<Rightarrow> (size RD + 1, n))")
     auto

text \<open>
  The base family: \<^verbatim>\<open>CanPlaceBaseSubobjectAtOffset\<close> and
  \<^verbatim>\<open>UpdateEmptyBaseSubobjects\<close> walk the base-subobject graph: the node's class, its
  non-virtual bases, its primary virtual base when this node is the one that claimed it
  (\<^verbatim>\<open>Info == PrimaryVirtualBaseInfo->Derived\<close>), and the fields of its class.
\<close>

function (sequential) CanPlaceBaseSubobjectAtOffset ::
      "ASTContext \<Rightarrow> EmptySubobjectMap \<Rightarrow> BaseSubobjectInfo \<Rightarrow> int \<Rightarrow> bool"
and CanPlaceBase_bases ::
      "ASTContext \<Rightarrow> EmptySubobjectMap \<Rightarrow> ASTRecordLayout \<Rightarrow> BaseSubobjectInfo list \<Rightarrow> int \<Rightarrow> bool"
and CanPlaceBase_primary ::
      "ASTContext \<Rightarrow> EmptySubobjectMap \<Rightarrow> nat \<Rightarrow> BaseSubobjectInfo option \<Rightarrow> int \<Rightarrow> bool"
where
  "CanPlaceBaseSubobjectAtOffset Context M (BaseSubobjectInfo n Cl virt Bs PVBI D) Offset =
     (if \<not> AnyEmptySubobjectsBeyondOffset M Offset then True
      else if \<not> CanPlaceSubobjectAtOffset M (info Cl) Offset then False
      else if \<not> CanPlaceBase_bases Context M (getASTRecordLayout Cl) Bs Offset then False
      else if \<not> CanPlaceBase_primary Context M n PVBI Offset then False
      else CanPlaceField_fields Context M (getASTRecordLayout Cl) (fieldDecls Cl) 0 Offset)"
| "CanPlaceBase_primary Context M n None Offset = True"
| "CanPlaceBase_primary Context M n (Some P) Offset =
     (if Derived P = Some n then CanPlaceBaseSubobjectAtOffset Context M P Offset else True)"
| "CanPlaceBase_bases Context M Layout [] Offset = True"
| "CanPlaceBase_bases Context M Layout (Base # rest) Offset =
     (if IsVirtual Base then CanPlaceBase_bases Context M Layout rest Offset
      else if \<not> CanPlaceBaseSubobjectAtOffset Context M Base
                   (Offset + getBaseClassOffset Layout (declId (info (Class Base))))
           then False
      else CanPlaceBase_bases Context M Layout rest Offset)"
  by pat_completeness auto

termination
  by (relation "measure
        (\<lambda>x. case x of
           Inl (Context, M, Info, Offset) \<Rightarrow> size Info
         | Inr (Inl (Context, M, Layout, Bs, Offset)) \<Rightarrow> size_list size Bs
         | Inr (Inr (Context, M, n, PVBI, Offset)) \<Rightarrow> size_option size PVBI)")
     auto

function (sequential) UpdateEmptyBaseSubobjects ::
      "ASTContext \<Rightarrow> EmptySubobjectMap \<Rightarrow> BaseSubobjectInfo \<Rightarrow> int \<Rightarrow> bool \<Rightarrow> EmptySubobjectMap"
and UpdateBase_bases ::
      "ASTContext \<Rightarrow> EmptySubobjectMap \<Rightarrow> ASTRecordLayout \<Rightarrow> BaseSubobjectInfo list \<Rightarrow> int \<Rightarrow> bool \<Rightarrow> EmptySubobjectMap"
and UpdateBase_primary ::
      "ASTContext \<Rightarrow> EmptySubobjectMap \<Rightarrow> nat \<Rightarrow> BaseSubobjectInfo option \<Rightarrow> int \<Rightarrow> bool \<Rightarrow> EmptySubobjectMap"
where
  "UpdateEmptyBaseSubobjects Context M (BaseSubobjectInfo n Cl virt Bs PVBI D) Offset PlacingEmptyBase =
     (if \<not> PlacingEmptyBase \<and> Offset \<ge> SizeOfLargestEmptySubobject M then M
      else
        UpdateField_fields Context
          (UpdateBase_primary Context
             (UpdateBase_bases Context (AddSubobjectAtOffset M (info Cl) Offset)
                (getASTRecordLayout Cl) Bs Offset PlacingEmptyBase)
             n PVBI Offset PlacingEmptyBase)
          (getASTRecordLayout Cl) (fieldDecls Cl) 0 Offset)"
| "UpdateBase_primary Context M n None Offset PlacingEmptyBase = M"
| "UpdateBase_primary Context M n (Some P) Offset PlacingEmptyBase =
     (if Derived P = Some n then UpdateEmptyBaseSubobjects Context M P Offset PlacingEmptyBase
      else M)"
| "UpdateBase_bases Context M Layout [] Offset PlacingEmptyBase = M"
| "UpdateBase_bases Context M Layout (Base # rest) Offset PlacingEmptyBase =
     (if IsVirtual Base then UpdateBase_bases Context M Layout rest Offset PlacingEmptyBase
      else UpdateBase_bases Context
             (UpdateEmptyBaseSubobjects Context M Base
                (Offset + getBaseClassOffset Layout (declId (info (Class Base))))
                PlacingEmptyBase)
             Layout rest Offset PlacingEmptyBase)"
  by pat_completeness auto

termination
  by (relation "measure
        (\<lambda>x. case x of
           Inl (Context, M, Info, Offset, PlacingEmptyBase) \<Rightarrow> size Info
         | Inr (Inl (Context, M, Layout, Bs, Offset, PlacingEmptyBase)) \<Rightarrow> size_list size Bs
         | Inr (Inr (Context, M, n, PVBI, Offset, PlacingEmptyBase)) \<Rightarrow> size_option size PVBI)")
     auto

text \<open>
  The two entry points. Each returns its verdict together with the map: unchanged when
  the placement is refused, updated when it is accepted.
\<close>

definition CanPlaceBaseAtOffset ::
    "ASTContext \<Rightarrow> EmptySubobjectMap \<Rightarrow> BaseSubobjectInfo \<Rightarrow> int \<Rightarrow> bool \<times> EmptySubobjectMap" where
  "CanPlaceBaseAtOffset Context M Info Offset =
     (if SizeOfLargestEmptySubobject M = 0 then (True, M)
      else if \<not> CanPlaceBaseSubobjectAtOffset Context M Info Offset then (False, M)
      else (True, UpdateEmptyBaseSubobjects Context M Info Offset (isEmpty (info (Class Info)))))"

definition CanPlaceFieldAtOffset ::
    "ASTContext \<Rightarrow> EmptySubobjectMap \<Rightarrow> FieldDecl \<Rightarrow> int \<Rightarrow> bool \<times> EmptySubobjectMap" where
  "CanPlaceFieldAtOffset Context M FD Offset =
     (if \<not> CanPlaceFieldSubobjectAtOffset_FD Context M FD Offset then (False, M)
      else (True, UpdateEmptyFieldSubobjects_FD Context M FD Offset))"

text \<open>
  \<^verbatim>\<open>ComputeEmptySubobjectSizes\<close>, run by the constructor of the map for the class
  under layout: the largest size among the empty direct bases and empty members (after
  stripping arrays), and the largest empty subobjects of the others.
\<close>

fun getBaseElementType :: "QualType \<Rightarrow> QualType" where
  "getBaseElementType (ConstantArrayType T n) = getBaseElementType T"
| "getBaseElementType (IncompleteArrayType T) = getBaseElementType T"
| "getBaseElementType T = T"

definition EmptySizeOf :: "CXXRecordDecl \<Rightarrow> int" where
  "EmptySizeOf D =
     (if isEmpty (info D) then getSize (getASTRecordLayout D)
      else getSizeOfLargestEmptySubobject (getASTRecordLayout D))"

fun ComputeEmptySubobjectSizes_bases :: "CXXBaseSpecifier list \<Rightarrow> int \<Rightarrow> int" where
  "ComputeEmptySubobjectSizes_bases [] Largest = Largest"
| "ComputeEmptySubobjectSizes_bases (I # rest) Largest =
     ComputeEmptySubobjectSizes_bases rest
       (if EmptySizeOf (getBaseDecl I) > Largest then EmptySizeOf (getBaseDecl I) else Largest)"

fun ComputeEmptySubobjectSizes_fields :: "FieldDecl list \<Rightarrow> int \<Rightarrow> int" where
  "ComputeEmptySubobjectSizes_fields [] Largest = Largest"
| "ComputeEmptySubobjectSizes_fields (I # rest) Largest =
     (case getBaseElementType (getType I) of
        RecordType MemberDecl \<Rightarrow>
          ComputeEmptySubobjectSizes_fields rest
            (if EmptySizeOf MemberDecl > Largest then EmptySizeOf MemberDecl else Largest)
      | _ \<Rightarrow> ComputeEmptySubobjectSizes_fields rest Largest)"

definition ComputeEmptySubobjectSizes :: "CXXRecordDecl \<Rightarrow> int" where
  "ComputeEmptySubobjectSizes D =
     ComputeEmptySubobjectSizes_fields (fieldDecls D) (ComputeEmptySubobjectSizes_bases (bases D) 0)"

definition newEmptySubobjectMap :: "CXXRecordDecl \<Rightarrow> EmptySubobjectMap" where
  "newEmptySubobjectMap D =
     \<lparr>EmptyClassOffsets = Map.empty, MaxEmptyClassOffset = 0,
      SizeOfLargestEmptySubobject = ComputeEmptySubobjectSizes D\<rparr>"

subsection \<open>The subobjects a placement is made of\<close>

text \<open>
  The claims about the map speak of the empty subobjects "visited" by a placement. These
  functions list, for a placement at \<open>Offset\<close>, every subobject the traversals above
  can reach, with its offset and without any of the early exits: the class itself, its
  non-virtual bases, its virtual bases when it is the field's own class, and its
  non-bit-field members of class or array-of-class type.
\<close>

function (sequential) subobjects_RD ::
      "ASTContext \<Rightarrow> CXXRecordDecl \<Rightarrow> nat \<Rightarrow> int \<Rightarrow> (DeclInfo \<times> int) list"
and subobjects_bases ::
      "ASTContext \<Rightarrow> ASTRecordLayout \<Rightarrow> CXXBaseSpecifier list \<Rightarrow> nat \<Rightarrow> int \<Rightarrow> (DeclInfo \<times> int) list"
and subobjects_vbases ::
      "ASTContext \<Rightarrow> ASTRecordLayout \<Rightarrow> CXXRecordDecl list \<Rightarrow> nat \<Rightarrow> int \<Rightarrow> (DeclInfo \<times> int) list"
and subobjects_fields ::
      "ASTContext \<Rightarrow> ASTRecordLayout \<Rightarrow> FieldDecl list \<Rightarrow> nat \<Rightarrow> int \<Rightarrow> (DeclInfo \<times> int) list"
and subobjects_FD ::
      "ASTContext \<Rightarrow> FieldDecl \<Rightarrow> int \<Rightarrow> (DeclInfo \<times> int) list"
and subobjects_elements ::
      "ASTContext \<Rightarrow> CXXRecordDecl \<Rightarrow> nat \<Rightarrow> int \<Rightarrow> (DeclInfo \<times> int) list"
where
  "subobjects_RD Context (CXXRecordDecl RD bs vbs fs Layout) MostDerived Offset =
     (RD, Offset) #
     subobjects_bases Context Layout bs MostDerived Offset @
     (if declId RD = MostDerived then subobjects_vbases Context Layout vbs MostDerived Offset
      else []) @
     subobjects_fields Context Layout fs 0 Offset"
| "subobjects_bases Context Layout [] MostDerived Offset = []"
| "subobjects_bases Context Layout (CXXBaseSpecifier virt BaseDecl # rest) MostDerived Offset =
     (if virt then []
      else subobjects_RD Context BaseDecl MostDerived
             (Offset + getBaseClassOffset Layout (declId (info BaseDecl)))) @
     subobjects_bases Context Layout rest MostDerived Offset"
| "subobjects_vbases Context Layout [] MostDerived Offset = []"
| "subobjects_vbases Context Layout (VBaseDecl # rest) MostDerived Offset =
     subobjects_RD Context VBaseDecl MostDerived
       (Offset + getVBaseClassOffset Layout (declId (info VBaseDecl))) @
     subobjects_vbases Context Layout rest MostDerived Offset"
| "subobjects_fields Context Layout [] FieldNo Offset = []"
| "subobjects_fields Context Layout (FieldDecl FD T # rest) FieldNo Offset =
     (if FD_isBitField FD then []
      else subobjects_FD Context (FieldDecl FD T)
             (Offset + getFieldOffset Context Layout FieldNo)) @
     subobjects_fields Context Layout rest (Suc FieldNo) Offset"
| "subobjects_FD Context (FieldDecl FD (RecordType RD)) Offset =
     subobjects_RD Context RD (declId (info RD)) Offset"
| "subobjects_FD Context (FieldDecl FD (ConstantArrayType (RecordType RD) NumElements)) Offset =
     subobjects_elements Context RD NumElements Offset"
| "subobjects_FD Context (FieldDecl FD T) Offset = []"
| "subobjects_elements Context RD 0 ElementOffset = []"
| "subobjects_elements Context RD (Suc n) ElementOffset =
     subobjects_RD Context RD (declId (info RD)) ElementOffset @
     subobjects_elements Context RD n (ElementOffset + getSize (getASTRecordLayout RD))"
  by pat_completeness auto

termination
  by (relation "inv_image (less_than <*lex*> less_than)
        (\<lambda>x. case x of
           Inl (Inl (Context, RD, MostDerived, Offset)) \<Rightarrow> (size RD, 0::nat)
         | Inl (Inr (Inl (Context, Layout, bs, MostDerived, Offset))) \<Rightarrow> (size_list size bs, 0)
         | Inl (Inr (Inr (Context, Layout, vbs, MostDerived, Offset))) \<Rightarrow> (size_list size vbs, 0)
         | Inr (Inl (Context, Layout, fs, FieldNo, Offset)) \<Rightarrow> (size_list size fs, 0)
         | Inr (Inr (Inl (Context, FD, Offset))) \<Rightarrow> (size FD, 0)
         | Inr (Inr (Inr (Context, RD, n, Offset))) \<Rightarrow> (size RD + 1, n))")
     auto

function (sequential) subobjects_Info ::
      "ASTContext \<Rightarrow> BaseSubobjectInfo \<Rightarrow> int \<Rightarrow> (DeclInfo \<times> int) list"
and subobjects_Info_bases ::
      "ASTContext \<Rightarrow> ASTRecordLayout \<Rightarrow> BaseSubobjectInfo list \<Rightarrow> int \<Rightarrow> (DeclInfo \<times> int) list"
and subobjects_Info_primary ::
      "ASTContext \<Rightarrow> nat \<Rightarrow> BaseSubobjectInfo option \<Rightarrow> int \<Rightarrow> (DeclInfo \<times> int) list"
where
  "subobjects_Info Context (BaseSubobjectInfo n Cl virt Bs PVBI D) Offset =
     (info Cl, Offset) #
     subobjects_Info_bases Context (getASTRecordLayout Cl) Bs Offset @
     subobjects_Info_primary Context n PVBI Offset @
     subobjects_fields Context (getASTRecordLayout Cl) (fieldDecls Cl) 0 Offset"
| "subobjects_Info_primary Context n None Offset = []"
| "subobjects_Info_primary Context n (Some P) Offset =
     (if Derived P = Some n then subobjects_Info Context P Offset else [])"
| "subobjects_Info_bases Context Layout [] Offset = []"
| "subobjects_Info_bases Context Layout (Base # rest) Offset =
     (if IsVirtual Base then []
      else subobjects_Info Context Base
             (Offset + getBaseClassOffset Layout (declId (info (Class Base))))) @
     subobjects_Info_bases Context Layout rest Offset"
  by pat_completeness auto

termination
  by (relation "measure
        (\<lambda>x. case x of
           Inl (Context, Info, Offset) \<Rightarrow> size Info
         | Inr (Inl (Context, Layout, Bs, Offset)) \<Rightarrow> size_list size Bs
         | Inr (Inr (Context, n, PVBI, Offset)) \<Rightarrow> size_option size PVBI)")
     auto

text \<open>
  Layouts place nothing at a negative offset and no class has a negative size. The
  predicates say so for every layout a traversal reads.
\<close>

function (sequential) nonneg_RD :: "ASTContext \<Rightarrow> CXXRecordDecl \<Rightarrow> nat \<Rightarrow> bool"
and nonneg_bases :: "ASTContext \<Rightarrow> ASTRecordLayout \<Rightarrow> CXXBaseSpecifier list \<Rightarrow> nat \<Rightarrow> bool"
and nonneg_vbases :: "ASTContext \<Rightarrow> ASTRecordLayout \<Rightarrow> CXXRecordDecl list \<Rightarrow> nat \<Rightarrow> bool"
and nonneg_fields :: "ASTContext \<Rightarrow> ASTRecordLayout \<Rightarrow> FieldDecl list \<Rightarrow> nat \<Rightarrow> bool"
and nonneg_FD :: "ASTContext \<Rightarrow> FieldDecl \<Rightarrow> bool"
where
  "nonneg_RD Context (CXXRecordDecl RD bs vbs fs Layout) MostDerived \<longleftrightarrow>
     0 \<le> getSize Layout \<and>
     nonneg_bases Context Layout bs MostDerived \<and>
     (if declId RD = MostDerived then nonneg_vbases Context Layout vbs MostDerived else True) \<and>
     nonneg_fields Context Layout fs 0"
| "nonneg_bases Context Layout [] MostDerived \<longleftrightarrow> True"
| "nonneg_bases Context Layout (CXXBaseSpecifier virt BaseDecl # rest) MostDerived \<longleftrightarrow>
     (if virt then True
      else 0 \<le> getBaseClassOffset Layout (declId (info BaseDecl)) \<and>
           nonneg_RD Context BaseDecl MostDerived) \<and>
     nonneg_bases Context Layout rest MostDerived"
| "nonneg_vbases Context Layout [] MostDerived \<longleftrightarrow> True"
| "nonneg_vbases Context Layout (VBaseDecl # rest) MostDerived \<longleftrightarrow>
     0 \<le> getVBaseClassOffset Layout (declId (info VBaseDecl)) \<and>
     nonneg_RD Context VBaseDecl MostDerived \<and>
     nonneg_vbases Context Layout rest MostDerived"
| "nonneg_fields Context Layout [] FieldNo \<longleftrightarrow> True"
| "nonneg_fields Context Layout (FieldDecl FD T # rest) FieldNo \<longleftrightarrow>
     (if FD_isBitField FD then True
      else 0 \<le> getFieldOffset Context Layout FieldNo \<and> nonneg_FD Context (FieldDecl FD T)) \<and>
     nonneg_fields Context Layout rest (Suc FieldNo)"
| "nonneg_FD Context (FieldDecl FD (RecordType RD)) \<longleftrightarrow>
     nonneg_RD Context RD (declId (info RD))"
| "nonneg_FD Context (FieldDecl FD (ConstantArrayType (RecordType RD) NumElements)) \<longleftrightarrow>
     nonneg_RD Context RD (declId (info RD))"
| "nonneg_FD Context (FieldDecl FD T) \<longleftrightarrow> True"
  by pat_completeness auto

termination
  by (relation "measure
        (\<lambda>x. case x of
           Inl (Inl (Context, RD, MostDerived)) \<Rightarrow> size RD
         | Inl (Inr (Context, Layout, bs, MostDerived)) \<Rightarrow> size_list size bs
         | Inr (Inl (Context, Layout, vbs, MostDerived)) \<Rightarrow> size_list size vbs
         | Inr (Inr (Inl (Context, Layout, fs, FieldNo))) \<Rightarrow> size_list size fs
         | Inr (Inr (Inr (Context, FD))) \<Rightarrow> size FD)")
     auto

function (sequential) nonneg_Info :: "ASTContext \<Rightarrow> BaseSubobjectInfo \<Rightarrow> bool"
and nonneg_Info_bases :: "ASTContext \<Rightarrow> ASTRecordLayout \<Rightarrow> BaseSubobjectInfo list \<Rightarrow> bool"
and nonneg_Info_primary :: "ASTContext \<Rightarrow> nat \<Rightarrow> BaseSubobjectInfo option \<Rightarrow> bool"
where
  "nonneg_Info Context (BaseSubobjectInfo n Cl virt Bs PVBI D) \<longleftrightarrow>
     nonneg_Info_bases Context (getASTRecordLayout Cl) Bs \<and>
     nonneg_Info_primary Context n PVBI \<and>
     nonneg_fields Context (getASTRecordLayout Cl) (fieldDecls Cl) 0"
| "nonneg_Info_primary Context n None \<longleftrightarrow> True"
| "nonneg_Info_primary Context n (Some P) \<longleftrightarrow>
     (if Derived P = Some n then nonneg_Info Context P else True)"
| "nonneg_Info_bases Context Layout [] \<longleftrightarrow> True"
| "nonneg_Info_bases Context Layout (Base # rest) \<longleftrightarrow>
     (if IsVirtual Base then True
      else 0 \<le> getBaseClassOffset Layout (declId (info (Class Base))) \<and>
           nonneg_Info Context Base) \<and>
     nonneg_Info_bases Context Layout rest"
  by pat_completeness auto

termination
  by (relation "measure
        (\<lambda>x. case x of
           Inl (Context, Info) \<Rightarrow> size Info
         | Inr (Inl (Context, Layout, Bs)) \<Rightarrow> size_list size Bs
         | Inr (Inr (Context, n, PVBI)) \<Rightarrow> size_option size PVBI)")
     auto

text \<open>
  What the map has recorded, and the invariant its operations keep: the tracked bound is
  not negative, and every recorded offset is non-negative, is at most
  \<open>MaxEmptyClassOffset\<close> and is recorded only under a positive bound.
\<close>

definition recorded :: "EmptySubobjectMap \<Rightarrow> nat \<Rightarrow> int \<Rightarrow> bool" where
  "recorded M c Offset \<longleftrightarrow>
     (case EmptyClassOffsets M Offset of None \<Rightarrow> False | Some Classes \<Rightarrow> c \<in> set Classes)"

text \<open>\<open>extends M M'\<close>: \<open>M'\<close> keeps the bound and every entry of \<open>M\<close>.\<close>

definition extends :: "EmptySubobjectMap \<Rightarrow> EmptySubobjectMap \<Rightarrow> bool" where
  "extends M M' \<longleftrightarrow>
     SizeOfLargestEmptySubobject M' = SizeOfLargestEmptySubobject M \<and>
     MaxEmptyClassOffset M \<le> MaxEmptyClassOffset M' \<and>
     (\<forall>c Offset. recorded M c Offset \<longrightarrow> recorded M' c Offset)"


text \<open>
  The base subobjects of a node of the base-subobject graph: the part of
  \<open>subobjects_Info\<close> that does not go through a member.
\<close>

function (sequential) baseSubobjects_Info ::
      "BaseSubobjectInfo \<Rightarrow> int \<Rightarrow> (DeclInfo \<times> int) list"
and baseSubobjects_Info_bases ::
      "ASTRecordLayout \<Rightarrow> BaseSubobjectInfo list \<Rightarrow> int \<Rightarrow> (DeclInfo \<times> int) list"
and baseSubobjects_Info_primary ::
      "nat \<Rightarrow> BaseSubobjectInfo option \<Rightarrow> int \<Rightarrow> (DeclInfo \<times> int) list"
where
  "baseSubobjects_Info (BaseSubobjectInfo n Cl virt Bs PVBI D) Offset =
     (info Cl, Offset) #
     baseSubobjects_Info_bases (getASTRecordLayout Cl) Bs Offset @
     baseSubobjects_Info_primary n PVBI Offset"
| "baseSubobjects_Info_primary n None Offset = []"
| "baseSubobjects_Info_primary n (Some P) Offset =
     (if Derived P = Some n then baseSubobjects_Info P Offset else [])"
| "baseSubobjects_Info_bases Layout [] Offset = []"
| "baseSubobjects_Info_bases Layout (Base # rest) Offset =
     (if IsVirtual Base then []
      else baseSubobjects_Info Base
             (Offset + getBaseClassOffset Layout (declId (info (Class Base))))) @
     baseSubobjects_Info_bases Layout rest Offset"
  by pat_completeness auto

termination
  by (relation "measure
        (\<lambda>x. case x of
           Inl (Info, Offset) \<Rightarrow> size Info
         | Inr (Inl (Layout, Bs, Offset)) \<Rightarrow> size_list size Bs
         | Inr (Inr (n, PVBI, Offset)) \<Rightarrow> size_option size PVBI)")
     auto







section \<open>Itanium builder\<close>

text \<open>What an external layout source supplies for a record (\<^verbatim>\<open>layoutRecordType\<close>).\<close>

record ExternalLayoutInfo =
  Ext_Size :: int
  Ext_Align :: int
  Ext_FieldOffsets :: "nat \<rightharpoonup> int"
  Ext_BaseOffsets :: "nat \<rightharpoonup> int"
  Ext_VirtualBaseOffsets :: "nat \<rightharpoonup> int"

text \<open>
  The state of \<^verbatim>\<open>RecordLayoutBuilder\<close>. \<open>Size\<close> and \<open>DataSize\<close> are in bits, the
  alignments in chars. \<open>EmptySubobjects\<close> is \<open>None\<close> for the null pointer the builder
  gets for C records and Objective-C interfaces. The diagnostics
  (\<^verbatim>\<open>CheckFieldPadding\<close>, the padding and packing warnings of \<^verbatim>\<open>FinishLayout\<close>)
  change no state and are left out.
\<close>

record RecordLayoutBuilder =
  EmptySubobjects :: "EmptySubobjectMap option"
  Size :: int
  Alignment :: int
  UnpackedAlignment :: int
  FieldOffsets :: "int list"
  ExternalLayout :: bool
  InferAlignment :: bool
  Packed :: bool
  IsUnion :: bool
  IsMac68kAlign :: bool
  IsMsStruct :: bool
  UnfilledBitsInLastUnit :: int
  LastBitfieldTypeSize :: int
  MaxFieldAlignment :: int
  DataSize :: int
  NonVirtualSize :: int
  NonVirtualAlignment :: int
  PrimaryBase :: "CXXRecordDecl option"
  PrimaryBaseIsVirtual :: bool
  HasOwnVFPtr :: bool
  BaseOffsets :: "nat \<rightharpoonup> int"
  VBaseOffsets :: "nat \<rightharpoonup> VBaseInfo"
  IndirectPrimaryBases :: "nat set"
  FirstNearlyEmptyVBase :: "CXXRecordDecl option"
  VisitedVirtualBases :: "nat set"
  ExternalSize :: int
  ExternalAlign :: int
  ExternalFieldOffsets :: "nat \<rightharpoonup> int"
  ExternalBaseOffsets :: "nat \<rightharpoonup> int"
  ExternalVirtualBaseOffsets :: "nat \<rightharpoonup> int"
  VirtualBaseInfo :: "nat \<rightharpoonup> BaseSubobjectInfo"
  NonVirtualBaseInfo :: "nat \<rightharpoonup> BaseSubobjectInfo"

text \<open>The constructor. (\<open>BaseOffsets\<close> and \<open>VBaseOffsets\<close> are the members
  \<^verbatim>\<open>Bases\<close> and \<^verbatim>\<open>VBases\<close>.)\<close>

definition newRecordLayoutBuilder :: "EmptySubobjectMap option \<Rightarrow> RecordLayoutBuilder" where
  "newRecordLayoutBuilder ESM =
     \<lparr>EmptySubobjects = ESM, Size = 0, Alignment = 1, UnpackedAlignment = 1,
      FieldOffsets = [], ExternalLayout = False, InferAlignment = False, Packed = False,
      IsUnion = False, IsMac68kAlign = False, IsMsStruct = False,
      UnfilledBitsInLastUnit = 0, LastBitfieldTypeSize = 0, MaxFieldAlignment = 0,
      DataSize = 0, NonVirtualSize = 0, NonVirtualAlignment = 1, PrimaryBase = None,
      PrimaryBaseIsVirtual = False, HasOwnVFPtr = False, BaseOffsets = Map.empty,
      VBaseOffsets = Map.empty, IndirectPrimaryBases = {}, FirstNearlyEmptyVBase = None,
      VisitedVirtualBases = {}, ExternalSize = 0, ExternalAlign = 0,
      ExternalFieldOffsets = Map.empty, ExternalBaseOffsets = Map.empty,
      ExternalVirtualBaseOffsets = Map.empty, VirtualBaseInfo = Map.empty,
      NonVirtualBaseInfo = Map.empty\<rparr>"

definition getSizeInChars :: "ASTContext \<Rightarrow> RecordLayoutBuilder \<Rightarrow> int" where
  "getSizeInChars Context B = toCharUnitsFromBits Context (Size B)"

definition getDataSizeInChars :: "ASTContext \<Rightarrow> RecordLayoutBuilder \<Rightarrow> int" where
  "getDataSizeInChars Context B = toCharUnitsFromBits Context (DataSize B)"

definition UpdateAlignment :: "int \<Rightarrow> int \<Rightarrow> RecordLayoutBuilder \<Rightarrow> RecordLayoutBuilder" where
  "UpdateAlignment NewAlignment UnpackedNewAlignment B =
     (if IsMac68kAlign B \<or> (ExternalLayout B \<and> \<not> InferAlignment B) then B
      else B\<lparr>Alignment := (if NewAlignment > Alignment B then NewAlignment else Alignment B),
             UnpackedAlignment :=
               (if UnpackedNewAlignment > UnpackedAlignment B then UnpackedNewAlignment
                else UnpackedAlignment B)\<rparr>)"

subsection \<open>Primary base\<close>

text \<open>
  \<^verbatim>\<open>SelectPrimaryVBase\<close>: the walk over the bases of \<open>RD\<close>, each base before its
  own bases, that stops at the first nearly empty virtual base that is not an indirect
  primary base and remembers the first nearly empty virtual base it meets.
\<close>

definition rememberFirstNearlyEmptyVBase ::
    "bool \<Rightarrow> CXXRecordDecl \<Rightarrow> RecordLayoutBuilder \<Rightarrow> RecordLayoutBuilder" where
  "rememberFirstNearlyEmptyVBase virt Base B =
     (if virt \<and> isNearlyEmpty (info Base) \<and> FirstNearlyEmptyVBase B = None
      then B\<lparr>FirstNearlyEmptyVBase := Some Base\<rparr> else B)"

function (sequential) SelectPrimaryVBase ::
      "RecordLayoutBuilder \<Rightarrow> CXXRecordDecl \<Rightarrow> RecordLayoutBuilder"
and SelectPrimaryVBase_bases ::
      "RecordLayoutBuilder \<Rightarrow> CXXBaseSpecifier list \<Rightarrow> RecordLayoutBuilder"
where
  "SelectPrimaryVBase B (CXXRecordDecl RD bs vbs fs Layout) = SelectPrimaryVBase_bases B bs"
| "SelectPrimaryVBase_bases B [] = B"
| "SelectPrimaryVBase_bases B (CXXBaseSpecifier virt Base # rest) =
     (if virt \<and> isNearlyEmpty (info Base) \<and> declId (info Base) \<notin> IndirectPrimaryBases B
      then B\<lparr>PrimaryBase := Some Base, PrimaryBaseIsVirtual := True\<rparr>
      else if PrimaryBase
                (SelectPrimaryVBase (rememberFirstNearlyEmptyVBase virt Base B) Base) \<noteq> None
      then SelectPrimaryVBase (rememberFirstNearlyEmptyVBase virt Base B) Base
      else SelectPrimaryVBase_bases
             (SelectPrimaryVBase (rememberFirstNearlyEmptyVBase virt Base B) Base) rest)"
  by pat_completeness auto

termination
  by (relation "measure
        (\<lambda>x. case x of
           Inl (B, RD) \<Rightarrow> size RD
         | Inr (B, bs) \<Rightarrow> size_list size bs)")
     auto

text \<open>The first loop of \<^verbatim>\<open>DeterminePrimaryBase\<close>: the first direct non-virtual
  dynamic base.\<close>

fun firstNonVirtualDynamicBase :: "CXXBaseSpecifier list \<Rightarrow> CXXRecordDecl option" where
  "firstNonVirtualDynamicBase [] = None"
| "firstNonVirtualDynamicBase (i # rest) =
     (if isVirtual i then firstNonVirtualDynamicBase rest
      else if isDynamicClass (info (getBaseDecl i)) then Some (getBaseDecl i)
      else firstNonVirtualDynamicBase rest)"

definition getNumVBases :: "CXXRecordDecl \<Rightarrow> nat" where
  "getNumVBases RD = length (vbases RD)"

text \<open>
  \<^verbatim>\<open>DeterminePrimaryBase\<close>. \<open>IndirectPrimary\<close> is what
  \<^verbatim>\<open>RD->getIndirectPrimaryBases\<close> adds to the set: the virtual bases that are primary
  bases of some direct or indirect base of \<open>RD\<close>.
\<close>

definition DeterminePrimaryBase ::
    "nat set \<Rightarrow> CXXRecordDecl \<Rightarrow> RecordLayoutBuilder \<Rightarrow> RecordLayoutBuilder" where
  "DeterminePrimaryBase IndirectPrimary RD B =
     (if \<not> isDynamicClass (info RD) then B
      else
        let B1 = B\<lparr>IndirectPrimaryBases := IndirectPrimaryBases B \<union> IndirectPrimary\<rparr> in
        case firstNonVirtualDynamicBase (bases RD) of
          Some Base \<Rightarrow> B1\<lparr>PrimaryBase := Some Base, PrimaryBaseIsVirtual := False\<rparr>
        | None \<Rightarrow>
            let B2 = (if getNumVBases RD \<noteq> 0 then SelectPrimaryVBase B1 RD else B1) in
            if getNumVBases RD \<noteq> 0 \<and> PrimaryBase B2 \<noteq> None then B2
            else if FirstNearlyEmptyVBase B2 \<noteq> None
            then B2\<lparr>PrimaryBase := FirstNearlyEmptyVBase B2, PrimaryBaseIsVirtual := True\<rparr>
            else B2)"

text \<open>
  The specification's wording of the choice, to be compared with the code: all base
  specifiers of the hierarchy in recursive inheritance order (each base before its own
  bases), and the first of them that satisfies a condition.
\<close>

function (sequential) spec_inheritanceOrder :: "CXXRecordDecl \<Rightarrow> CXXBaseSpecifier list"
and spec_inheritanceOrder_bases :: "CXXBaseSpecifier list \<Rightarrow> CXXBaseSpecifier list"
where
  "spec_inheritanceOrder (CXXRecordDecl RD bs vbs fs Layout) = spec_inheritanceOrder_bases bs"
| "spec_inheritanceOrder_bases [] = []"
| "spec_inheritanceOrder_bases (CXXBaseSpecifier virt Base # rest) =
     CXXBaseSpecifier virt Base # spec_inheritanceOrder Base @ spec_inheritanceOrder_bases rest"
  by pat_completeness auto

termination
  by (relation "measure
        (\<lambda>x. case x of Inl RD \<Rightarrow> size RD | Inr bs \<Rightarrow> size_list size bs)")
     auto

definition spec_nearlyEmptyVBase :: "CXXBaseSpecifier \<Rightarrow> bool" where
  "spec_nearlyEmptyVBase I \<longleftrightarrow> isVirtual I \<and> isNearlyEmpty (info (getBaseDecl I))"

definition spec_PrimaryBase :: "nat set \<Rightarrow> CXXRecordDecl \<Rightarrow> (CXXRecordDecl \<times> bool) option" where
  "spec_PrimaryBase IndirectPrimary RD =
     (if \<not> isDynamicClass (info RD) then None
      else case List.find (\<lambda>I. \<not> isVirtual I \<and> isDynamicClass (info (getBaseDecl I))) (bases RD) of
        Some I \<Rightarrow> Some (getBaseDecl I, False)
      | None \<Rightarrow>
         (case List.find (\<lambda>I. spec_nearlyEmptyVBase I \<and>
                               declId (info (getBaseDecl I)) \<notin> IndirectPrimary)
                 (spec_inheritanceOrder RD) of
            Some I \<Rightarrow> Some (getBaseDecl I, True)
          | None \<Rightarrow>
             (case List.find spec_nearlyEmptyVBase (spec_inheritanceOrder RD) of
                Some I \<Rightarrow> Some (getBaseDecl I, True)
              | None \<Rightarrow> None)))"

text \<open>
  What a walk of \<^verbatim>\<open>SelectPrimaryVBase\<close> over the base specifiers \<open>xs\<close> has done
  to the state: the set of indirect primary bases is kept; the primary base is the first
  nearly empty virtual base of \<open>xs\<close> outside that set, if any; otherwise none is chosen
  and the first nearly empty virtual base met is remembered.
\<close>

definition selected :: "RecordLayoutBuilder \<Rightarrow> CXXBaseSpecifier list \<Rightarrow> RecordLayoutBuilder \<Rightarrow> bool" where
  "selected B xs B' \<longleftrightarrow>
     IndirectPrimaryBases B' = IndirectPrimaryBases B \<and>
     (case List.find (\<lambda>I. spec_nearlyEmptyVBase I \<and>
                           declId (info (getBaseDecl I)) \<notin> IndirectPrimaryBases B) xs of
        Some I \<Rightarrow> PrimaryBase B' = Some (getBaseDecl I) \<and> PrimaryBaseIsVirtual B'
      | None \<Rightarrow>
          PrimaryBase B' = None \<and>
          FirstNearlyEmptyVBase B' =
            (case FirstNearlyEmptyVBase B of
               Some F \<Rightarrow> Some F
             | None \<Rightarrow> map_option getBaseDecl (List.find spec_nearlyEmptyVBase xs)))"

subsection \<open>Bases\<close>

definition EnsureVTablePointerAlignment ::
    "ASTContext \<Rightarrow> int \<Rightarrow> RecordLayoutBuilder \<Rightarrow> RecordLayoutBuilder" where
  "EnsureVTablePointerAlignment Context UnpackedBaseAlign0 B =
     (let BaseAlign0 = (if Packed B then 1 else UnpackedBaseAlign0);
          BaseAlign = (if MaxFieldAlignment B \<noteq> 0 then min BaseAlign0 (MaxFieldAlignment B)
                       else BaseAlign0);
          UnpackedBaseAlign =
            (if MaxFieldAlignment B \<noteq> 0 then min UnpackedBaseAlign0 (MaxFieldAlignment B)
             else UnpackedBaseAlign0);
          B1 = B\<lparr>Size := toBits Context
                          (RoundUpToAlignment (getSizeInChars Context B) BaseAlign)\<rparr>;
          B2 = B1\<lparr>DataSize := toBits Context (getSizeInChars Context B1)\<rparr>
      in UpdateAlignment BaseAlign UnpackedBaseAlign B2)"

text \<open>
  The trial loop of \<^verbatim>\<open>LayoutBase\<close>:
  \<^verbatim>\<open>while (!EmptySubobjects->CanPlaceBaseAtOffset(Base, Offset)) Offset += BaseAlign;\<close>
  It yields the accepted offset and the updated map, and has no value when the loop
  does not end.
\<close>

partial_function (option) LayoutBase_loop ::
    "ASTContext \<Rightarrow> EmptySubobjectMap \<Rightarrow> BaseSubobjectInfo \<Rightarrow> int \<Rightarrow> int \<Rightarrow>
     (int \<times> EmptySubobjectMap) option" where
  "LayoutBase_loop Context M Base Offset BaseAlign =
     (if fst (CanPlaceBaseAtOffset Context M Base Offset)
      then Some (Offset, snd (CanPlaceBaseAtOffset Context M Base Offset))
      else LayoutBase_loop Context M Base (Offset + BaseAlign) BaseAlign)"

text \<open>
  The end of \<^verbatim>\<open>LayoutBase\<close>, once the offset is known: the data size and size grow
  to hold the base, and the alignment is updated.
\<close>

definition LayoutBase_place ::
    "ASTContext \<Rightarrow> BaseSubobjectInfo \<Rightarrow> int \<Rightarrow> int \<Rightarrow> int \<Rightarrow> RecordLayoutBuilder \<Rightarrow>
     RecordLayoutBuilder" where
  "LayoutBase_place Context Base Offset BaseAlign UnpackedBaseAlign B =
     (let Layout = getASTRecordLayout (Class Base);
          B1 = (if \<not> isEmpty (info (Class Base))
                then let B' = B\<lparr>DataSize := toBits Context (Offset + getNonVirtualSize Layout)\<rparr>
                     in B'\<lparr>Size := toBits Context
                                      (max (getSizeInChars Context B')
                                           (getDataSizeInChars Context B'))\<rparr>
                else B\<lparr>Size := toBits Context
                                  (max (getSizeInChars Context B) (Offset + getSize Layout))\<rparr>)
      in UpdateAlignment BaseAlign UnpackedBaseAlign B1)"

text \<open>
  The offset an external layout source supplies for a base, if any, and the alignments
  \<open>BaseAlign\<close> and \<open>UnpackedBaseAlign\<close> of \<^verbatim>\<open>LayoutBase\<close> after the clamp by
  \<^verbatim>\<open>#pragma pack\<close>.
\<close>

definition externalBaseOffset :: "RecordLayoutBuilder \<Rightarrow> BaseSubobjectInfo \<Rightarrow> int option" where
  "externalBaseOffset B Base =
     (if ExternalLayout B
      then (if IsVirtual Base then ExternalVirtualBaseOffsets B (declId (info (Class Base)))
            else ExternalBaseOffsets B (declId (info (Class Base))))
      else None)"

definition LayoutBase_aligns :: "BaseSubobjectInfo \<Rightarrow> RecordLayoutBuilder \<Rightarrow> int \<times> int" where
  "LayoutBase_aligns Base B =
     (let UnpackedBaseAlign = getNonVirtualAlignment (getASTRecordLayout (Class Base));
          BaseAlign = (if Packed B then 1 else UnpackedBaseAlign)
      in if MaxFieldAlignment B \<noteq> 0
         then (min BaseAlign (MaxFieldAlignment B), min UnpackedBaseAlign (MaxFieldAlignment B))
         else (BaseAlign, UnpackedBaseAlign))"

text \<open>
  \<^verbatim>\<open>LayoutBase\<close>: the offset at which the base is placed, and the new state. There
  is no value when the map pointer is null or the trial loop does not end.
\<close>

definition LayoutBase ::
    "ASTContext \<Rightarrow> BaseSubobjectInfo \<Rightarrow> RecordLayoutBuilder \<Rightarrow>
     (int \<times> RecordLayoutBuilder) option" where
  "LayoutBase Context Base B =
     (case EmptySubobjects B of
        None \<Rightarrow> None
      | Some M \<Rightarrow>
     (let Layout = getASTRecordLayout (Class Base);
          HasExternalLayout = (externalBaseOffset B Base \<noteq> None);
          Offset = (case externalBaseOffset B Base of None \<Rightarrow> 0 | Some Off \<Rightarrow> Off);
          UnpackedBaseAlign0 = getNonVirtualAlignment Layout;
          BaseAlign0 = (if Packed B then 1 else UnpackedBaseAlign0);
          BaseAlign = fst (LayoutBase_aligns Base B);
          UnpackedBaseAlign = snd (LayoutBase_aligns Base B)
      in
      if isEmpty (info (Class Base)) \<and> (\<not> HasExternalLayout \<or> Offset = 0) \<and>
         fst (CanPlaceBaseAtOffset Context M Base 0)
      then
        Some (0, UpdateAlignment BaseAlign0 UnpackedBaseAlign0
                   (B\<lparr>EmptySubobjects := Some (snd (CanPlaceBaseAtOffset Context M Base 0)),
                      Size := toBits Context
                                (max (getSizeInChars Context B) (getSize Layout))\<rparr>))
      else if \<not> HasExternalLayout then
        (case LayoutBase_loop Context M Base
                (RoundUpToAlignment (getDataSizeInChars Context B) BaseAlign) BaseAlign of
           None \<Rightarrow> None
         | Some (Offset', M') \<Rightarrow>
             Some (Offset', LayoutBase_place Context Base Offset' BaseAlign UnpackedBaseAlign
                              (B\<lparr>EmptySubobjects := Some M'\<rparr>)))
      else
        Some (Offset,
              LayoutBase_place Context Base Offset BaseAlign UnpackedBaseAlign
                ((if InferAlignment B \<and>
                     Offset < RoundUpToAlignment (getDataSizeInChars Context B) BaseAlign
                  then B\<lparr>Alignment := 1, InferAlignment := False\<rparr> else B)
                 \<lparr>EmptySubobjects := Some (snd (CanPlaceBaseAtOffset Context M Base Offset))\<rparr>))))"

text \<open>
  \<^verbatim>\<open>AddPrimaryVirtualBaseOffsets\<close>: the virtual bases that the subobject at
  \<open>Offset\<close> (or one of its non-virtual bases) has claimed as primary bases get that
  subobject's offset. \<open>VB\<close> is the table of virtual base offsets.
\<close>

definition insertVBase :: "(nat \<rightharpoonup> VBaseInfo) \<Rightarrow> nat \<Rightarrow> int \<Rightarrow> (nat \<rightharpoonup> VBaseInfo)" where
  "insertVBase VB c Offset =
     (if c \<in> dom VB then VB else VB(c \<mapsto> \<lparr>VBaseOffset = Offset, hasVtorDisp = False\<rparr>))"

function (sequential) AddPrimaryVirtualBaseOffsets ::
      "(nat \<rightharpoonup> VBaseInfo) \<Rightarrow> BaseSubobjectInfo \<Rightarrow> int \<Rightarrow> (nat \<rightharpoonup> VBaseInfo)"
and AddPrimaryVirtualBaseOffsets_primary ::
      "(nat \<rightharpoonup> VBaseInfo) \<Rightarrow> nat \<Rightarrow> BaseSubobjectInfo option \<Rightarrow> int \<Rightarrow> (nat \<rightharpoonup> VBaseInfo)"
and AddPrimaryVirtualBaseOffsets_bases ::
      "(nat \<rightharpoonup> VBaseInfo) \<Rightarrow> ASTRecordLayout \<Rightarrow> BaseSubobjectInfo list \<Rightarrow> int \<Rightarrow> (nat \<rightharpoonup> VBaseInfo)"
where
  "AddPrimaryVirtualBaseOffsets VB (BaseSubobjectInfo n Cl virt Bs PVBI D) Offset =
     (if getNumVBases Cl = 0 then VB
      else AddPrimaryVirtualBaseOffsets_bases
             (AddPrimaryVirtualBaseOffsets_primary VB n PVBI Offset)
             (getASTRecordLayout Cl) Bs Offset)"
| "AddPrimaryVirtualBaseOffsets_primary VB n None Offset = VB"
| "AddPrimaryVirtualBaseOffsets_primary VB n (Some P) Offset =
     (if Derived P = Some n
      then AddPrimaryVirtualBaseOffsets (insertVBase VB (declId (info (Class P))) Offset) P Offset
      else VB)"
| "AddPrimaryVirtualBaseOffsets_bases VB Layout [] Offset = VB"
| "AddPrimaryVirtualBaseOffsets_bases VB Layout (Base # rest) Offset =
     (if IsVirtual Base then AddPrimaryVirtualBaseOffsets_bases VB Layout rest Offset
      else AddPrimaryVirtualBaseOffsets_bases
             (AddPrimaryVirtualBaseOffsets VB Base
                (Offset + getBaseClassOffset Layout (declId (info (Class Base)))))
             Layout rest Offset)"
  by pat_completeness auto

termination
  by (relation "measure
        (\<lambda>x. case x of
           Inl (VB, Info, Offset) \<Rightarrow> size Info
         | Inr (Inl (VB, n, PVBI, Offset)) \<Rightarrow> size_option size PVBI
         | Inr (Inr (VB, Layout, Bs, Offset)) \<Rightarrow> size_list size Bs)")
     auto

text \<open>\<^verbatim>\<open>LayoutNonVirtualBase\<close> and \<^verbatim>\<open>LayoutVirtualBase\<close>: the base is laid out
  and its offset is entered in the table, unless the table has the class already.\<close>

definition LayoutNonVirtualBase ::
    "ASTContext \<Rightarrow> BaseSubobjectInfo \<Rightarrow> RecordLayoutBuilder \<Rightarrow> RecordLayoutBuilder option" where
  "LayoutNonVirtualBase Context Base B =
     (case LayoutBase Context Base B of
        None \<Rightarrow> None
      | Some (Offset, B') \<Rightarrow>
          Some (B'\<lparr>BaseOffsets :=
                     (if declId (info (Class Base)) \<in> dom (BaseOffsets B') then BaseOffsets B'
                      else (BaseOffsets B')(declId (info (Class Base)) \<mapsto> Offset)),
                   VBaseOffsets := AddPrimaryVirtualBaseOffsets (VBaseOffsets B') Base Offset\<rparr>))"

definition LayoutVirtualBase ::
    "ASTContext \<Rightarrow> BaseSubobjectInfo \<Rightarrow> RecordLayoutBuilder \<Rightarrow> RecordLayoutBuilder option" where
  "LayoutVirtualBase Context Base B =
     (case LayoutBase Context Base B of
        None \<Rightarrow> None
      | Some (Offset, B') \<Rightarrow>
          Some (B'\<lparr>VBaseOffsets :=
                     AddPrimaryVirtualBaseOffsets
                       (insertVBase (VBaseOffsets B') (declId (info (Class Base))) Offset)
                       Base Offset\<rparr>))"

text \<open>
  The assignment \<^verbatim>\<open>PrimaryBaseInfo->Derived = 0\<close> of \<^verbatim>\<open>LayoutNonVirtualBases\<close>
  changes a node that the graph shares; in the unfolded graph it is made wherever the
  node occurs.
\<close>

primrec clearDerived :: "nat \<Rightarrow> BaseSubobjectInfo \<Rightarrow> BaseSubobjectInfo" where
  "clearDerived k (BaseSubobjectInfo n Cl virt Bs PVBI D) =
     BaseSubobjectInfo n Cl virt (map (clearDerived k) Bs) (map_option (clearDerived k) PVBI)
       (if n = k then None else D)"

text \<open>
  \<^verbatim>\<open>LayoutNonVirtualBases\<close>. The base-subobject graph that
  \<^verbatim>\<open>ComputeBaseSubobjectInfo\<close> builds is taken as given: the tables
  \<open>NonVirtualBaseInfo\<close> and \<open>VirtualBaseInfo\<close> of the state hold it. There is no value
  where the source dereferences a null pointer.
\<close>

fun LayoutNonVirtualBases_loop ::
    "ASTContext \<Rightarrow> CXXBaseSpecifier list \<Rightarrow> RecordLayoutBuilder \<Rightarrow> RecordLayoutBuilder option"
where
  "LayoutNonVirtualBases_loop Context [] B = Some B"
| "LayoutNonVirtualBases_loop Context (I # rest) B =
     (if isVirtual I then LayoutNonVirtualBases_loop Context rest B
      else if map_option (\<lambda>P. declId (info P)) (PrimaryBase B) = Some (declId (info (getBaseDecl I)))
              \<and> \<not> PrimaryBaseIsVirtual B
      then LayoutNonVirtualBases_loop Context rest B
      else case NonVirtualBaseInfo B (declId (info (getBaseDecl I))) of
             None \<Rightarrow> None
           | Some BaseInfo \<Rightarrow>
               (case LayoutNonVirtualBase Context BaseInfo B of
                  None \<Rightarrow> None
                | Some B' \<Rightarrow> LayoutNonVirtualBases_loop Context rest B'))"

definition LayoutNonVirtualBases ::
    "ASTContext \<Rightarrow> nat set \<Rightarrow> CXXRecordDecl \<Rightarrow> RecordLayoutBuilder \<Rightarrow> RecordLayoutBuilder option"
where
  "LayoutNonVirtualBases Context IndirectPrimary RD B =
     (let B1 = DeterminePrimaryBase IndirectPrimary RD B;
          B2 =
            (case PrimaryBase B1 of
               Some PB \<Rightarrow>
                 if PrimaryBaseIsVirtual B1 then
                   (case VirtualBaseInfo B1 (declId (info PB)) of
                      None \<Rightarrow> None
                    | Some PrimaryBaseInfo \<Rightarrow>
                        LayoutVirtualBase Context
                          (clearDerived (nodeId PrimaryBaseInfo) PrimaryBaseInfo)
                          (B1\<lparr>VirtualBaseInfo :=
                                map_option (clearDerived (nodeId PrimaryBaseInfo)) \<circ>
                                  VirtualBaseInfo B1,
                              NonVirtualBaseInfo :=
                                map_option (clearDerived (nodeId PrimaryBaseInfo)) \<circ>
                                  NonVirtualBaseInfo B1,
                              IndirectPrimaryBases :=
                                insert (declId (info PB)) (IndirectPrimaryBases B1),
                              VisitedVirtualBases :=
                                insert (declId (info PB)) (VisitedVirtualBases B1)\<rparr>))
                 else
                   (case NonVirtualBaseInfo B1 (declId (info PB)) of
                      None \<Rightarrow> None
                    | Some PrimaryBaseInfo \<Rightarrow> LayoutNonVirtualBase Context PrimaryBaseInfo B1)
             | None \<Rightarrow>
                 if isDynamicClass (info RD) then
                   let PtrWidth = toCharUnitsFromBits Context (PointerWidth Context 0);
                       PtrAlign = toCharUnitsFromBits Context (PointerAlign Context 0);
                       B' = (EnsureVTablePointerAlignment Context PtrAlign B1)
                              \<lparr>HasOwnVFPtr := True\<rparr>;
                       B'' = B'\<lparr>Size := toBits Context (getSizeInChars Context B' + PtrWidth)\<rparr>
                   in Some (B''\<lparr>DataSize := toBits Context (getSizeInChars Context B'')\<rparr>)
                 else Some B1)
      in case B2 of
           None \<Rightarrow> None
         | Some B3 \<Rightarrow> LayoutNonVirtualBases_loop Context (bases RD) B3)"

text \<open>\<^verbatim>\<open>LayoutVirtualBases\<close>. \<open>MostDerived\<close> is the identity of the class under
  layout; \<open>PB\<close> and \<open>PBV\<close> are the primary base of the class whose bases are walked.\<close>

function (sequential) LayoutVirtualBases ::
      "ASTContext \<Rightarrow> CXXRecordDecl \<Rightarrow> nat \<Rightarrow> RecordLayoutBuilder \<Rightarrow> RecordLayoutBuilder option"
and LayoutVirtualBases_loop ::
      "ASTContext \<Rightarrow> nat option \<Rightarrow> bool \<Rightarrow> CXXBaseSpecifier list \<Rightarrow> nat \<Rightarrow>
       RecordLayoutBuilder \<Rightarrow> RecordLayoutBuilder option"
where
  "LayoutVirtualBases Context (CXXRecordDecl RD bs vbs fs Layout) MostDerived B =
     (if MostDerived = declId RD
      then LayoutVirtualBases_loop Context
             (map_option (\<lambda>P. declId (info P)) (PrimaryBase B)) (PrimaryBaseIsVirtual B)
             bs MostDerived B
      else LayoutVirtualBases_loop Context (getPrimaryBase Layout) (isPrimaryBaseVirtual Layout)
             bs MostDerived B)"
| "LayoutVirtualBases_loop Context PB PBV [] MostDerived B = Some B"
| "LayoutVirtualBases_loop Context PB PBV (CXXBaseSpecifier virt BaseDecl # rest) MostDerived B =
     (if virt \<and> (PB \<noteq> Some (declId (info BaseDecl)) \<or> \<not> PBV) \<and>
         declId (info BaseDecl) \<notin> IndirectPrimaryBases B
      then
        (if declId (info BaseDecl) \<in> VisitedVirtualBases B
         then LayoutVirtualBases_loop Context PB PBV rest MostDerived B
         else case VirtualBaseInfo B (declId (info BaseDecl)) of
                None \<Rightarrow> None
              | Some BaseInfo \<Rightarrow>
                  (case LayoutVirtualBase Context BaseInfo
                          (B\<lparr>VisitedVirtualBases :=
                               insert (declId (info BaseDecl)) (VisitedVirtualBases B)\<rparr>) of
                     None \<Rightarrow> None
                   | Some B' \<Rightarrow>
                       if getNumVBases BaseDecl = 0
                       then LayoutVirtualBases_loop Context PB PBV rest MostDerived B'
                       else (case LayoutVirtualBases Context BaseDecl MostDerived B' of
                               None \<Rightarrow> None
                             | Some B'' \<Rightarrow>
                                 LayoutVirtualBases_loop Context PB PBV rest MostDerived B'')))
      else if getNumVBases BaseDecl = 0
      then LayoutVirtualBases_loop Context PB PBV rest MostDerived B
      else (case LayoutVirtualBases Context BaseDecl MostDerived B of
              None \<Rightarrow> None
            | Some B' \<Rightarrow> LayoutVirtualBases_loop Context PB PBV rest MostDerived B'))"
  by pat_completeness auto

termination
  by (relation "measure
        (\<lambda>x. case x of
           Inl (Context, RD, MostDerived, B) \<Rightarrow> size RD
         | Inr (Context, PB, PBV, bs, MostDerived, B) \<Rightarrow> size_list size bs)")
     auto

subsection \<open>Fields\<close>

text \<open>
  \<^verbatim>\<open>updateExternalFieldOffset\<close>: the externally supplied offset of the field (zero
  when the source supplied none, where the source asserts), and the state.
\<close>

definition externalFieldOffset :: "RecordLayoutBuilder \<Rightarrow> FieldInfo \<Rightarrow> int" where
  "externalFieldOffset B FD =
     (case ExternalFieldOffsets B (FD_id FD) of None \<Rightarrow> 0 | Some Off \<Rightarrow> Off)"

definition updateExternalFieldOffset ::
    "FieldInfo \<Rightarrow> int \<Rightarrow> RecordLayoutBuilder \<Rightarrow> int \<times> RecordLayoutBuilder" where
  "updateExternalFieldOffset FD ComputedOffset B =
     (externalFieldOffset B FD,
      if InferAlignment B \<and> externalFieldOffset B FD < ComputedOffset
      then B\<lparr>Alignment := 1, InferAlignment := False\<rparr> else B)"

text \<open>The loop of \<^verbatim>\<open>LayoutWideBitField\<close> over the unsigned integral types, in the
  order of the array \<^verbatim>\<open>IntegralPODTypes\<close>.\<close>

definition IntegralPODTypes :: "IntegralPODType list" where
  "IntegralPODTypes =
     [UnsignedCharTy, UnsignedShortTy, UnsignedIntTy, UnsignedLongTy, UnsignedLongLongTy]"

fun selectWideType ::
    "ASTContext \<Rightarrow> int \<Rightarrow> IntegralPODType list \<Rightarrow> IntegralPODType option \<Rightarrow> IntegralPODType option"
where
  "selectWideType Context FieldSize [] Type = Type"
| "selectWideType Context FieldSize (T # rest) Type =
     (if getTypeSize Context T > FieldSize then Type
      else selectWideType Context FieldSize rest (Some T))"

text \<open>\<^verbatim>\<open>LayoutWideBitField\<close>. There is no value when no type is found (the source
  asserts).\<close>

definition LayoutWideBitField ::
    "ASTContext \<Rightarrow> int \<Rightarrow> int \<Rightarrow> bool \<Rightarrow> FieldInfo \<Rightarrow> RecordLayoutBuilder \<Rightarrow>
     RecordLayoutBuilder option" where
  "LayoutWideBitField Context FieldSize TypeSize FieldPacked D B =
     (case selectWideType Context FieldSize IntegralPODTypes None of
        None \<Rightarrow> None
      | Some Type \<Rightarrow>
          let TypeAlign = getTypeAlignInChars Context Type;
              B1 = B\<lparr>UnfilledBitsInLastUnit := 0, LastBitfieldTypeSize := 0\<rparr>;
              (FieldOffset, B2) =
                (if IsUnion B1 then (0, B1\<lparr>DataSize := max (DataSize B1) FieldSize\<rparr>)
                 else
                   let FieldOffset = RoundUpToAlignment (DataSize B1) (toBits Context TypeAlign);
                       NewSizeInBits = FieldOffset + FieldSize;
                       B' = B1\<lparr>DataSize := RoundUpToAlignment NewSizeInBits (CharAlign Context)\<rparr>
                   in (FieldOffset,
                       B'\<lparr>UnfilledBitsInLastUnit := (DataSize B' - NewSizeInBits) mod 256\<rparr>));
              B3 = B2\<lparr>FieldOffsets := FieldOffsets B2 @ [FieldOffset]\<rparr>;
              B4 = B3\<lparr>Size := max (Size B3) (DataSize B3)\<rparr>
          in Some (UpdateAlignment TypeAlign TypeAlign B4))"

text \<open>
  \<^verbatim>\<open>LayoutBitField\<close>, in the order of the source. First the adjustments for
  \<^verbatim>\<open>ms_struct\<close>: the alignment of the field, and the reset of the bit-packing unit
  when the type size changes.
\<close>

definition LayoutBitField_msAlign :: "FieldInfo \<Rightarrow> RecordLayoutBuilder \<Rightarrow> int" where
  "LayoutBitField_msAlign D B =
     (if IsMsStruct B
      then (if FD_BitWidthValue D = 0 \<and> LastBitfieldTypeSize B = 0 then 1
            else fst (FD_TypeInfo D))
      else snd (FD_TypeInfo D))"

definition LayoutBitField_msReset :: "FieldInfo \<Rightarrow> RecordLayoutBuilder \<Rightarrow> RecordLayoutBuilder" where
  "LayoutBitField_msReset D B =
     (if IsMsStruct B \<and> LastBitfieldTypeSize B \<noteq> fst (FD_TypeInfo D)
      then B\<lparr>UnfilledBitsInLastUnit := 0, LastBitfieldTypeSize := 0\<rparr> else B)"

text \<open>
  The alignments of a bit-field that is not wider than its type: \<open>FieldAlign\<close> and
  \<open>UnpackedFieldAlign\<close> in bits, as they stand before the test for an anonymous field.
  \<open>FieldAlign1\<close> is the alignment after the \<^verbatim>\<open>ms_struct\<close> adjustment.
\<close>

definition ZeroLengthBitfield :: "ASTContext \<Rightarrow> FieldInfo \<Rightarrow> bool" where
  "ZeroLengthBitfield Context D \<longleftrightarrow>
     \<not> useBitFieldTypeAlignment Context \<and> useZeroLengthBitfieldAlignment Context \<and>
     FD_BitWidthValue D = 0"

definition LayoutBitField_aligns ::
    "ASTContext \<Rightarrow> FieldInfo \<Rightarrow> int \<Rightarrow> RecordLayoutBuilder \<Rightarrow> int \<times> int" where
  "LayoutBitField_aligns Context D FieldAlign1 B =
     (let FieldPacked = (Packed B \<or> FD_hasPackedAttr D);
          FieldAlign2 =
            (if ZeroLengthBitfield Context D \<and>
                getZeroLengthBitfieldBoundary Context > FieldAlign1
             then getZeroLengthBitfieldBoundary Context else FieldAlign1);
          UnpackedFieldAlign0 =
            (if \<not> useBitFieldTypeAlignment Context \<and> \<not> ZeroLengthBitfield Context D then 1
             else FieldAlign2);
          FieldAlign3 =
            (if FieldPacked \<or>
                (\<not> useBitFieldTypeAlignment Context \<and> \<not> ZeroLengthBitfield Context D)
             then 1 else FieldAlign2);
          FieldAlign4 = max FieldAlign3 (FD_MaxAlignment D);
          UnpackedFieldAlign1 = max UnpackedFieldAlign0 (FD_MaxAlignment D)
      in if MaxFieldAlignment B \<noteq> 0 \<and> FD_BitWidthValue D \<noteq> 0
         then (min FieldAlign4 (toBits Context (MaxFieldAlignment B)),
               min UnpackedFieldAlign1 (toBits Context (MaxFieldAlignment B)))
         else (FieldAlign4, UnpackedFieldAlign1))"

text \<open>The bit offset the builder computes for the field, before any external offset.\<close>

definition LayoutBitField_offset ::
    "FieldInfo \<Rightarrow> int \<Rightarrow> RecordLayoutBuilder \<Rightarrow> int" where
  "LayoutBitField_offset D FieldAlign B =
     (let FieldSize = FD_BitWidthValue D;
          TypeSize = fst (FD_TypeInfo D);
          UnpaddedFieldOffset = DataSize B - UnfilledBitsInLastUnit B;
          FieldOffset0 = (if IsUnion B then 0 else UnpaddedFieldOffset);
          FieldOffset1 =
            (if IsMsStruct B \<and> LastBitfieldTypeSize B = 0
             then RoundUpToAlignment FieldOffset0 FieldAlign else FieldOffset0)
      in if FieldSize = 0 \<or>
            (MaxFieldAlignment B = 0 \<and>
             (FieldOffset1 AND (FieldAlign - 1)) + FieldSize > TypeSize)
         then RoundUpToAlignment FieldOffset1 FieldAlign else FieldOffset1)"

text \<open>The end of \<^verbatim>\<open>LayoutBitField\<close>: the data size grows to include the last unit
  that holds a part of the bit-field, and the size follows.\<close>

definition LayoutBitField_reserve ::
    "ASTContext \<Rightarrow> FieldInfo \<Rightarrow> int \<Rightarrow> RecordLayoutBuilder \<Rightarrow> RecordLayoutBuilder" where
  "LayoutBitField_reserve Context D FieldOffset B =
     (let FieldSize = FD_BitWidthValue D;
          TypeSize = fst (FD_TypeInfo D);
          B1 =
            (if IsUnion B then B\<lparr>DataSize := max (DataSize B) FieldSize\<rparr>
             else if IsMsStruct B \<and> FieldSize \<noteq> 0 then
               (if UnfilledBitsInLastUnit B = 0
                then B\<lparr>DataSize := FieldOffset + TypeSize,
                       UnfilledBitsInLastUnit := (TypeSize - FieldSize) mod 256\<rparr>
                else if UnfilledBitsInLastUnit B < FieldSize
                then B\<lparr>DataSize := DataSize B + TypeSize,
                       UnfilledBitsInLastUnit := (TypeSize - FieldSize) mod 256\<rparr>
                else B\<lparr>UnfilledBitsInLastUnit :=
                         (UnfilledBitsInLastUnit B - FieldSize) mod 256\<rparr>)
               \<lparr>LastBitfieldTypeSize := TypeSize mod 256\<rparr>
             else
               B\<lparr>DataSize := RoundUpToAlignment (FieldOffset + FieldSize) (CharAlign Context),
                  UnfilledBitsInLastUnit :=
                    (RoundUpToAlignment (FieldOffset + FieldSize) (CharAlign Context) -
                     (FieldOffset + FieldSize)) mod 256,
                  LastBitfieldTypeSize := 0\<rparr>)
      in B1\<lparr>Size := max (Size B1) (DataSize B1)\<rparr>)"

definition LayoutBitField ::
    "ASTContext \<Rightarrow> FieldInfo \<Rightarrow> RecordLayoutBuilder \<Rightarrow> RecordLayoutBuilder option" where
  "LayoutBitField Context D B =
     (let FieldAlign1 = LayoutBitField_msAlign D B;
          B1 = LayoutBitField_msReset D B
      in
      if FD_BitWidthValue D > fst (FD_TypeInfo D)
      then LayoutWideBitField Context (FD_BitWidthValue D) (fst (FD_TypeInfo D))
             (Packed B1 \<or> FD_hasPackedAttr D) D B1
      else
        let FieldAlign0 = fst (LayoutBitField_aligns Context D FieldAlign1 B1);
            UnpackedFieldAlign0 = snd (LayoutBitField_aligns Context D FieldAlign1 B1);
            ComputedOffset = LayoutBitField_offset D FieldAlign0 B1;
            Anonymous =
              (\<not> FD_hasIdentifier D \<and> \<not> useZeroLengthBitfieldAlignment Context \<and>
               \<not> IsMsStruct B1);
            FieldAlign = (if Anonymous then 1 else FieldAlign0);
            UnpackedFieldAlign = (if Anonymous then 1 else UnpackedFieldAlign0);
            FieldOffset =
              (if ExternalLayout B1 then fst (updateExternalFieldOffset D ComputedOffset B1)
               else ComputedOffset);
            B2 = (if ExternalLayout B1 then snd (updateExternalFieldOffset D ComputedOffset B1)
                  else B1);
            B3 = B2\<lparr>FieldOffsets := FieldOffsets B2 @ [FieldOffset]\<rparr>
        in Some (UpdateAlignment (toCharUnitsFromBits Context FieldAlign)
                   (toCharUnitsFromBits Context UnpackedFieldAlign)
                   (LayoutBitField_reserve Context D FieldOffset B3)))"

text \<open>
  The trial loop of \<^verbatim>\<open>LayoutField\<close>:
  \<^verbatim>\<open>while (!EmptySubobjects->CanPlaceFieldAtOffset(D, FieldOffset)) FieldOffset += FieldAlign;\<close>
\<close>

partial_function (option) LayoutField_loop ::
    "ASTContext \<Rightarrow> EmptySubobjectMap \<Rightarrow> FieldDecl \<Rightarrow> int \<Rightarrow> int \<Rightarrow>
     (int \<times> EmptySubobjectMap) option" where
  "LayoutField_loop Context M D FieldOffset FieldAlign =
     (if fst (CanPlaceFieldAtOffset Context M D FieldOffset)
      then Some (FieldOffset, snd (CanPlaceFieldAtOffset Context M D FieldOffset))
      else LayoutField_loop Context M D (FieldOffset + FieldAlign) FieldAlign)"

text \<open>The size and alignment in chars that \<^verbatim>\<open>LayoutField\<close> finds for a field that is
  not a bit-field.\<close>

definition fieldSizeAndAlign ::
    "ASTContext \<Rightarrow> bool \<Rightarrow> FieldDecl \<Rightarrow> int \<times> int" where
  "fieldSizeAndAlign Context MsStruct D =
     (case getType D of
        IncompleteArrayType T \<Rightarrow> (0, FD_ElementTypeAlign (fieldInfo D))
      | ReferenceType AS \<Rightarrow>
          (toCharUnitsFromBits Context (PointerWidth Context AS),
           toCharUnitsFromBits Context (PointerAlign Context AS))
      | _ \<Rightarrow>
          let FieldSize = toCharUnitsFromBits Context (fst (FD_TypeInfo (fieldInfo D)));
              FieldAlign = toCharUnitsFromBits Context (snd (FD_TypeInfo (fieldInfo D)))
          in (FieldSize,
              if MsStruct
              then (case FD_BuiltinBaseElementSize (fieldInfo D) of
                      None \<Rightarrow> FieldAlign
                    | Some TypeSize \<Rightarrow> if TypeSize > FieldAlign then TypeSize else FieldAlign)
              else FieldAlign))"

text \<open>\<open>FieldAlign\<close> and \<open>UnpackedFieldAlign\<close> of a field that is not a bit-field.\<close>

definition LayoutField_aligns ::
    "ASTContext \<Rightarrow> FieldDecl \<Rightarrow> RecordLayoutBuilder \<Rightarrow> int \<times> int" where
  "LayoutField_aligns Context D B =
     (let FieldPacked = (Packed B \<or> FD_hasPackedAttr (fieldInfo D));
          FieldAlign0 = snd (fieldSizeAndAlign Context (IsMsStruct B) D);
          MaxAlignmentInChars = toCharUnitsFromBits Context (FD_MaxAlignment (fieldInfo D));
          FieldAlign1 = max (if FieldPacked then 1 else FieldAlign0) MaxAlignmentInChars;
          UnpackedFieldAlign1 = max FieldAlign0 MaxAlignmentInChars
      in if MaxFieldAlignment B \<noteq> 0
         then (min FieldAlign1 (MaxFieldAlignment B), min UnpackedFieldAlign1 (MaxFieldAlignment B))
         else (FieldAlign1, UnpackedFieldAlign1))"

text \<open>The offset in chars the builder computes for the field, before any external
  offset and before the empty-subobject map is asked.\<close>

definition LayoutField_offset :: "ASTContext \<Rightarrow> FieldDecl \<Rightarrow> RecordLayoutBuilder \<Rightarrow> int" where
  "LayoutField_offset Context D B =
     RoundUpToAlignment (if IsUnion B then 0 else getDataSizeInChars Context B)
       (fst (LayoutField_aligns Context D B))"

text \<open>
  The placement: under an external layout the external offset is taken and the map is
  told; otherwise the map is asked until it accepts. A union, and a builder without a
  map, take the computed offset.
\<close>

definition LayoutField_placeExternal ::
    "ASTContext \<Rightarrow> FieldDecl \<Rightarrow> RecordLayoutBuilder \<Rightarrow> int \<times> RecordLayoutBuilder" where
  "LayoutField_placeExternal Context D B =
     (let Upd = updateExternalFieldOffset (fieldInfo D)
                  (toBits Context (LayoutField_offset Context D B)) B;
          FieldOffset = toCharUnitsFromBits Context (fst Upd);
          B2 = snd Upd
      in case EmptySubobjects B2 of
           Some M \<Rightarrow>
             if \<not> IsUnion B2
             then (FieldOffset,
                   B2\<lparr>EmptySubobjects :=
                        Some (snd (CanPlaceFieldAtOffset Context M D FieldOffset))\<rparr>)
             else (FieldOffset, B2)
         | None \<Rightarrow> (FieldOffset, B2))"

definition LayoutField_placeComputed ::
    "ASTContext \<Rightarrow> FieldDecl \<Rightarrow> RecordLayoutBuilder \<Rightarrow> (int \<times> RecordLayoutBuilder) option" where
  "LayoutField_placeComputed Context D B =
     (case EmptySubobjects B of
        Some M \<Rightarrow>
          if \<not> IsUnion B
          then (case LayoutField_loop Context M D (LayoutField_offset Context D B)
                       (fst (LayoutField_aligns Context D B)) of
                  None \<Rightarrow> None
                | Some (FieldOffset, M') \<Rightarrow>
                    Some (FieldOffset, B\<lparr>EmptySubobjects := Some M'\<rparr>))
          else Some (LayoutField_offset Context D B, B)
      | None \<Rightarrow> Some (LayoutField_offset Context D B, B))"

text \<open>The end of \<^verbatim>\<open>LayoutField\<close>: the offset is recorded and the space reserved.\<close>

definition LayoutField_reserve ::
    "ASTContext \<Rightarrow> int \<Rightarrow> int \<Rightarrow> RecordLayoutBuilder \<Rightarrow> RecordLayoutBuilder" where
  "LayoutField_reserve Context FieldOffset FieldSize B =
     (let B1 = B\<lparr>FieldOffsets := FieldOffsets B @ [toBits Context FieldOffset]\<rparr>;
          B2 = (if IsUnion B1
                then B1\<lparr>DataSize := max (DataSize B1) (toBits Context FieldSize)\<rparr>
                else B1\<lparr>DataSize := toBits Context (FieldOffset + FieldSize)\<rparr>)
      in B2\<lparr>Size := max (Size B2) (DataSize B2)\<rparr>)"

text \<open>\<^verbatim>\<open>LayoutField\<close>.\<close>

definition LayoutField ::
    "ASTContext \<Rightarrow> FieldDecl \<Rightarrow> RecordLayoutBuilder \<Rightarrow> RecordLayoutBuilder option" where
  "LayoutField Context D B =
     (if FD_isBitField (fieldInfo D) then LayoutBitField Context (fieldInfo D) B
      else
        let B1 = B\<lparr>UnfilledBitsInLastUnit := 0, LastBitfieldTypeSize := 0\<rparr>;
            FieldSize = fst (fieldSizeAndAlign Context (IsMsStruct B1) D);
            FieldAlign = fst (LayoutField_aligns Context D B1);
            UnpackedFieldAlign = snd (LayoutField_aligns Context D B1)
        in
        case (if ExternalLayout B1 then Some (LayoutField_placeExternal Context D B1)
              else LayoutField_placeComputed Context D B1) of
          None \<Rightarrow> None
        | Some (FieldOffset, B2) \<Rightarrow>
            Some (UpdateAlignment FieldAlign UnpackedFieldAlign
                    (LayoutField_reserve Context FieldOffset FieldSize B2)))"

fun LayoutFields ::
    "ASTContext \<Rightarrow> FieldDecl list \<Rightarrow> RecordLayoutBuilder \<Rightarrow> RecordLayoutBuilder option" where
  "LayoutFields Context [] B = Some B"
| "LayoutFields Context (FD # rest) B =
     (case LayoutField Context FD B of
        None \<Rightarrow> None
      | Some B' \<Rightarrow> LayoutFields Context rest B')"

subsection \<open>Initialization and completion\<close>

datatype DeclKind = RecordDeclKind | CXXRecordDeclKind | ObjCInterfaceDeclKind

text \<open>
  \<^verbatim>\<open>InitializeLayout\<close>. \<open>External\<close> is what the external source returned for the
  record: \<open>None\<close> when there is no source, when the declaration is not a record, or when
  the source supplied nothing.
\<close>

definition InitializeLayout ::
    "ASTContext \<Rightarrow> DeclKind \<Rightarrow> DeclInfo \<Rightarrow> ExternalLayoutInfo option \<Rightarrow>
     RecordLayoutBuilder \<Rightarrow> RecordLayoutBuilder" where
  "InitializeLayout Context Kind D External B =
     (let B1 = (if Kind \<noteq> ObjCInterfaceDeclKind
                then B\<lparr>IsUnion := isUnion D, IsMsStruct := isMsStruct D\<rparr> else B);
          B2 = B1\<lparr>Packed := hasPackedAttr D\<rparr>;
          B3 = (if PackStruct Context \<noteq> 0 then B2\<lparr>MaxFieldAlignment := PackStruct Context\<rparr>
                else B2);
          B4 = (if hasAlignMac68kAttr D
                then B3\<lparr>IsMac68kAlign := True, MaxFieldAlignment := 2, Alignment := 2\<rparr>
                else
                  let B' = (case MaxFieldAlignmentAttr D of
                              None \<Rightarrow> B3
                            | Some MFAA \<Rightarrow>
                                B3\<lparr>MaxFieldAlignment := toCharUnitsFromBits Context MFAA\<rparr>)
                  in if getMaxAlignment D \<noteq> 0
                     then UpdateAlignment (toCharUnitsFromBits Context (getMaxAlignment D))
                            (toCharUnitsFromBits Context (getMaxAlignment D)) B'
                     else B')
      in
      if Kind = ObjCInterfaceDeclKind then B4
      else case External of
        None \<Rightarrow> B4
      | Some E \<Rightarrow>
          let B5 = B4\<lparr>ExternalLayout := True, ExternalSize := Ext_Size E,
                     ExternalAlign := Ext_Align E, ExternalFieldOffsets := Ext_FieldOffsets E,
                     ExternalBaseOffsets := Ext_BaseOffsets E,
                     ExternalVirtualBaseOffsets := Ext_VirtualBaseOffsets E\<rparr>
          in if Ext_Align E > 0
             then B5\<lparr>Alignment := toCharUnitsFromBits Context (Ext_Align E)\<rparr>
             else B5\<lparr>InferAlignment := True\<rparr>)"

text \<open>\<^verbatim>\<open>FinishLayout\<close>.\<close>

definition FinishLayout ::
    "ASTContext \<Rightarrow> DeclKind \<Rightarrow> DeclInfo \<Rightarrow> RecordLayoutBuilder \<Rightarrow> RecordLayoutBuilder" where
  "FinishLayout Context Kind D B =
     (let B1 = (if CPlusPlus Context \<and> Size B = 0
                then (if Kind = CXXRecordDeclKind
                      then (if isEmpty D then B\<lparr>Size := toBits Context 1\<rparr> else B)
                      else B\<lparr>Size := toBits Context 1\<rparr>)
                else B);
          RoundedSize = RoundUpToAlignment (Size B1) (toBits Context (Alignment B1))
      in
      if ExternalLayout B1
      then (if InferAlignment B1 \<and> ExternalSize B1 < RoundedSize
            then B1\<lparr>Alignment := 1, InferAlignment := False\<rparr> else B1)
           \<lparr>Size := ExternalSize B1\<rparr>
      else B1\<lparr>Size := RoundedSize\<rparr>)"

text \<open>\<^verbatim>\<open>Layout(const RecordDecl *)\<close>, the layout of a C struct or union.\<close>

definition Layout_RecordDecl ::
    "ASTContext \<Rightarrow> DeclInfo \<Rightarrow> FieldDecl list \<Rightarrow> ExternalLayoutInfo option \<Rightarrow>
     RecordLayoutBuilder option" where
  "Layout_RecordDecl Context D Fields External =
     (case LayoutFields Context Fields
             (InitializeLayout Context RecordDeclKind D External (newRecordLayoutBuilder None)) of
        None \<Rightarrow> None
      | Some B \<Rightarrow> Some (FinishLayout Context RecordDeclKind D B))"

text \<open>
  \<^verbatim>\<open>Layout(const ObjCInterfaceDecl *)\<close>: \<open>Super\<close> is the layout of the superclass,
  if there is one, and \<open>Ivars\<close> the declared instance variables in order.
\<close>

definition Layout_ObjCInterfaceDecl ::
    "ASTContext \<Rightarrow> DeclInfo \<Rightarrow> ASTRecordLayout option \<Rightarrow> FieldDecl list \<Rightarrow>
     RecordLayoutBuilder option" where
  "Layout_ObjCInterfaceDecl Context D Super Ivars =
     (let B0 = newRecordLayoutBuilder None;
          B1 = (case Super of
                  None \<Rightarrow> B0
                | Some SL \<Rightarrow>
                    let B' = (UpdateAlignment (getAlignment SL) (getAlignment SL) B0)
                               \<lparr>Size := toBits Context (getDataSize SL)\<rparr>
                    in B'\<lparr>DataSize := toBits Context (getSizeInChars Context B')\<rparr>)
      in case LayoutFields Context Ivars
                (InitializeLayout Context ObjCInterfaceDeclKind D None B1) of
           None \<Rightarrow> None
         | Some B \<Rightarrow> Some (FinishLayout Context ObjCInterfaceDeclKind D B))"

text \<open>
  The part of \<^verbatim>\<open>Layout(const CXXRecordDecl *)\<close> after the bases: the fields are laid
  out and the non-virtual size and alignment are frozen.
\<close>

definition LayoutFields_CXX ::
    "ASTContext \<Rightarrow> FieldDecl list \<Rightarrow> RecordLayoutBuilder \<Rightarrow> RecordLayoutBuilder option" where
  "LayoutFields_CXX Context Fields B =
     (case LayoutFields Context Fields B of
        None \<Rightarrow> None
      | Some B' \<Rightarrow>
          Some (B'\<lparr>NonVirtualSize :=
                     toCharUnitsFromBits Context
                       (RoundUpToAlignment (Size B') (CharAlign Context)),
                   NonVirtualAlignment := Alignment B'\<rparr>))"

text \<open>
  \<^verbatim>\<open>Layout(const CXXRecordDecl *)\<close>. \<open>IndirectPrimary\<close> is the set of indirect
  primary bases of \<open>RD\<close>; \<open>NVInfo\<close> and \<open>VInfo\<close> are the tables of the base-subobject
  graph of \<open>RD\<close>.
\<close>

definition Layout_CXXRecordDecl ::
    "ASTContext \<Rightarrow> CXXRecordDecl \<Rightarrow> nat set \<Rightarrow> (nat \<rightharpoonup> BaseSubobjectInfo) \<Rightarrow>
     (nat \<rightharpoonup> BaseSubobjectInfo) \<Rightarrow> ExternalLayoutInfo option \<Rightarrow> RecordLayoutBuilder option"
where
  "Layout_CXXRecordDecl Context RD IndirectPrimary NVInfo VInfo External =
     (let B0 = (InitializeLayout Context CXXRecordDeclKind (info RD) External
                  (newRecordLayoutBuilder (Some (newEmptySubobjectMap RD))))
               \<lparr>NonVirtualBaseInfo := NVInfo, VirtualBaseInfo := VInfo\<rparr>
      in case LayoutNonVirtualBases Context IndirectPrimary RD B0 of
           None \<Rightarrow> None
         | Some B1 \<Rightarrow>
             (case LayoutFields_CXX Context (fieldDecls RD) B1 of
                None \<Rightarrow> None
              | Some B2 \<Rightarrow>
                  (case LayoutVirtualBases Context RD (declId (info RD)) B2 of
                     None \<Rightarrow> None
                   | Some B3 \<Rightarrow>
                       Some (FinishLayout Context CXXRecordDeclKind (info RD) B3))))"

text \<open>
  The layouts \<^verbatim>\<open>ASTContext::getASTRecordLayout\<close> builds from the finished builder:
  for a class (\<open>skipTailPadding\<close> is \<^verbatim>\<open>mustSkipTailPadding\<close>) and for a C record.
\<close>

definition makeCXXRecordLayout ::
    "ASTContext \<Rightarrow> bool \<Rightarrow> DeclInfo \<Rightarrow> RecordLayoutBuilder \<Rightarrow> ASTRecordLayout" where
  "makeCXXRecordLayout Context skipTailPadding RD B =
     (let DataSize' = (if skipTailPadding then getSizeInChars Context B
                       else getDataSizeInChars Context B);
          NonVirtualSize' = (if skipTailPadding then DataSize' else NonVirtualSize B)
      in \<lparr>getSize = getSizeInChars Context B, getDataSize = DataSize',
           getAlignment = Alignment B, getRequiredAlignment = Alignment B,
           getFieldOffsets = FieldOffsets B, hasOwnVFPtr = HasOwnVFPtr B,
           hasExtendableVFPtr = isDynamicClass RD, getVBPtrOffset = -1,
           getNonVirtualSize = NonVirtualSize',
           getNonVirtualAlignment = NonVirtualAlignment B,
           getSizeOfLargestEmptySubobject =
             (case EmptySubobjects B of None \<Rightarrow> 0
              | Some M \<Rightarrow> SizeOfLargestEmptySubobject M),
           getPrimaryBase = map_option (\<lambda>P. declId (info P)) (PrimaryBase B),
           isPrimaryBaseVirtual = PrimaryBaseIsVirtual B, getBaseSharingVBPtr = None,
           hasZeroSizedSubObject = False, leadsWithZeroSizedBase = False,
           getBaseOffsetsMap = BaseOffsets B, getVBaseOffsetsMap = VBaseOffsets B\<rparr>)"

definition makeRecordLayout :: "ASTContext \<Rightarrow> RecordLayoutBuilder \<Rightarrow> ASTRecordLayout" where
  "makeRecordLayout Context B =
     \<lparr>getSize = getSizeInChars Context B, getDataSize = getSizeInChars Context B,
      getAlignment = Alignment B, getRequiredAlignment = Alignment B,
      getFieldOffsets = FieldOffsets B, hasOwnVFPtr = False, hasExtendableVFPtr = False,
      getVBPtrOffset = -1, getNonVirtualSize = 0, getNonVirtualAlignment = 1,
      getSizeOfLargestEmptySubobject = 0, getPrimaryBase = None,
      isPrimaryBaseVirtual = False, getBaseSharingVBPtr = None,
      hasZeroSizedSubObject = False, leadsWithZeroSizedBase = False,
      getBaseOffsetsMap = Map.empty, getVBaseOffsetsMap = Map.empty\<rparr>"

subsection \<open>External offsets\<close>

text \<open>
  The offsets the builder computes for a bit-field that is not wider than its type and
  for a base, which \<^verbatim>\<open>updateExternalFieldOffset\<close> and \<^verbatim>\<open>LayoutBase\<close> compare with
  the offset of the external source.
\<close>

definition computedBitFieldOffset :: "ASTContext \<Rightarrow> FieldInfo \<Rightarrow> RecordLayoutBuilder \<Rightarrow> int" where
  "computedBitFieldOffset C D B =
     LayoutBitField_offset D
       (fst (LayoutBitField_aligns C D (LayoutBitField_msAlign D B) (LayoutBitField_msReset D B)))
       (LayoutBitField_msReset D B)"

definition computedBaseOffset :: "ASTContext \<Rightarrow> BaseSubobjectInfo \<Rightarrow> RecordLayoutBuilder \<Rightarrow> int" where
  "computedBaseOffset C Base B =
     RoundUpToAlignment (getDataSizeInChars C B) (fst (LayoutBase_aligns Base B))"

text \<open>
  What the comparison does to the alignment: \<open>B\<close> is the state before, \<open>B'\<close> the state
  after, \<open>Ext\<close> the external and \<open>Computed\<close> the computed offset.
\<close>

definition inferredPacking :: "RecordLayoutBuilder \<Rightarrow> int \<Rightarrow> int \<Rightarrow> RecordLayoutBuilder \<Rightarrow> bool" where
  "inferredPacking B Ext Computed B' \<longleftrightarrow>
     (if InferAlignment B \<and> Ext < Computed
      then Alignment B' = 1 \<and> \<not> InferAlignment B'
      else InferAlignment B' = InferAlignment B \<and> Alignment B \<le> Alignment B' \<and>
           (\<not> InferAlignment B \<longrightarrow> Alignment B' = Alignment B))"


section \<open>Microsoft builder\<close>

text \<open>
  The state of \<^verbatim>\<open>MicrosoftRecordLayoutBuilder\<close>; the members carry the prefix
  \<open>MS_\<close>. Sizes, alignments and base offsets are in chars, field offsets in bits.
  \<open>ElementInfo\<close> is the size and alignment of a base, a field or a pointer.
\<close>

record ElementInfo =
  EI_Size :: int
  EI_Alignment :: int

record MicrosoftRecordLayoutBuilder =
  MS_Size :: int
  MS_DataSize :: int
  MS_Alignment :: int
  MS_MaxFieldAlignment :: int
  MS_RequiredAlignment :: int
  MS_CurrentBitfieldSize :: int
  MS_VBPtrOffset :: int
  MS_PointerInfo :: ElementInfo
  MS_PrimaryBase :: "CXXRecordDecl option"
  MS_SharedVBPtrBase :: "CXXRecordDecl option"
  MS_FieldOffsets :: "int list"
  MS_Bases :: "nat \<rightharpoonup> int"
  MS_VBases :: "nat \<rightharpoonup> VBaseInfo"
  MS_RemainingBitsInField :: int
  MS_IsUnion :: bool
  MS_LastFieldIsNonZeroWidthBitfield :: bool
  MS_HasOwnVFPtr :: bool
  MS_HasVBPtr :: bool
  MS_Is64BitMode :: bool
  MS_HasZeroSizedSubObject :: bool
  MS_LeadsWithZeroSizedBase :: bool

text \<open>
  The constructor initializes the \<^verbatim>\<open>CharUnits\<close> members to zero and the containers
  to empty; the other members are written before they are read, and start here as zero
  and false.
\<close>

definition newMicrosoftRecordLayoutBuilder :: MicrosoftRecordLayoutBuilder where
  "newMicrosoftRecordLayoutBuilder =
     \<lparr>MS_Size = 0, MS_DataSize = 0, MS_Alignment = 0, MS_MaxFieldAlignment = 0,
      MS_RequiredAlignment = 0, MS_CurrentBitfieldSize = 0, MS_VBPtrOffset = 0,
      MS_PointerInfo = \<lparr>EI_Size = 0, EI_Alignment = 0\<rparr>, MS_PrimaryBase = None,
      MS_SharedVBPtrBase = None, MS_FieldOffsets = [], MS_Bases = Map.empty,
      MS_VBases = Map.empty, MS_RemainingBitsInField = 0, MS_IsUnion = False,
      MS_LastFieldIsNonZeroWidthBitfield = False, MS_HasOwnVFPtr = False,
      MS_HasVBPtr = False, MS_Is64BitMode = False, MS_HasZeroSizedSubObject = False,
      MS_LeadsWithZeroSizedBase = False\<rparr>"

text \<open>
  \<^verbatim>\<open>getAdjustedElementInfo(const ASTRecordLayout &)\<close>: the size and alignment of a
  base, and the state with the alignment and the zero-sized-subobject flag updated.
\<close>

definition packedAlignment :: "ASTRecordLayout \<Rightarrow> MicrosoftRecordLayoutBuilder \<Rightarrow> int" where
  "packedAlignment Layout B =
     (if MS_MaxFieldAlignment B \<noteq> 0 then min (getAlignment Layout) (MS_MaxFieldAlignment B)
      else getAlignment Layout)"

definition getAdjustedElementInfo_Layout ::
    "ASTRecordLayout \<Rightarrow> MicrosoftRecordLayoutBuilder \<Rightarrow> ElementInfo \<times> MicrosoftRecordLayoutBuilder"
where
  "getAdjustedElementInfo_Layout Layout B =
     (\<lparr>EI_Size = getDataSize Layout,
       EI_Alignment = max (packedAlignment Layout B) (getRequiredAlignment Layout)\<rparr>,
      B\<lparr>MS_HasZeroSizedSubObject :=
           (if hasZeroSizedSubObject Layout then True else MS_HasZeroSizedSubObject B),
        MS_Alignment := max (MS_Alignment B) (packedAlignment Layout B)\<rparr>)"

text \<open>
  \<^verbatim>\<open>getAdjustedElementInfo(const FieldDecl *)\<close>. \<open>getTypeInfoInChars\<close> is the type
  information of the field in chars.
\<close>

definition getTypeInfoInChars :: "ASTContext \<Rightarrow> FieldDecl \<Rightarrow> int \<times> int" where
  "getTypeInfoInChars Context FD =
     (toCharUnitsFromBits Context (fst (FD_TypeInfo (fieldInfo FD))),
      toCharUnitsFromBits Context (snd (FD_TypeInfo (fieldInfo FD))))"

definition fieldElementInfo ::
    "ASTContext \<Rightarrow> FieldDecl \<Rightarrow> MicrosoftRecordLayoutBuilder \<Rightarrow>
     ElementInfo \<times> MicrosoftRecordLayoutBuilder" where
  "fieldElementInfo Context FD B =
     (let FieldRequiredAlignment =
            toCharUnitsFromBits Context (FD_MaxAlignment (fieldInfo FD))
      in case getBaseElementType (getType FD) of
           RecordType RD \<Rightarrow>
             (let Layout = getASTRecordLayout RD;
                  B1 = snd (getAdjustedElementInfo_Layout Layout B)
              in (\<lparr>EI_Size = fst (getTypeInfoInChars Context FD),
                   EI_Alignment = EI_Alignment (fst (getAdjustedElementInfo_Layout Layout B))\<rparr>,
                  B1\<lparr>MS_RequiredAlignment :=
                       max (MS_RequiredAlignment B1) (getRequiredAlignment Layout)\<rparr>))
         | _ \<Rightarrow>
             (let Alignment0 = snd (getTypeInfoInChars Context FD);
                  Alignment1 =
                    (if FD_isBitField (fieldInfo FD) \<and> FD_MaxAlignment (fieldInfo FD) \<noteq> 0
                     then max Alignment0 FieldRequiredAlignment else Alignment0);
                  Alignment2 =
                    (if MS_MaxFieldAlignment B \<noteq> 0 then min Alignment1 (MS_MaxFieldAlignment B)
                     else Alignment1)
              in (\<lparr>EI_Size = fst (getTypeInfoInChars Context FD), EI_Alignment = Alignment2\<rparr>,
                  B)))"

definition getAdjustedElementInfo_FD ::
    "ASTContext \<Rightarrow> FieldDecl \<Rightarrow> MicrosoftRecordLayoutBuilder \<Rightarrow>
     ElementInfo \<times> MicrosoftRecordLayoutBuilder" where
  "getAdjustedElementInfo_FD Context FD B =
     (let FieldRequiredAlignment =
            toCharUnitsFromBits Context (FD_MaxAlignment (fieldInfo FD));
          Info0 = fst (fieldElementInfo Context FD B);
          B1 = snd (fieldElementInfo Context FD B);
          Info1 = (if FD_hasPackedAttr (fieldInfo FD) then Info0\<lparr>EI_Alignment := 1\<rparr>
                   else Info0);
          Info2 = (if \<not> FD_isBitField (fieldInfo FD)
                   then Info1\<lparr>EI_Alignment := max (EI_Alignment Info1) FieldRequiredAlignment\<rparr>
                   else Info1);
          B2 = (if \<not> FD_isBitField (fieldInfo FD)
                then B1\<lparr>MS_RequiredAlignment :=
                          max (MS_RequiredAlignment B1) FieldRequiredAlignment\<rparr>
                else B1);
          B3 = (if \<not> (FD_isBitField (fieldInfo FD) \<and> MS_IsUnion B2)
                then B2\<lparr>MS_Alignment :=
                          (if MS_MaxFieldAlignment B2 \<noteq> 0
                           then min (max (MS_Alignment B2) (EI_Alignment Info2))
                                  (MS_MaxFieldAlignment B2)
                           else max (MS_Alignment B2) (EI_Alignment Info2))\<rparr>
                else B2)
      in (Info2, B3))"

text \<open>\<^verbatim>\<open>initializeLayout\<close> and \<^verbatim>\<open>initializeCXXLayout\<close>.\<close>

definition initializeLayout ::
    "ASTContext \<Rightarrow> DeclInfo \<Rightarrow> MicrosoftRecordLayoutBuilder \<Rightarrow> MicrosoftRecordLayoutBuilder"
where
  "initializeLayout Context RD B =
     (let Is64 = (PointerWidth Context 0 = 64);
          MaxFieldAlignment0 = (if PackStruct Context \<noteq> 0 then PackStruct Context else 0);
          MaxFieldAlignment1 =
            (case MaxFieldAlignmentAttr RD of
               None \<Rightarrow> MaxFieldAlignment0
             | Some PackedAlignment \<Rightarrow>
                 if PackedAlignment \<le> PointerWidth Context 0
                 then toCharUnitsFromBits Context PackedAlignment else MaxFieldAlignment0)
      in B\<lparr>MS_IsUnion := isUnion RD, MS_Is64BitMode := Is64, MS_Size := 0, MS_Alignment := 1,
           MS_RequiredAlignment :=
             max (if Is64 then 1 else 0) (toCharUnitsFromBits Context (getMaxAlignment RD)),
           MS_MaxFieldAlignment := (if hasPackedAttr RD then 1 else MaxFieldAlignment1)\<rparr>)"

definition initializeCXXLayout ::
    "ASTContext \<Rightarrow> MicrosoftRecordLayoutBuilder \<Rightarrow> MicrosoftRecordLayoutBuilder" where
  "initializeCXXLayout Context B =
     (let PointerSize = toCharUnitsFromBits Context (PointerWidth Context 0)
      in B\<lparr>MS_HasZeroSizedSubObject := False, MS_LeadsWithZeroSizedBase := False,
           MS_HasOwnVFPtr := False, MS_HasVBPtr := False, MS_PrimaryBase := None,
           MS_SharedVBPtrBase := None,
           MS_PointerInfo :=
             \<lparr>EI_Size = PointerSize,
              EI_Alignment =
                (if MS_MaxFieldAlignment B \<noteq> 0 then min PointerSize (MS_MaxFieldAlignment B)
                 else PointerSize)\<rparr>\<rparr>)"

text \<open>
  \<^verbatim>\<open>layoutNonVirtualBase\<close>. \<open>PreviousBaseLayout\<close> is the layout of the base laid out
  before, if any; it is returned updated with the state. An offset is entered in the
  table of bases only when the table does not have the class yet
  (\<^verbatim>\<open>DenseMap::insert\<close>). \<open>basePadding\<close> is the size after the padding
  between two zero-sized bases.
\<close>

definition basePadding ::
    "ASTRecordLayout \<Rightarrow> ASTRecordLayout option \<times> MicrosoftRecordLayoutBuilder \<Rightarrow> int" where
  "basePadding BaseLayout PB =
     (if (case fst PB of None \<Rightarrow> False | Some PL \<Rightarrow> hasZeroSizedSubObject PL) \<and>
         leadsWithZeroSizedBase BaseLayout
      then MS_Size (snd PB) + 1 else MS_Size (snd PB))"

definition layoutNonVirtualBase ::
    "CXXRecordDecl \<Rightarrow> ASTRecordLayout \<Rightarrow>
     ASTRecordLayout option \<times> MicrosoftRecordLayoutBuilder \<Rightarrow>
     ASTRecordLayout option \<times> MicrosoftRecordLayoutBuilder" where
  "layoutNonVirtualBase BaseDecl BaseLayout PB =
     (let B1 = (snd PB)\<lparr>MS_Size := basePadding BaseLayout PB\<rparr>;
          Info = fst (getAdjustedElementInfo_Layout BaseLayout B1);
          B2 = snd (getAdjustedElementInfo_Layout BaseLayout B1);
          BaseOffset = RoundUpToAlignment (MS_Size B2) (EI_Alignment Info)
      in (Some BaseLayout,
          B2\<lparr>MS_Bases :=
               (if declId (info BaseDecl) \<in> dom (MS_Bases B2) then MS_Bases B2
                else (MS_Bases B2)(declId (info BaseDecl) \<mapsto> BaseOffset)),
             MS_Size := BaseOffset + getDataSize BaseLayout,
             MS_VBPtrOffset := BaseOffset + getDataSize BaseLayout\<rparr>))"

text \<open>
  \<^verbatim>\<open>layoutNonVirtualBases\<close>: the first pass over the bases, the search for a method
  that needs a fresh vfptr, the second pass, and the offset of the vbptr when it is
  known. A read of the table of bases yields zero for a class that is not in it.
\<close>

definition firstPass ::
    "CXXBaseSpecifier \<Rightarrow> ASTRecordLayout option \<times> MicrosoftRecordLayoutBuilder \<Rightarrow>
     ASTRecordLayout option \<times> MicrosoftRecordLayoutBuilder" where
  "firstPass I PB =
     (let BaseDecl = getBaseDecl I;
          BaseLayout = getASTRecordLayout BaseDecl;
          B1 = (snd PB)\<lparr>MS_RequiredAlignment :=
                           max (MS_RequiredAlignment (snd PB)) (getRequiredAlignment BaseLayout)\<rparr>
      in if isVirtual I then (fst PB, B1\<lparr>MS_HasVBPtr := True\<rparr>)
         else
           let B2 = (if MS_SharedVBPtrBase B1 = None \<and> hasVBPtr BaseLayout
                     then B1\<lparr>MS_SharedVBPtrBase := Some BaseDecl, MS_HasVBPtr := True\<rparr>
                     else B1)
           in if \<not> hasExtendableVFPtr BaseLayout then (fst PB, B2)
              else layoutNonVirtualBase BaseDecl BaseLayout
                     (fst PB,
                      if MS_PrimaryBase B2 = None
                      then B2\<lparr>MS_PrimaryBase := Some BaseDecl,
                              MS_LeadsWithZeroSizedBase := leadsWithZeroSizedBase BaseLayout\<rparr>
                      else B2))"

fun layoutNonVirtualBases_first ::
    "CXXBaseSpecifier list \<Rightarrow> ASTRecordLayout option \<times> MicrosoftRecordLayoutBuilder \<Rightarrow>
     ASTRecordLayout option \<times> MicrosoftRecordLayoutBuilder" where
  "layoutNonVirtualBases_first [] PB = PB"
| "layoutNonVirtualBases_first (I # rest) PB = layoutNonVirtualBases_first rest (firstPass I PB)"

fun freshVFPtr :: "CXXMethodDecl list \<Rightarrow> bool \<Rightarrow> bool" where
  "freshVFPtr [] HasOwn = HasOwn"
| "freshVFPtr (M # rest) HasOwn =
     (if HasOwn then HasOwn
      else freshVFPtr rest (MD_isVirtual M \<and> MD_size_overridden_methods M = 0))"

definition secondPass ::
    "CXXBaseSpecifier \<Rightarrow> bool \<times> ASTRecordLayout option \<times> MicrosoftRecordLayoutBuilder \<Rightarrow>
     bool \<times> ASTRecordLayout option \<times> MicrosoftRecordLayoutBuilder" where
  "secondPass I CPB =
     (let CheckLeadingLayout = fst CPB;
          BaseDecl = getBaseDecl I;
          BaseLayout = getASTRecordLayout BaseDecl
      in if isVirtual I then CPB
         else if hasExtendableVFPtr BaseLayout then CPB
         else (False,
               layoutNonVirtualBase BaseDecl BaseLayout
                 (fst (snd CPB),
                  if CheckLeadingLayout
                  then (snd (snd CPB))
                         \<lparr>MS_LeadsWithZeroSizedBase := leadsWithZeroSizedBase BaseLayout\<rparr>
                  else snd (snd CPB))))"

fun layoutNonVirtualBases_second ::
    "CXXBaseSpecifier list \<Rightarrow> bool \<times> ASTRecordLayout option \<times> MicrosoftRecordLayoutBuilder \<Rightarrow>
     bool \<times> ASTRecordLayout option \<times> MicrosoftRecordLayoutBuilder" where
  "layoutNonVirtualBases_second [] CPB = CPB"
| "layoutNonVirtualBases_second (I # rest) CPB =
     layoutNonVirtualBases_second rest (secondPass I CPB)"

definition baseOffset :: "MicrosoftRecordLayoutBuilder \<Rightarrow> CXXRecordDecl \<Rightarrow> int" where
  "baseOffset B BaseDecl =
     (case MS_Bases B (declId (info BaseDecl)) of None \<Rightarrow> 0 | Some Offset \<Rightarrow> Offset)"

definition setVBPtrOffset :: "MicrosoftRecordLayoutBuilder \<Rightarrow> MicrosoftRecordLayoutBuilder" where
  "setVBPtrOffset B =
     (if \<not> MS_HasVBPtr B then B\<lparr>MS_VBPtrOffset := -1\<rparr>
      else case MS_SharedVBPtrBase B of
             Some Shared \<Rightarrow>
               B\<lparr>MS_VBPtrOffset :=
                    baseOffset B Shared + getVBPtrOffset (getASTRecordLayout Shared)\<rparr>
           | None \<Rightarrow> B)"

definition layoutNonVirtualBases ::
    "CXXRecordDecl \<Rightarrow> MicrosoftRecordLayoutBuilder \<Rightarrow> MicrosoftRecordLayoutBuilder" where
  "layoutNonVirtualBases RD B =
     (let PB1 = layoutNonVirtualBases_first (bases RD) (None, B);
          B1 = snd PB1;
          B2 = (if MS_PrimaryBase B1 = None \<and> isDynamicClass (info RD)
                then B1\<lparr>MS_HasOwnVFPtr := freshVFPtr (methods (info RD)) (MS_HasOwnVFPtr B1)\<rparr>
                else B1);
          CPB = layoutNonVirtualBases_second (bases RD) (MS_PrimaryBase B2 = None, fst PB1, B2)
      in setVBPtrOffset (snd (snd CPB)))"

text \<open>The fields: \<^verbatim>\<open>layoutField\<close>, \<^verbatim>\<open>layoutBitField\<close>,
  \<^verbatim>\<open>layoutZeroWidthBitField\<close> and \<^verbatim>\<open>layoutFields\<close>.\<close>

definition placeFieldAtOffset ::
    "ASTContext \<Rightarrow> int \<Rightarrow> MicrosoftRecordLayoutBuilder \<Rightarrow> MicrosoftRecordLayoutBuilder" where
  "placeFieldAtOffset Context FieldOffset B =
     B\<lparr>MS_FieldOffsets := MS_FieldOffsets B @ [toBits Context FieldOffset]\<rparr>"

definition placeFieldAtBitOffset ::
    "int \<Rightarrow> MicrosoftRecordLayoutBuilder \<Rightarrow> MicrosoftRecordLayoutBuilder" where
  "placeFieldAtBitOffset FieldOffset B =
     B\<lparr>MS_FieldOffsets := MS_FieldOffsets B @ [FieldOffset]\<rparr>"

text \<open>The placement that the three functions share: in a union at offset zero, the size
  growing to hold the field; otherwise at the size rounded up to the alignment of the
  field, the size becoming \<open>NewSize\<close> of the offset.\<close>

definition placeField ::
    "ASTContext \<Rightarrow> ElementInfo \<Rightarrow> (int \<Rightarrow> int) \<Rightarrow> MicrosoftRecordLayoutBuilder \<Rightarrow>
     MicrosoftRecordLayoutBuilder" where
  "placeField Context Info NewSize B =
     (if MS_IsUnion B
      then (placeFieldAtOffset Context 0 B)\<lparr>MS_Size := max (MS_Size B) (EI_Size Info)\<rparr>
      else (placeFieldAtOffset Context
              (RoundUpToAlignment (MS_Size B) (EI_Alignment Info)) B)
             \<lparr>MS_Size := NewSize (RoundUpToAlignment (MS_Size B) (EI_Alignment Info))\<rparr>)"

definition layoutZeroWidthBitField ::
    "ASTContext \<Rightarrow> FieldDecl \<Rightarrow> MicrosoftRecordLayoutBuilder \<Rightarrow> MicrosoftRecordLayoutBuilder"
where
  "layoutZeroWidthBitField Context FD B =
     (if \<not> MS_LastFieldIsNonZeroWidthBitfield B
      then placeFieldAtOffset Context (if MS_IsUnion B then 0 else MS_Size B) B
      else
        let B1 = B\<lparr>MS_LastFieldIsNonZeroWidthBitfield := False\<rparr>
        in placeField Context (fst (getAdjustedElementInfo_FD Context FD B1))
             (\<lambda>FieldOffset. FieldOffset) (snd (getAdjustedElementInfo_FD Context FD B1)))"

definition layoutBitField ::
    "ASTContext \<Rightarrow> FieldDecl \<Rightarrow> MicrosoftRecordLayoutBuilder \<Rightarrow> MicrosoftRecordLayoutBuilder"
where
  "layoutBitField Context FD B =
     (if FD_BitWidthValue (fieldInfo FD) = 0 then layoutZeroWidthBitField Context FD B
      else
        let Info = fst (getAdjustedElementInfo_FD Context FD B);
            B1 = snd (getAdjustedElementInfo_FD Context FD B);
            Width = (if FD_BitWidthValue (fieldInfo FD) > toBits Context (EI_Size Info)
                     then toBits Context (EI_Size Info) else FD_BitWidthValue (fieldInfo FD))
        in if \<not> MS_IsUnion B1 \<and> MS_LastFieldIsNonZeroWidthBitfield B1 \<and>
              MS_CurrentBitfieldSize B1 = EI_Size Info \<and> Width \<le> MS_RemainingBitsInField B1
           then (placeFieldAtBitOffset
                   (toBits Context (MS_Size B1) - MS_RemainingBitsInField B1) B1)
                  \<lparr>MS_RemainingBitsInField := MS_RemainingBitsInField B1 - Width\<rparr>
           else
             let B2 = B1\<lparr>MS_LastFieldIsNonZeroWidthBitfield := True,
                         MS_CurrentBitfieldSize := EI_Size Info\<rparr>;
                 B3 = placeField Context Info (\<lambda>FieldOffset. FieldOffset + EI_Size Info) B2
             in if MS_IsUnion B3 then B3
                else B3\<lparr>MS_RemainingBitsInField := toBits Context (EI_Size Info) - Width\<rparr>)"

definition layoutField ::
    "ASTContext \<Rightarrow> FieldDecl \<Rightarrow> MicrosoftRecordLayoutBuilder \<Rightarrow> MicrosoftRecordLayoutBuilder"
where
  "layoutField Context FD B =
     (if FD_isBitField (fieldInfo FD) then layoutBitField Context FD B
      else
        let B1 = B\<lparr>MS_LastFieldIsNonZeroWidthBitfield := False\<rparr>;
            Info = fst (getAdjustedElementInfo_FD Context FD B1)
        in placeField Context Info (\<lambda>FieldOffset. FieldOffset + EI_Size Info)
             (snd (getAdjustedElementInfo_FD Context FD B1)))"

fun layoutFields_loop ::
    "ASTContext \<Rightarrow> FieldDecl list \<Rightarrow> MicrosoftRecordLayoutBuilder \<Rightarrow> MicrosoftRecordLayoutBuilder"
where
  "layoutFields_loop Context [] B = B"
| "layoutFields_loop Context (FD # rest) B =
     layoutFields_loop Context rest (layoutField Context FD B)"

definition layoutFields ::
    "ASTContext \<Rightarrow> FieldDecl list \<Rightarrow> MicrosoftRecordLayoutBuilder \<Rightarrow> MicrosoftRecordLayoutBuilder"
where
  "layoutFields Context Fields B =
     layoutFields_loop Context Fields (B\<lparr>MS_LastFieldIsNonZeroWidthBitfield := False\<rparr>)"

text \<open>The injection of the vbptr and of the vfptr.\<close>

definition injectVBPtr ::
    "ASTContext \<Rightarrow> MicrosoftRecordLayoutBuilder \<Rightarrow> MicrosoftRecordLayoutBuilder" where
  "injectVBPtr Context B =
     (if \<not> MS_HasVBPtr B \<or> MS_SharedVBPtrBase B \<noteq> None then B
      else
        let InjectionSite = MS_VBPtrOffset B;
            VBPtrOffset' =
              RoundUpToAlignment (MS_VBPtrOffset B) (EI_Alignment (MS_PointerInfo B));
            FieldStart = VBPtrOffset' + EI_Size (MS_PointerInfo B);
            Offset = RoundUpToAlignment (FieldStart - InjectionSite) (MS_Alignment B)
        in B\<lparr>MS_VBPtrOffset := VBPtrOffset',
             MS_Size := MS_Size B + Offset,
             MS_FieldOffsets := map (\<lambda>i. i + toBits Context Offset) (MS_FieldOffsets B),
             MS_Bases :=
               (\<lambda>k. map_option (\<lambda>i. if i \<ge> InjectionSite then i + Offset else i)
                      (MS_Bases B k)),
             MS_HasZeroSizedSubObject := False\<rparr>)"

definition injectVFPtr ::
    "ASTContext \<Rightarrow> MicrosoftRecordLayoutBuilder \<Rightarrow> MicrosoftRecordLayoutBuilder" where
  "injectVFPtr Context B =
     (if \<not> MS_HasOwnVFPtr B then B
      else
        let Offset = RoundUpToAlignment (EI_Size (MS_PointerInfo B)) (MS_Alignment B)
        in B\<lparr>MS_Size := MS_Size B + Offset,
             MS_FieldOffsets := map (\<lambda>i. i + toBits Context Offset) (MS_FieldOffsets B),
             MS_VBPtrOffset :=
               (if MS_HasVBPtr B then MS_VBPtrOffset B + Offset else MS_VBPtrOffset B),
             MS_Bases := (\<lambda>k. map_option (\<lambda>i. i + Offset) (MS_Bases B k))\<rparr>)"

text \<open>
  The loop of \<^verbatim>\<open>injectVPtrs\<close> that finds the last two non-virtual bases by offset,
  and the placement of the vbptr in the special 64-bit layout.
\<close>

fun lastTwoBases ::
    "MicrosoftRecordLayoutBuilder \<Rightarrow> CXXBaseSpecifier list \<Rightarrow>
     CXXRecordDecl option \<times> CXXRecordDecl option \<Rightarrow>
     CXXRecordDecl option \<times> CXXRecordDecl option" where
  "lastTwoBases B [] PL = PL"
| "lastTwoBases B (I # rest) PL =
     (if isVirtual I then lastTwoBases B rest PL
      else case snd PL of
             None \<Rightarrow> lastTwoBases B rest (snd PL, Some (getBaseDecl I))
           | Some LastBaseDecl \<Rightarrow>
               if baseOffset B (getBaseDecl I) > baseOffset B LastBaseDecl
               then lastTwoBases B rest (snd PL, Some (getBaseDecl I))
               else lastTwoBases B rest PL)"

definition zeroDataSize :: "CXXRecordDecl option \<Rightarrow> bool" where
  "zeroDataSize D =
     (case D of None \<Rightarrow> False | Some BaseDecl \<Rightarrow> getDataSize (getASTRecordLayout BaseDecl) = 0)"

definition placeVBPtr ::
    "CXXRecordDecl \<Rightarrow> MicrosoftRecordLayoutBuilder \<Rightarrow> MicrosoftRecordLayoutBuilder" where
  "placeVBPtr RD B =
     (let PenultBaseDecl = fst (lastTwoBases B (bases RD) (None, None));
          LastBaseDecl = snd (lastTwoBases B (bases RD) (None, None));
          Site = (if zeroDataSize LastBaseDecl
                  then (if zeroDataSize PenultBaseDecl
                        then baseOffset B (the PenultBaseDecl)
                        else baseOffset B (the LastBaseDecl))
                  else MS_Size B);
          VBPtrOffset' = RoundUpToAlignment Site (EI_Alignment (MS_PointerInfo B));
          B1 = B\<lparr>MS_VBPtrOffset := VBPtrOffset',
                 MS_Size := VBPtrOffset' + EI_Size (MS_PointerInfo B)\<rparr>
      in if zeroDataSize LastBaseDecl
         then
           let Size' =
                 RoundUpToAlignment
                   (if zeroDataSize PenultBaseDecl then MS_Size B1 + 1 else MS_Size B1)
                   (getRequiredAlignment (getASTRecordLayout (the LastBaseDecl)))
           in B1\<lparr>MS_Size := Size',
                 MS_Bases := (MS_Bases B1)(declId (info (the LastBaseDecl)) \<mapsto> Size')\<rparr>
         else B1)"

text \<open>
  \<^verbatim>\<open>injectVPtrs\<close>: nothing to inject; the general case, in which the vbptr is
  injected first and then the vfptr; and the special layout of 64-bit mode for a
  required alignment above 8, which lays the record out again with the pointers placed
  as if they were fields or bases.
\<close>

definition injectVPtrs_general ::
    "ASTContext \<Rightarrow> MicrosoftRecordLayoutBuilder \<Rightarrow> MicrosoftRecordLayoutBuilder" where
  "injectVPtrs_general Context B =
     (injectVFPtr Context (injectVBPtr Context B))
       \<lparr>MS_Alignment := max (MS_Alignment B) (EI_Alignment (MS_PointerInfo B))\<rparr>"

definition injectVPtrs_special ::
    "ASTContext \<Rightarrow> CXXRecordDecl \<Rightarrow> MicrosoftRecordLayoutBuilder \<Rightarrow>
     MicrosoftRecordLayoutBuilder" where
  "injectVPtrs_special Context RD B =
     (let B1 = B\<lparr>MS_FieldOffsets := [], MS_Bases := Map.empty,
                   MS_Size := (if MS_HasOwnVFPtr B then EI_Size (MS_PointerInfo B) else 0),
                   MS_Alignment := max (MS_Alignment B) (EI_Alignment (MS_PointerInfo B))\<rparr>;
          B2 = layoutNonVirtualBases RD B1;
          B3 = (if MS_HasVBPtr B2 \<and> MS_SharedVBPtrBase B2 = None then placeVBPtr RD B2
                else B2)
      in (layoutFields Context (fieldDecls RD) B3)\<lparr>MS_HasZeroSizedSubObject := False\<rparr>)"

definition injectVPtrs ::
    "ASTContext \<Rightarrow> CXXRecordDecl \<Rightarrow> MicrosoftRecordLayoutBuilder \<Rightarrow>
     MicrosoftRecordLayoutBuilder" where
  "injectVPtrs Context RD B =
     (if \<not> (MS_HasOwnVFPtr B \<or> (MS_HasVBPtr B \<and> MS_SharedVBPtrBase B = None)) then B
      else if \<not> MS_Is64BitMode B \<or> MS_RequiredAlignment B \<le> 8
      then injectVPtrs_general Context B
      else injectVPtrs_special Context RD B)"

text \<open>
  \<^verbatim>\<open>layoutVirtualBases\<close>. \<open>HasVtordispSet\<close> is the set that
  \<^verbatim>\<open>computeVtorDispSet\<close> yields for the class, by declaration identity.
\<close>

definition VtorDispAlignment :: "MicrosoftRecordLayoutBuilder \<Rightarrow> int" where
  "VtorDispAlignment B =
     max (if MS_MaxFieldAlignment B \<noteq> 0 then min 4 (MS_MaxFieldAlignment B) else 4)
       (MS_RequiredAlignment B)"

text \<open>The size of the record after the padding that precedes a virtual base: the
  padding after a trailing bit-field, the padding between zero-sized bases, and the
  vtordisp.\<close>

definition vbasePadding ::
    "nat set \<Rightarrow> CXXRecordDecl \<Rightarrow> ASTRecordLayout option \<times> MicrosoftRecordLayoutBuilder \<Rightarrow> int"
where
  "vbasePadding HasVtordispSet BaseDecl PB =
     (let Size1 =
            (if MS_LastFieldIsNonZeroWidthBitfield (snd PB)
             then MS_Size (snd PB) + MS_CurrentBitfieldSize (snd PB) else MS_Size (snd PB));
          Size2 =
            (if (case fst PB of None \<Rightarrow> False | Some PL \<Rightarrow> hasZeroSizedSubObject PL) \<and>
                leadsWithZeroSizedBase (getASTRecordLayout BaseDecl)
             then RoundUpToAlignment Size1 (VtorDispAlignment (snd PB)) + 4 else Size1)
      in if declId (info BaseDecl) \<in> HasVtordispSet
         then RoundUpToAlignment Size2 (VtorDispAlignment (snd PB)) + 4 else Size2)"

definition layoutVirtualBase ::
    "nat set \<Rightarrow> CXXRecordDecl \<Rightarrow> ASTRecordLayout option \<times> MicrosoftRecordLayoutBuilder \<Rightarrow>
     ASTRecordLayout option \<times> MicrosoftRecordLayoutBuilder" where
  "layoutVirtualBase HasVtordispSet BaseDecl PB =
     (let BaseLayout = getASTRecordLayout BaseDecl;
          B3 = (snd PB)\<lparr>MS_Size := vbasePadding HasVtordispSet BaseDecl PB\<rparr>;
          Info = fst (getAdjustedElementInfo_Layout BaseLayout B3);
          B4 = snd (getAdjustedElementInfo_Layout BaseLayout B3);
          BaseOffset = RoundUpToAlignment (MS_Size B4) (EI_Alignment Info)
      in (Some BaseLayout,
          B4\<lparr>MS_VBases :=
               (if declId (info BaseDecl) \<in> dom (MS_VBases B4) then MS_VBases B4
                else (MS_VBases B4)(declId (info BaseDecl) \<mapsto>
                       \<lparr>VBaseOffset = BaseOffset,
                        hasVtorDisp = (declId (info BaseDecl) \<in> HasVtordispSet)\<rparr>)),
             MS_Size := BaseOffset + getDataSize BaseLayout\<rparr>))"

fun layoutVirtualBases_loop ::
    "nat set \<Rightarrow> CXXRecordDecl list \<Rightarrow> ASTRecordLayout option \<times> MicrosoftRecordLayoutBuilder \<Rightarrow>
     ASTRecordLayout option \<times> MicrosoftRecordLayoutBuilder" where
  "layoutVirtualBases_loop HasVtordispSet [] PB = PB"
| "layoutVirtualBases_loop HasVtordispSet (BaseDecl # rest) PB =
     layoutVirtualBases_loop HasVtordispSet rest (layoutVirtualBase HasVtordispSet BaseDecl PB)"

definition layoutVirtualBases ::
    "nat set \<Rightarrow> CXXRecordDecl \<Rightarrow> MicrosoftRecordLayoutBuilder \<Rightarrow> MicrosoftRecordLayoutBuilder"
where
  "layoutVirtualBases HasVtordispSet RD B =
     (if \<not> MS_HasVBPtr B then B
      else snd (layoutVirtualBases_loop HasVtordispSet (vbases RD) (None, B)))"

text \<open>\<^verbatim>\<open>finalizeLayout\<close>.\<close>

definition finalizeLayout :: "MicrosoftRecordLayoutBuilder \<Rightarrow> MicrosoftRecordLayoutBuilder" where
  "finalizeLayout B =
     (let B1 = (if MS_RequiredAlignment B \<noteq> 0
                then B\<lparr>MS_Alignment := max (MS_Alignment B) (MS_RequiredAlignment B),
                       MS_Size :=
                         RoundUpToAlignment (MS_Size B)
                           (max (MS_Alignment B) (MS_RequiredAlignment B))\<rparr>
                else B)
      in if MS_Size B1 = 0
         then B1\<lparr>MS_HasZeroSizedSubObject := True, MS_LeadsWithZeroSizedBase := True,
                 MS_Size := MS_Alignment B1\<rparr>
         else B1)"

text \<open>\<^verbatim>\<open>layout\<close> and \<^verbatim>\<open>cxxLayout\<close>. The assignment
  \<^verbatim>\<open>DataSize = Size = Size.RoundUpToAlignment(Alignment)\<close> is \<open>alignSize\<close>, and
  \<open>cxxLayout_fields\<close> is \<^verbatim>\<open>cxxLayout\<close> up to the layout of the fields.\<close>

definition alignSize :: "MicrosoftRecordLayoutBuilder \<Rightarrow> MicrosoftRecordLayoutBuilder" where
  "alignSize B =
     B\<lparr>MS_Size := RoundUpToAlignment (MS_Size B) (MS_Alignment B),
       MS_DataSize := RoundUpToAlignment (MS_Size B) (MS_Alignment B)\<rparr>"

definition layout ::
    "ASTContext \<Rightarrow> DeclInfo \<Rightarrow> FieldDecl list \<Rightarrow> MicrosoftRecordLayoutBuilder \<Rightarrow>
     MicrosoftRecordLayoutBuilder" where
  "layout Context RD Fields B =
     finalizeLayout (alignSize (layoutFields Context Fields (initializeLayout Context RD B)))"

definition cxxLayout_fields ::
    "ASTContext \<Rightarrow> CXXRecordDecl \<Rightarrow> MicrosoftRecordLayoutBuilder \<Rightarrow>
     MicrosoftRecordLayoutBuilder" where
  "cxxLayout_fields Context RD B =
     layoutFields Context (fieldDecls RD)
       (layoutNonVirtualBases RD
          (initializeCXXLayout Context (initializeLayout Context (info RD) B)))"

definition cxxLayout ::
    "ASTContext \<Rightarrow> nat set \<Rightarrow> CXXRecordDecl \<Rightarrow> MicrosoftRecordLayoutBuilder \<Rightarrow>
     MicrosoftRecordLayoutBuilder" where
  "cxxLayout Context HasVtordispSet RD B =
     finalizeLayout
       (layoutVirtualBases HasVtordispSet RD
          (alignSize (injectVPtrs Context RD (cxxLayout_fields Context RD B))))"

text \<open>\<^verbatim>\<open>BuildMicrosoftASTRecordLayout\<close>, for a class and for a C record.\<close>

definition BuildMicrosoftASTRecordLayout_CXX ::
    "ASTContext \<Rightarrow> nat set \<Rightarrow> CXXRecordDecl \<Rightarrow> ASTRecordLayout" where
  "BuildMicrosoftASTRecordLayout_CXX Context HasVtordispSet RD =
     (let B = cxxLayout Context HasVtordispSet RD newMicrosoftRecordLayoutBuilder
      in \<lparr>getSize = MS_Size B, getDataSize = MS_DataSize B, getAlignment = MS_Alignment B,
           getRequiredAlignment = MS_RequiredAlignment B, getFieldOffsets = MS_FieldOffsets B,
           hasOwnVFPtr = MS_HasOwnVFPtr B,
           hasExtendableVFPtr = (MS_HasOwnVFPtr B \<or> MS_PrimaryBase B \<noteq> None),
           getVBPtrOffset = MS_VBPtrOffset B, getNonVirtualSize = MS_DataSize B,
           getNonVirtualAlignment = MS_Alignment B, getSizeOfLargestEmptySubobject = 0,
           getPrimaryBase = map_option (\<lambda>P. declId (info P)) (MS_PrimaryBase B),
           isPrimaryBaseVirtual = False,
           getBaseSharingVBPtr = map_option (\<lambda>P. declId (info P)) (MS_SharedVBPtrBase B),
           hasZeroSizedSubObject = MS_HasZeroSizedSubObject B,
           leadsWithZeroSizedBase = MS_LeadsWithZeroSizedBase B,
           getBaseOffsetsMap = MS_Bases B, getVBaseOffsetsMap = MS_VBases B\<rparr>)"

definition BuildMicrosoftASTRecordLayout_Record ::
    "ASTContext \<Rightarrow> DeclInfo \<Rightarrow> FieldDecl list \<Rightarrow> ASTRecordLayout" where
  "BuildMicrosoftASTRecordLayout_Record Context D Fields =
     (let B = layout Context D Fields newMicrosoftRecordLayoutBuilder
      in \<lparr>getSize = MS_Size B, getDataSize = MS_Size B, getAlignment = MS_Alignment B,
           getRequiredAlignment = MS_RequiredAlignment B, getFieldOffsets = MS_FieldOffsets B,
           hasOwnVFPtr = False, hasExtendableVFPtr = False, getVBPtrOffset = -1,
           getNonVirtualSize = 0, getNonVirtualAlignment = 1,
           getSizeOfLargestEmptySubobject = 0, getPrimaryBase = None,
           isPrimaryBaseVirtual = False, getBaseSharingVBPtr = None,
           hasZeroSizedSubObject = False, leadsWithZeroSizedBase = False,
           getBaseOffsetsMap = Map.empty, getVBaseOffsetsMap = Map.empty\<rparr>)"

subsection \<open>Well-formed inputs and what the passes establish\<close>

definition ms_invariant :: "MicrosoftRecordLayoutBuilder \<Rightarrow> bool" where
  "ms_invariant B \<longleftrightarrow>
     0 < MS_Alignment B \<and> 0 \<le> MS_MaxFieldAlignment B \<and> 0 \<le> MS_RequiredAlignment B \<and>
     0 \<le> MS_CurrentBitfieldSize B"

definition field_sizes_nonneg :: "ASTContext \<Rightarrow> FieldDecl list \<Rightarrow> bool" where
  "field_sizes_nonneg Context Fields \<longleftrightarrow>
     list_all (\<lambda>FD. 0 \<le> fst (getTypeInfoInChars Context FD)) Fields"

definition placeable :: "ASTRecordLayout \<Rightarrow> bool" where
  "placeable Layout \<longleftrightarrow> 0 \<le> getDataSize Layout \<and> 0 < getAlignment Layout"

definition pack_nonneg :: "ASTContext \<Rightarrow> DeclInfo \<Rightarrow> bool" where
  "pack_nonneg Context RD \<longleftrightarrow>
     0 < CharWidth Context \<and> 0 \<le> PackStruct Context \<and>
     (case MaxFieldAlignmentAttr RD of None \<Rightarrow> True | Some PackedAlignment \<Rightarrow> 0 \<le> PackedAlignment)"

definition spec_hasVBPtr :: "CXXRecordDecl \<Rightarrow> bool" where
  "spec_hasVBPtr RD \<longleftrightarrow>
     list_ex (\<lambda>I. isVirtual I \<or> hasVBPtr (getASTRecordLayout (getBaseDecl I))) (bases RD)"

definition spec_sharedVBPtrBase :: "CXXRecordDecl \<Rightarrow> CXXRecordDecl option" where
  "spec_sharedVBPtrBase RD =
     map_option getBaseDecl
       (find (\<lambda>I. \<not> isVirtual I \<and> hasVBPtr (getASTRecordLayout (getBaseDecl I))) (bases RD))"

definition bases_placeable :: "CXXRecordDecl \<Rightarrow> bool" where
  "bases_placeable RD \<longleftrightarrow>
     list_all (\<lambda>I. isVirtual I \<or> placeable (getASTRecordLayout (getBaseDecl I))) (bases RD)"

definition ms_nonneg :: "MicrosoftRecordLayoutBuilder \<Rightarrow> bool" where
  "ms_nonneg B \<longleftrightarrow> 0 \<le> MS_Size B \<and> (\<forall>k Offset. MS_Bases B k = Some Offset \<longrightarrow> 0 \<le> Offset)"

text \<open>A shared vbptr base has a vbptr, and the class then has one too.\<close>

definition shared_ok :: "MicrosoftRecordLayoutBuilder \<Rightarrow> bool" where
  "shared_ok B \<longleftrightarrow>
     (\<forall>Shared. MS_SharedVBPtrBase B = Some Shared \<longrightarrow>
        MS_HasVBPtr B \<and> hasVBPtr (getASTRecordLayout Shared))"

text \<open>The state of \<^verbatim>\<open>layoutNonVirtualBases\<close> before the offset of the vbptr is
  set.\<close>

definition afterPasses ::
    "CXXRecordDecl \<Rightarrow> MicrosoftRecordLayoutBuilder \<Rightarrow> MicrosoftRecordLayoutBuilder" where
  "afterPasses RD B =
     (let PB1 = layoutNonVirtualBases_first (bases RD) (None, B);
          B1 = snd PB1;
          B2 = (if MS_PrimaryBase B1 = None \<and> isDynamicClass (info RD)
                then B1\<lparr>MS_HasOwnVFPtr := freshVFPtr (methods (info RD)) (MS_HasOwnVFPtr B1)\<rparr>
                else B1)
      in snd (snd (layoutNonVirtualBases_second (bases RD)
                     (MS_PrimaryBase B2 = None, fst PB1, B2))))"

text \<open>The three cases of the vbptr offset at the end of \<^verbatim>\<open>layoutNonVirtualBases\<close>.\<close>

definition vbptr_set :: "MicrosoftRecordLayoutBuilder \<Rightarrow> bool" where
  "vbptr_set B \<longleftrightarrow>
     (\<not> MS_HasVBPtr B \<longrightarrow> MS_VBPtrOffset B = -1) \<and>
     (\<forall>Shared. MS_HasVBPtr B \<and> MS_SharedVBPtrBase B = Some Shared \<longrightarrow>
        MS_VBPtrOffset B = baseOffset B Shared + getVBPtrOffset (getASTRecordLayout Shared))"

definition bases_nonneg :: "MicrosoftRecordLayoutBuilder \<Rightarrow> bool" where
  "bases_nonneg B \<longleftrightarrow> (\<forall>k Offset. MS_Bases B k = Some Offset \<longrightarrow> 0 \<le> Offset)"

definition pointer_ok :: "MicrosoftRecordLayoutBuilder \<Rightarrow> bool" where
  "pointer_ok B \<longleftrightarrow> 0 \<le> EI_Size (MS_PointerInfo B) \<and> 0 < EI_Alignment (MS_PointerInfo B)"

definition shared_placed :: "MicrosoftRecordLayoutBuilder \<Rightarrow> bool" where
  "shared_placed B \<longleftrightarrow>
     (\<forall>Shared. MS_SharedVBPtrBase B = Some Shared \<longrightarrow>
        declId (info Shared) \<in> dom (MS_Bases B))"

definition vbptrSite :: "CXXRecordDecl \<Rightarrow> MicrosoftRecordLayoutBuilder \<Rightarrow> int" where
  "vbptrSite RD B =
     (if zeroDataSize (snd (lastTwoBases B (bases RD) (None, None)))
      then (if zeroDataSize (fst (lastTwoBases B (bases RD) (None, None)))
            then baseOffset B (the (fst (lastTwoBases B (bases RD) (None, None))))
            else baseOffset B (the (snd (lastTwoBases B (bases RD) (None, None)))))
      else MS_Size B)"

text \<open>What \<^verbatim>\<open>injectVPtrs\<close> needs of the state it starts from.\<close>

definition ready :: "CXXRecordDecl \<Rightarrow> MicrosoftRecordLayoutBuilder \<Rightarrow> bool" where
  "ready RD B \<longleftrightarrow>
     MS_HasVBPtr B = spec_hasVBPtr RD \<and> MS_SharedVBPtrBase B = spec_sharedVBPtrBase RD \<and>
     vbptr_set B \<and> shared_ok B \<and> shared_placed B \<and> ms_invariant B \<and> pointer_ok B \<and>
     (MS_HasVBPtr B \<longrightarrow> 0 \<le> MS_VBPtrOffset B)"

text \<open>What it establishes.\<close>

definition injected :: "CXXRecordDecl \<Rightarrow> MicrosoftRecordLayoutBuilder \<Rightarrow>
    MicrosoftRecordLayoutBuilder \<Rightarrow> bool" where
  "injected RD B B' \<longleftrightarrow>
     MS_HasVBPtr B' = spec_hasVBPtr RD \<and> MS_SharedVBPtrBase B' = spec_sharedVBPtrBase RD \<and>
     vbptr_set B' \<and> ms_invariant B' \<and> MS_PointerInfo B' = MS_PointerInfo B \<and>
     MS_VBases B' = MS_VBases B \<and> MS_DataSize B' = MS_DataSize B \<and>
     (MS_HasVBPtr B' \<longrightarrow> 0 \<le> MS_VBPtrOffset B')"

text \<open>What the theorems ask of the class and the target: the packing values and the
  sizes are not negative, a pointer has a positive size, and the layouts of the bases
  have a non-negative data size and a positive alignment.\<close>

definition ms_wellformed :: "ASTContext \<Rightarrow> CXXRecordDecl \<Rightarrow> bool" where
  "ms_wellformed Context RD \<longleftrightarrow>
     pack_nonneg Context (info RD) \<and>
     0 < toCharUnitsFromBits Context (PointerWidth Context 0) \<and>
     bases_placeable RD \<and> field_sizes_nonneg Context (fieldDecls RD) \<and>
     list_all (\<lambda>V. placeable (getASTRecordLayout V)) (vbases RD)"

text \<open>The state after the two initializations, and the alignment of a pointer in it.\<close>

definition cxxLayout_init ::
    "ASTContext \<Rightarrow> CXXRecordDecl \<Rightarrow> MicrosoftRecordLayoutBuilder" where
  "cxxLayout_init Context RD =
     initializeCXXLayout Context
       (initializeLayout Context (info RD) newMicrosoftRecordLayoutBuilder)"

definition pointerAlignment :: "ASTContext \<Rightarrow> CXXRecordDecl \<Rightarrow> int" where
  "pointerAlignment Context RD = EI_Alignment (MS_PointerInfo (cxxLayout_init Context RD))"

text \<open>The amount by which an own vfptr pushes the record back is a multiple of the
  alignment of a pointer when the alignment of a pointer divides its size, and the size
  of a pointer and the alignment of the record before the injection divide one another
  (as powers of two do).\<close>

definition pointer_fits :: "ASTContext \<Rightarrow> CXXRecordDecl \<Rightarrow> bool" where
  "pointer_fits Context RD \<longleftrightarrow>
     (let B = cxxLayout_fields Context RD newMicrosoftRecordLayoutBuilder
      in EI_Alignment (MS_PointerInfo B) dvd EI_Size (MS_PointerInfo B) \<and>
         (MS_Alignment B dvd EI_Size (MS_PointerInfo B) \<or>
          EI_Size (MS_PointerInfo B) dvd MS_Alignment B))"


section \<open>Key-function resolver\<close>

text \<open>The loop of \<^verbatim>\<open>computeKeyFunction\<close> over the methods in declaration order.\<close>

fun keyFunctionLoop :: "bool \<Rightarrow> CXXMethodDecl list \<Rightarrow> CXXMethodDecl option" where
  "keyFunctionLoop allowInlineFunctions [] = None"
| "keyFunctionLoop allowInlineFunctions (MD # rest) =
     (if \<not> MD_isVirtual MD then keyFunctionLoop allowInlineFunctions rest
      else if MD_isPure MD then keyFunctionLoop allowInlineFunctions rest
      else if MD_isImplicit MD then keyFunctionLoop allowInlineFunctions rest
      else if MD_isInlineSpecified MD then keyFunctionLoop allowInlineFunctions rest
      else if MD_hasInlineBody MD then keyFunctionLoop allowInlineFunctions rest
      else if \<not> MD_isUserProvided MD then keyFunctionLoop allowInlineFunctions rest
      else if \<not> allowInlineFunctions \<and>
              (case MD_hasBody MD of None \<Rightarrow> False | Some DefInline \<Rightarrow> DefInline)
           then keyFunctionLoop allowInlineFunctions rest
      else Some MD)"

definition computeKeyFunction :: "ASTContext \<Rightarrow> DeclInfo \<Rightarrow> CXXMethodDecl option" where
  "computeKeyFunction Context RD =
     (if \<not> isPolymorphic RD then None
      else if \<not> isExternallyVisible RD then None
      else if getTemplateSpecializationKind RD = TSK_ImplicitInstantiation \<or>
              getTemplateSpecializationKind RD = TSK_ExplicitInstantiationDefinition
           then None
      else keyFunctionLoop (canKeyFunctionBeInline Context) (methods RD))"

text \<open>
  The specification's wording of a qualifying method, to be compared with the loop:
  virtual, non-pure, non-implicit, not inline-specified, without an inline body,
  user-provided and, when the ABI forbids inline key functions, without a definition
  marked inline.
\<close>

definition spec_qualifying :: "bool \<Rightarrow> CXXMethodDecl \<Rightarrow> bool" where
  "spec_qualifying allowInline MD \<longleftrightarrow>
     MD_isVirtual MD \<and> \<not> MD_isPure MD \<and> \<not> MD_isImplicit MD \<and>
     \<not> MD_isInlineSpecified MD \<and> \<not> MD_hasInlineBody MD \<and> MD_isUserProvided MD \<and>
     (allowInline \<or> MD_hasBody MD \<noteq> Some True)"

definition spec_hasNoKeyFunction :: "DeclInfo \<Rightarrow> bool" where
  "spec_hasNoKeyFunction RD \<longleftrightarrow>
     \<not> isPolymorphic RD \<or> \<not> isExternallyVisible RD \<or>
     getTemplateSpecializationKind RD \<in>
       {TSK_ImplicitInstantiation, TSK_ExplicitInstantiationDefinition}"

section \<open>Field offsets through libclang\<close>



















section \<open>Example inputs\<close>

text \<open>A 64-bit Itanium target with 8-bit chars (LP64).\<close>

definition ex_Context :: ASTContext where
  "ex_Context =
     \<lparr>CharWidth = 8, CharAlign = 8, PointerWidth = (\<lambda>AS. 64), PointerAlign = (\<lambda>AS. 64),
      useBitFieldTypeAlignment = True, useZeroLengthBitfieldAlignment = False,
      getZeroLengthBitfieldBoundary = 0,
      getTypeSize = (\<lambda>T. case T of UnsignedCharTy \<Rightarrow> 8 | UnsignedShortTy \<Rightarrow> 16
                              | UnsignedIntTy \<Rightarrow> 32 | UnsignedLongTy \<Rightarrow> 64
                              | UnsignedLongLongTy \<Rightarrow> 64),
      getTypeAlignInChars = (\<lambda>T. case T of UnsignedCharTy \<Rightarrow> 1 | UnsignedShortTy \<Rightarrow> 2
                              | UnsignedIntTy \<Rightarrow> 4 | UnsignedLongTy \<Rightarrow> 8
                              | UnsignedLongLongTy \<Rightarrow> 8),
      CPlusPlus = True, PackStruct = 0, canKeyFunctionBeInline = True\<rparr>"

text \<open>A plain C++ class declaration with the given identity, and a layout with the given
  size, data size and alignment and nothing else.\<close>

definition ex_DeclInfo :: "nat \<Rightarrow> bool \<Rightarrow> DeclInfo" where
  "ex_DeclInfo n e =
     \<lparr>declId = n, isUnion = False, isEmpty = e, isDynamicClass = False,
      isPolymorphic = False, isExternallyVisible = True,
      getTemplateSpecializationKind = TSK_Undeclared, methods = [],
      isCXXRecordDecl = True, isMsStruct = False, hasPackedAttr = False,
      hasAlignMac68kAttr = False, MaxFieldAlignmentAttr = None, getMaxAlignment = 0,
      isNearlyEmpty = False\<rparr>"

definition ex_Layout :: "int \<Rightarrow> int \<Rightarrow> int \<Rightarrow> ASTRecordLayout" where
  "ex_Layout sz dsz al =
     \<lparr>getSize = sz, getDataSize = dsz, getAlignment = al, getRequiredAlignment = 0,
      getFieldOffsets = [], hasOwnVFPtr = False, hasExtendableVFPtr = False,
      getVBPtrOffset = -1, getNonVirtualSize = dsz, getNonVirtualAlignment = al,
      getSizeOfLargestEmptySubobject = 0, getPrimaryBase = None,
      isPrimaryBaseVirtual = False, getBaseSharingVBPtr = None,
      hasZeroSizedSubObject = False, leadsWithZeroSizedBase = False,
      getBaseOffsetsMap = Map.empty, getVBaseOffsetsMap = Map.empty\<rparr>"

definition ex_FieldInfo :: "nat \<Rightarrow> int \<Rightarrow> int \<Rightarrow> FieldInfo" where
  "ex_FieldInfo n sz al =
     \<lparr>FD_id = n, FD_hasIdentifier = True, FD_isBitField = False, FD_BitWidthValue = 0,
      FD_TypeInfo = (sz, al), FD_ElementTypeAlign = 0, FD_BuiltinBaseElementSize = None,
      FD_hasPackedAttr = False, FD_MaxAlignment = 0\<rparr>"

text \<open>\<^verbatim>\<open>struct Empty {};\<close> (size 1, data size 0), as a base and as a member.\<close>

definition ex_Empty :: CXXRecordDecl where
  "ex_Empty = CXXRecordDecl (ex_DeclInfo 1 True) [] [] [] (ex_Layout 1 0 1)"

definition ex_EmptyBase :: BaseSubobjectInfo where
  "ex_EmptyBase = BaseSubobjectInfo 10 ex_Empty False [] None None"

definition ex_EmptyField :: FieldDecl where
  "ex_EmptyField = FieldDecl (ex_FieldInfo 20 8 8) (RecordType ex_Empty)"

text \<open>The map of a class whose largest empty subobject has size 1, before any placement.\<close>

definition ex_Map :: EmptySubobjectMap where
  "ex_Map = \<lparr>EmptyClassOffsets = Map.empty, MaxEmptyClassOffset = 0,
             SizeOfLargestEmptySubobject = 1\<rparr>"

text \<open>
  A polymorphic class with four methods: a non-virtual one, a pure virtual one, a virtual
  one defined in the class body, and a virtual one defined out of line.
\<close>

definition ex_Method :: "nat \<Rightarrow> bool \<Rightarrow> bool \<Rightarrow> bool \<Rightarrow> CXXMethodDecl" where
  "ex_Method n virt pure inlineBody =
     \<lparr>MD_id = n, MD_isVirtual = virt, MD_isPure = pure, MD_isImplicit = False,
      MD_isInlineSpecified = False, MD_hasInlineBody = inlineBody, MD_isUserProvided = True,
      MD_hasBody = (if pure then None else Some False), MD_size_overridden_methods = 0\<rparr>"

definition ex_KeyClass :: DeclInfo where
  "ex_KeyClass =
     (ex_DeclInfo 7 False)
       \<lparr>isDynamicClass := True, isPolymorphic := True,
        methods := [ex_Method 0 False False False, ex_Method 1 True True False,
                    ex_Method 2 True False True, ex_Method 3 True False False]\<rparr>"

text \<open>
  A dynamic class with two nearly empty virtual bases, the first of which is the primary
  base of some other base.
\<close>

definition ex_VBase :: "nat \<Rightarrow> CXXRecordDecl" where
  "ex_VBase n =
     CXXRecordDecl ((ex_DeclInfo n False)\<lparr>isDynamicClass := True, isNearlyEmpty := True\<rparr>)
       [] [] [] (ex_Layout 8 8 8)"

definition ex_Derived :: CXXRecordDecl where
  "ex_Derived =
     CXXRecordDecl ((ex_DeclInfo 4 False)\<lparr>isDynamicClass := True\<rparr>)
       [CXXBaseSpecifier True (ex_VBase 2), CXXBaseSpecifier True (ex_VBase 3)]
       [ex_VBase 2, ex_VBase 3] [] (ex_Layout 8 8 8)"

text \<open>
  A bit-field \<^verbatim>\<open>unsigned : 37\<close> after a \<^verbatim>\<open>char\<close>, and the union
  \<^verbatim>\<open>union { unsigned long long : 40; }\<close>.
\<close>

definition ex_WideField :: FieldInfo where
  "ex_WideField = (ex_FieldInfo 30 32 32)\<lparr>FD_isBitField := True, FD_BitWidthValue := 37\<rparr>"

definition ex_AfterChar :: RecordLayoutBuilder where
  "ex_AfterChar = (newRecordLayoutBuilder None)\<lparr>Size := 8, DataSize := 8, FieldOffsets := [0]\<rparr>"

definition ex_ULL40 :: FieldInfo where
  "ex_ULL40 = (ex_FieldInfo 41 64 64)\<lparr>FD_hasIdentifier := False, FD_isBitField := True,
                                       FD_BitWidthValue := 40\<rparr>"

definition ex_Union40 :: CXXRecordDecl where
  "ex_Union40 =
     CXXRecordDecl ((ex_DeclInfo 40 False)\<lparr>isUnion := True\<rparr>) [] []
       [FieldDecl ex_ULL40 OtherType] (ex_Layout 0 0 1)"

text \<open>
  \<^verbatim>\<open>struct { char c; int x; }\<close>, a class with one \<^verbatim>\<open>int\<close> member as a base, and
  external layouts for them.
\<close>

definition ex_CharField :: FieldDecl where
  "ex_CharField = FieldDecl (ex_FieldInfo 0 8 8) OtherType"

definition ex_IntField :: FieldDecl where
  "ex_IntField = FieldDecl (ex_FieldInfo 1 32 32) OtherType"

definition ex_IntBitField :: FieldDecl where
  "ex_IntBitField =
     FieldDecl ((ex_FieldInfo 1 32 32)\<lparr>FD_isBitField := True, FD_BitWidthValue := 5\<rparr>) OtherType"

definition ex_IntClass :: CXXRecordDecl where
  "ex_IntClass = CXXRecordDecl (ex_DeclInfo 5 False) [] [] [ex_IntField] (ex_Layout 4 4 4)"

definition ex_IntBase :: BaseSubobjectInfo where
  "ex_IntBase = BaseSubobjectInfo 11 ex_IntClass False [] None None"

definition ex_ExternalBuilder :: RecordLayoutBuilder where
  "ex_ExternalBuilder =
     (newRecordLayoutBuilder (Some ex_Map))
       \<lparr>Size := 8, DataSize := 8, FieldOffsets := [0], ExternalLayout := True,
        InferAlignment := True, ExternalFieldOffsets := [1 \<mapsto> 16],
        ExternalBaseOffsets := [5 \<mapsto> 2]\<rparr>"

definition ex_ExternalInfo :: "int \<Rightarrow> ExternalLayoutInfo" where
  "ex_ExternalInfo x =
     \<lparr>Ext_Size = x + 32, Ext_Align = 0, Ext_FieldOffsets = [0 \<mapsto> 0, 1 \<mapsto> x],
      Ext_BaseOffsets = Map.empty, Ext_VirtualBaseOffsets = Map.empty\<rparr>"













text \<open>
  A 32-bit Microsoft target, and the Microsoft builder at the point where it lays out
  the fields of \<^verbatim>\<open>union { unsigned long long : 40; }\<close>.
\<close>

definition ex_MSContext :: ASTContext where
  "ex_MSContext =
     ex_Context
       \<lparr>PointerWidth := (\<lambda>AS. 32), PointerAlign := (\<lambda>AS. 32),
        getTypeSize := (\<lambda>T. case T of UnsignedCharTy \<Rightarrow> 8 | UnsignedShortTy \<Rightarrow> 16
                              | UnsignedIntTy \<Rightarrow> 32 | UnsignedLongTy \<Rightarrow> 32
                              | UnsignedLongLongTy \<Rightarrow> 64),
        getTypeAlignInChars := (\<lambda>T. case T of UnsignedCharTy \<Rightarrow> 1 | UnsignedShortTy \<Rightarrow> 2
                              | UnsignedIntTy \<Rightarrow> 4 | UnsignedLongTy \<Rightarrow> 4
                              | UnsignedLongLongTy \<Rightarrow> 8)\<rparr>"

definition ex_MSUnionBuilder :: MicrosoftRecordLayoutBuilder where
  "ex_MSUnionBuilder =
     layoutNonVirtualBases ex_Union40
       (initializeCXXLayout ex_MSContext
          (initializeLayout ex_MSContext (info ex_Union40) newMicrosoftRecordLayoutBuilder))"




text \<open>
  Classes laid out by the Microsoft builder on the 32-bit target:
  \<^verbatim>\<open>struct C1 { char c; };\<close>, \<^verbatim>\<open>struct VC : virtual C1 { int x; };\<close>, the empty class
  \<^verbatim>\<open>struct V {};\<close>, \<^verbatim>\<open>struct P : virtual V {};\<close> declared under \<^verbatim>\<open>#pragma pack(1)\<close>
  (its cached layout is the one the builder gives it), and \<^verbatim>\<open>struct Sh : C1, P {};\<close>.
  And a state in which a record of size 9 and alignment 4 has a required alignment of 8.
\<close>

definition ex_MSChar :: CXXRecordDecl where
  "ex_MSChar = CXXRecordDecl (ex_DeclInfo 81 False) [] [] [ex_CharField] (ex_Layout 1 1 1)"

definition ex_MSVirtualChar :: CXXRecordDecl where
  "ex_MSVirtualChar =
     CXXRecordDecl (ex_DeclInfo 82 False) [CXXBaseSpecifier True ex_MSChar] [ex_MSChar]
       [ex_IntField] (ex_Layout 0 0 1)"

definition ex_MSV :: CXXRecordDecl where
  "ex_MSV =
     CXXRecordDecl (ex_DeclInfo 83 True) [] [] []
       ((ex_Layout 1 0 1)\<lparr>hasZeroSizedSubObject := True, leadsWithZeroSizedBase := True\<rparr>)"

definition ex_MSPackedDecl :: CXXRecordDecl where
  "ex_MSPackedDecl =
     CXXRecordDecl ((ex_DeclInfo 84 False)\<lparr>MaxFieldAlignmentAttr := Some 8\<rparr>)
       [CXXBaseSpecifier True ex_MSV] [ex_MSV] [] (ex_Layout 0 0 1)"

definition ex_MSPacked :: CXXRecordDecl where
  "ex_MSPacked =
     CXXRecordDecl ((ex_DeclInfo 84 False)\<lparr>MaxFieldAlignmentAttr := Some 8\<rparr>)
       [CXXBaseSpecifier True ex_MSV] [ex_MSV] []
       (BuildMicrosoftASTRecordLayout_CXX ex_MSContext {} ex_MSPackedDecl)"

definition ex_MSShares :: CXXRecordDecl where
  "ex_MSShares =
     CXXRecordDecl (ex_DeclInfo 85 False)
       [CXXBaseSpecifier False ex_MSChar, CXXBaseSpecifier False ex_MSPacked] [ex_MSV] []
       (ex_Layout 0 0 1)"



section \<open>Properties\<close>

subsection \<open>Empty-subobject map\<close>

lemma extends_refl [simp]: "extends M M"
  by (simp add: extends_def)

lemma extends_trans: "extends M1 M2 \<Longrightarrow> extends M2 M3 \<Longrightarrow> extends M1 M3"
  by (auto simp: extends_def)

lemma recorded_Add:
  "recorded (AddSubobjectAtOffset M RD Offset) c Offset' \<longleftrightarrow>
     recorded M c Offset' \<or> (isEmpty RD \<and> c = declId RD \<and> Offset' = Offset)"
  by (auto simp: recorded_def AddSubobjectAtOffset_def Let_def split: option.splits)

lemma Size_Add [simp]:
  "SizeOfLargestEmptySubobject (AddSubobjectAtOffset M RD Offset) = SizeOfLargestEmptySubobject M"
  by (simp add: AddSubobjectAtOffset_def Let_def)

lemma Max_Add:
  "MaxEmptyClassOffset M \<le> MaxEmptyClassOffset (AddSubobjectAtOffset M RD Offset)"
  by (simp add: AddSubobjectAtOffset_def Let_def)


lemma extends_Add: "extends M (AddSubobjectAtOffset M RD Offset)"
  by (simp add: extends_def recorded_Add Max_Add)


lemma Update_field_extends:
  "extends M (UpdateEmptyFieldSubobjects_RD Context M RD MostDerived Offset)"
  "extends M (UpdateField_bases Context M Layout bs MostDerived Offset)"
  "extends M (UpdateField_vbases Context M Layout vbs MostDerived Offset)"
  "extends M (UpdateField_fields Context M Layout fs FieldNo Offset)"
  "extends M (UpdateEmptyFieldSubobjects_FD Context M FD Offset)"
  "extends M (UpdateField_elements Context M RD n Offset)"
proof (induction Context M RD MostDerived Offset
         and Context M Layout bs MostDerived Offset
         and Context M Layout vbs MostDerived Offset
         and Context M Layout fs FieldNo Offset
         and Context M FD Offset
         and Context M RD n Offset
       rule: UpdateEmptyFieldSubobjects_RD_UpdateField_bases_UpdateField_vbases_UpdateField_fields_UpdateEmptyFieldSubobjects_FD_UpdateField_elements.induct)
  case (1 Context M RD bs vbs fs Layout MostDerived Offset)
  then show ?case
    by auto (blast intro: extends_trans extends_Add)+
qed (auto intro: extends_trans)

lemma Update_base_extends:
  "extends M (UpdateEmptyBaseSubobjects Context M Info Offset Placing)"
  "extends M (UpdateBase_bases Context M Layout Bs Offset Placing)"
  "extends M (UpdateBase_primary Context M n PVBI Offset Placing)"
proof (induction Context M Info Offset Placing
         and Context M Layout Bs Offset Placing
         and Context M n PVBI Offset Placing
       rule: UpdateEmptyBaseSubobjects_UpdateBase_bases_UpdateBase_primary.induct)
  case (1 Context M n Cl virt Bs PVBI D Offset PlacingEmptyBase)
  then show ?case
    by auto (blast intro: extends_trans extends_Add Update_field_extends(4))+
qed (auto intro: extends_trans)


lemmas update_field_induct = UpdateEmptyFieldSubobjects_RD_UpdateField_bases_UpdateField_vbases_UpdateField_fields_UpdateEmptyFieldSubobjects_FD_UpdateField_elements.induct
lemmas subobjects_field_induct = subobjects_RD_subobjects_bases_subobjects_vbases_subobjects_fields_subobjects_FD_subobjects_elements.induct

lemma nonneg_RD_size: "nonneg_RD Context RD MostDerived \<Longrightarrow> 0 \<le> getSize (getASTRecordLayout RD)"
  by (cases RD) simp

lemma subobjects_field_lower:
  "nonneg_RD Context RD MostDerived \<Longrightarrow>
     x \<in> set (subobjects_RD Context RD MostDerived Offset) \<Longrightarrow> Offset \<le> snd x"
  "nonneg_bases Context Layout bs MostDerived \<Longrightarrow>
     x \<in> set (subobjects_bases Context Layout bs MostDerived Offset) \<Longrightarrow> Offset \<le> snd x"
  "nonneg_vbases Context Layout vbs MostDerived \<Longrightarrow>
     x \<in> set (subobjects_vbases Context Layout vbs MostDerived Offset) \<Longrightarrow> Offset \<le> snd x"
  "nonneg_fields Context Layout fs FieldNo \<Longrightarrow>
     x \<in> set (subobjects_fields Context Layout fs FieldNo Offset) \<Longrightarrow> Offset \<le> snd x"
  "nonneg_FD Context FD \<Longrightarrow>
     x \<in> set (subobjects_FD Context FD Offset) \<Longrightarrow> Offset \<le> snd x"
  "nonneg_RD Context RD (declId (info RD)) \<Longrightarrow>
     x \<in> set (subobjects_elements Context RD n Offset) \<Longrightarrow> Offset \<le> snd x"
proof (induction Context RD MostDerived Offset
         and Context Layout bs MostDerived Offset
         and Context Layout vbs MostDerived Offset
         and Context Layout fs FieldNo Offset
         and Context FD Offset
         and Context RD n Offset
       rule: subobjects_field_induct)
  case (12 Context RD n ElementOffset)
  then show ?case
    using nonneg_RD_size [of Context RD "declId (info RD)"] by fastforce
qed (fastforce split: if_splits)+








lemma extends_recorded: "extends M M' \<Longrightarrow> recorded M c Offset \<Longrightarrow> recorded M' c Offset"
  by (simp add: extends_def)

lemma extends_Size: "extends M M' \<Longrightarrow> SizeOfLargestEmptySubobject M' = SizeOfLargestEmptySubobject M"
  by (simp add: extends_def)

lemmas field_Size [simp] = Update_field_extends [THEN extends_Size]
lemmas field_keeps = Update_field_extends [THEN extends_recorded]

lemma Update_field_records:
  "nonneg_RD Context RD MostDerived \<Longrightarrow>
     x \<in> set (subobjects_RD Context RD MostDerived Offset) \<Longrightarrow> isEmpty (fst x) \<Longrightarrow>
     snd x < SizeOfLargestEmptySubobject M \<Longrightarrow>
     recorded (UpdateEmptyFieldSubobjects_RD Context M RD MostDerived Offset) (declId (fst x)) (snd x)"
  "nonneg_bases Context Layout bs MostDerived \<Longrightarrow>
     x \<in> set (subobjects_bases Context Layout bs MostDerived Offset) \<Longrightarrow> isEmpty (fst x) \<Longrightarrow>
     snd x < SizeOfLargestEmptySubobject M \<Longrightarrow>
     recorded (UpdateField_bases Context M Layout bs MostDerived Offset) (declId (fst x)) (snd x)"
  "nonneg_vbases Context Layout vbs MostDerived \<Longrightarrow>
     x \<in> set (subobjects_vbases Context Layout vbs MostDerived Offset) \<Longrightarrow> isEmpty (fst x) \<Longrightarrow>
     snd x < SizeOfLargestEmptySubobject M \<Longrightarrow>
     recorded (UpdateField_vbases Context M Layout vbs MostDerived Offset) (declId (fst x)) (snd x)"
  "nonneg_fields Context Layout fs FieldNo \<Longrightarrow>
     x \<in> set (subobjects_fields Context Layout fs FieldNo Offset) \<Longrightarrow> isEmpty (fst x) \<Longrightarrow>
     snd x < SizeOfLargestEmptySubobject M \<Longrightarrow>
     recorded (UpdateField_fields Context M Layout fs FieldNo Offset) (declId (fst x)) (snd x)"
  "nonneg_FD Context FD \<Longrightarrow>
     x \<in> set (subobjects_FD Context FD Offset) \<Longrightarrow> isEmpty (fst x) \<Longrightarrow>
     snd x < SizeOfLargestEmptySubobject M \<Longrightarrow>
     recorded (UpdateEmptyFieldSubobjects_FD Context M FD Offset) (declId (fst x)) (snd x)"
  "nonneg_RD Context RD (declId (info RD)) \<Longrightarrow>
     x \<in> set (subobjects_elements Context RD n Offset) \<Longrightarrow> isEmpty (fst x) \<Longrightarrow>
     snd x < SizeOfLargestEmptySubobject M \<Longrightarrow>
     recorded (UpdateField_elements Context M RD n Offset) (declId (fst x)) (snd x)"
proof (induction Context M RD MostDerived Offset
         and Context M Layout bs MostDerived Offset
         and Context M Layout vbs MostDerived Offset
         and Context M Layout fs FieldNo Offset
         and Context M FD Offset
         and Context M RD n Offset
       rule: update_field_induct)
  case (1 Context M RD bs vbs fs Layout MostDerived Offset)
  have lower: "Offset \<le> snd x"
    using subobjects_field_lower(1) [OF "1.prems"(1) "1.prems"(2)] .
  show ?case
  proof (cases "SizeOfLargestEmptySubobject M \<le> Offset")
    case True
    then show ?thesis using lower "1.prems" by simp
  next
    case False
    then show ?thesis
      using 1 by (auto split: if_splits) (blast intro: field_keeps recorded_Add [THEN iffD2])+
  qed
next
  case (12 Context M RD n ElementOffset)
  have lower: "ElementOffset \<le> snd x"
    using subobjects_field_lower(6) [OF "12.prems"(1) "12.prems"(2)] .
  show ?case
  proof (cases "SizeOfLargestEmptySubobject M \<le> ElementOffset")
    case True
    then show ?thesis using lower "12.prems" by simp
  next
    case False
    then show ?thesis
      using 12 by auto (blast intro: field_keeps)+
  qed
qed (auto intro: field_keeps split: if_splits)


lemmas update_base_induct = UpdateEmptyBaseSubobjects_UpdateBase_bases_UpdateBase_primary.induct
lemmas subobjects_base_induct = subobjects_Info_subobjects_Info_bases_subobjects_Info_primary.induct

lemma subobjects_base_lower:
  "nonneg_Info Context Info \<Longrightarrow>
     x \<in> set (subobjects_Info Context Info Offset) \<Longrightarrow> Offset \<le> snd x"
  "nonneg_Info_bases Context Layout Bs \<Longrightarrow>
     x \<in> set (subobjects_Info_bases Context Layout Bs Offset) \<Longrightarrow> Offset \<le> snd x"
  "nonneg_Info_primary Context n PVBI \<Longrightarrow>
     x \<in> set (subobjects_Info_primary Context n PVBI Offset) \<Longrightarrow> Offset \<le> snd x"
proof (induction Context Info Offset and Context Layout Bs Offset and Context n PVBI Offset
       rule: subobjects_base_induct)
  case (1 Context n Cl virt Bs PVBI D Offset)
  then show ?case
    using subobjects_field_lower(4) [of Context "getASTRecordLayout Cl" "fieldDecls Cl" 0 x Offset]
    by auto
qed (fastforce split: if_splits)+



lemmas base_keeps = Update_base_extends [THEN extends_recorded]
lemmas base_Size [simp] = Update_base_extends [THEN extends_Size]

lemma Update_base_records:
  "nonneg_Info Context Info \<Longrightarrow>
     x \<in> set (subobjects_Info Context Info Offset) \<Longrightarrow> isEmpty (fst x) \<Longrightarrow>
     snd x < SizeOfLargestEmptySubobject M \<Longrightarrow>
     recorded (UpdateEmptyBaseSubobjects Context M Info Offset Placing) (declId (fst x)) (snd x)"
  "nonneg_Info_bases Context Layout Bs \<Longrightarrow>
     x \<in> set (subobjects_Info_bases Context Layout Bs Offset) \<Longrightarrow> isEmpty (fst x) \<Longrightarrow>
     snd x < SizeOfLargestEmptySubobject M \<Longrightarrow>
     recorded (UpdateBase_bases Context M Layout Bs Offset Placing) (declId (fst x)) (snd x)"
  "nonneg_Info_primary Context n PVBI \<Longrightarrow>
     x \<in> set (subobjects_Info_primary Context n PVBI Offset) \<Longrightarrow> isEmpty (fst x) \<Longrightarrow>
     snd x < SizeOfLargestEmptySubobject M \<Longrightarrow>
     recorded (UpdateBase_primary Context M n PVBI Offset Placing) (declId (fst x)) (snd x)"
proof (induction Context M Info Offset Placing
         and Context M Layout Bs Offset Placing
         and Context M n PVBI Offset Placing
       rule: update_base_induct)
  case (1 Context M n Cl virt Bs PVBI D Offset PlacingEmptyBase)
  have lower: "Offset \<le> snd x"
    using subobjects_base_lower(1) [OF "1.prems"(1) "1.prems"(2)] .
  show ?case
  proof (cases "\<not> PlacingEmptyBase \<and> SizeOfLargestEmptySubobject M \<le> Offset")
    case True
    then show ?thesis using lower "1.prems" by simp
  next
    case False
    then show ?thesis
      using 1 Update_field_records(4) [of Context "getASTRecordLayout Cl" "fieldDecls Cl" 0 x Offset]
      by (auto split: if_splits) (blast intro: field_keeps base_keeps recorded_Add [THEN iffD2])+
  qed
qed (auto intro: base_keeps split: if_splits)

text \<open>
  C9. A call of \<^verbatim>\<open>CanPlaceBaseAtOffset\<close> or \<^verbatim>\<open>CanPlaceFieldAtOffset\<close> that returns
  false leaves the map (the table and the maximum offset) as it was. A call that returns
  true keeps every entry and the bound, and afterwards every empty subobject of the
  placement whose offset is below the tracked bound \<open>SizeOfLargestEmptySubobject\<close> is
  recorded at its offset. The layouts read have no negative offset or size.
\<close>

theorem CanPlace_false_unchanged_true_records:
  assumes "nonneg_Info Context Info" and "nonneg_FD Context FD" and "0 \<le> Offset"
  shows "(\<not> fst (CanPlaceBaseAtOffset Context M Info Offset) \<longrightarrow>
            snd (CanPlaceBaseAtOffset Context M Info Offset) = M) \<and>
         (\<not> fst (CanPlaceFieldAtOffset Context M FD Offset) \<longrightarrow>
            snd (CanPlaceFieldAtOffset Context M FD Offset) = M) \<and>
         (fst (CanPlaceBaseAtOffset Context M Info Offset) \<longrightarrow>
            extends M (snd (CanPlaceBaseAtOffset Context M Info Offset)) \<and>
            (\<forall>x \<in> set (subobjects_Info Context Info Offset).
               isEmpty (fst x) \<and> snd x < SizeOfLargestEmptySubobject M \<longrightarrow>
               recorded (snd (CanPlaceBaseAtOffset Context M Info Offset))
                 (declId (fst x)) (snd x))) \<and>
         (fst (CanPlaceFieldAtOffset Context M FD Offset) \<longrightarrow>
            extends M (snd (CanPlaceFieldAtOffset Context M FD Offset)) \<and>
            (\<forall>x \<in> set (subobjects_FD Context FD Offset).
               isEmpty (fst x) \<and> snd x < SizeOfLargestEmptySubobject M \<longrightarrow>
               recorded (snd (CanPlaceFieldAtOffset Context M FD Offset))
                 (declId (fst x)) (snd x)))"
proof (intro conjI impI ballI)
  show "snd (CanPlaceBaseAtOffset Context M Info Offset) = M"
    if "\<not> fst (CanPlaceBaseAtOffset Context M Info Offset)"
    using that by (simp add: CanPlaceBaseAtOffset_def split: if_splits)
  show "snd (CanPlaceFieldAtOffset Context M FD Offset) = M"
    if "\<not> fst (CanPlaceFieldAtOffset Context M FD Offset)"
    using that by (simp add: CanPlaceFieldAtOffset_def split: if_splits)
  show "extends M (snd (CanPlaceBaseAtOffset Context M Info Offset))"
    by (simp add: CanPlaceBaseAtOffset_def Update_base_extends)
  show "extends M (snd (CanPlaceFieldAtOffset Context M FD Offset))"
    by (simp add: CanPlaceFieldAtOffset_def Update_field_extends)
next
  fix x
  assume x: "x \<in> set (subobjects_Info Context Info Offset)"
    and e: "isEmpty (fst x) \<and> snd x < SizeOfLargestEmptySubobject M"
    and ok: "fst (CanPlaceBaseAtOffset Context M Info Offset)"
  have "Offset \<le> snd x" using subobjects_base_lower(1) [OF assms(1) x] .
  then have pos: "SizeOfLargestEmptySubobject M \<noteq> 0" using e assms(3) by linarith
  show "recorded (snd (CanPlaceBaseAtOffset Context M Info Offset)) (declId (fst x)) (snd x)"
    using ok pos Update_base_records(1) [OF assms(1) x] e
    by (simp add: CanPlaceBaseAtOffset_def split: if_splits)
next
  fix x
  assume x: "x \<in> set (subobjects_FD Context FD Offset)"
    and e: "isEmpty (fst x) \<and> snd x < SizeOfLargestEmptySubobject M"
    and ok: "fst (CanPlaceFieldAtOffset Context M FD Offset)"
  show "recorded (snd (CanPlaceFieldAtOffset Context M FD Offset)) (declId (fst x)) (snd x)"
    using ok Update_field_records(5) [OF assms(2) x] e
    by (simp add: CanPlaceFieldAtOffset_def split: if_splits)
qed

lemmas ex_defs =
  ex_Context_def ex_DeclInfo_def ex_Layout_def ex_FieldInfo_def ex_Empty_def
  ex_EmptyBase_def ex_EmptyField_def ex_Map_def

theorem CanPlace_false_unchanged_true_records_witness:
  "nonneg_Info ex_Context ex_EmptyBase \<and> nonneg_FD ex_Context ex_EmptyField \<and> (0::int) \<le> 0 \<and>
   fst (CanPlaceBaseAtOffset ex_Context ex_Map ex_EmptyBase 0) \<and>
   recorded (snd (CanPlaceBaseAtOffset ex_Context ex_Map ex_EmptyBase 0)) 1 0 \<and>
   \<not> fst (CanPlaceFieldAtOffset ex_Context
             (snd (CanPlaceBaseAtOffset ex_Context ex_Map ex_EmptyBase 0)) ex_EmptyField 0) \<and>
   snd (CanPlaceFieldAtOffset ex_Context
          (snd (CanPlaceBaseAtOffset ex_Context ex_Map ex_EmptyBase 0)) ex_EmptyField 0) =
     snd (CanPlaceBaseAtOffset ex_Context ex_Map ex_EmptyBase 0)"
proof -
  have h1: "nonneg_Info ex_Context ex_EmptyBase" by (simp add: ex_defs)
  have h2: "nonneg_FD ex_Context ex_EmptyField" by (simp add: ex_defs)
  have h3: "(0::int) \<le> 0" by simp
  have ok: "fst (CanPlaceBaseAtOffset ex_Context ex_Map ex_EmptyBase 0)"
    by (simp add: ex_defs CanPlaceBaseAtOffset_def AnyEmptySubobjectsBeyondOffset_def
        CanPlaceSubobjectAtOffset_def)
  have x: "(ex_DeclInfo 1 True, 0) \<in> set (subobjects_Info ex_Context ex_EmptyBase 0)"
    by (simp add: ex_defs)
  have no: "\<not> fst (CanPlaceFieldAtOffset ex_Context
             (snd (CanPlaceBaseAtOffset ex_Context ex_Map ex_EmptyBase 0)) ex_EmptyField 0)"
    by (simp add: ex_defs CanPlaceBaseAtOffset_def CanPlaceFieldAtOffset_def
        AnyEmptySubobjectsBeyondOffset_def CanPlaceSubobjectAtOffset_def
        AddSubobjectAtOffset_def Let_def)
  note t1 = CanPlace_false_unchanged_true_records [OF h1 h2 h3, of ex_Map]
  note t2 = CanPlace_false_unchanged_true_records [OF h1 h2 h3,
              of "snd (CanPlaceBaseAtOffset ex_Context ex_Map ex_EmptyBase 0)"]
  have r: "recorded (snd (CanPlaceBaseAtOffset ex_Context ex_Map ex_EmptyBase 0)) 1 0"
    using t1 ok x by (fastforce simp: ex_DeclInfo_def ex_Map_def)
  show ?thesis using h1 h2 ok no r t2 by simp
qed

subsection \<open>Primary base\<close>

lemma find_append_cases:
  "List.find P (xs @ ys) = (case List.find P xs of None \<Rightarrow> List.find P ys | Some x \<Rightarrow> Some x)"
  by (induction xs) auto

lemma SelectPrimaryVBase_selected:
  "PrimaryBase B = None \<Longrightarrow> selected B (spec_inheritanceOrder RD) (SelectPrimaryVBase B RD)"
  "PrimaryBase B = None \<Longrightarrow> selected B (spec_inheritanceOrder_bases bs) (SelectPrimaryVBase_bases B bs)"
proof (induction B RD and B bs rule: SelectPrimaryVBase_SelectPrimaryVBase_bases.induct)
  case (1 B RD bs vbs fs Layout)
  then show ?case by simp
next
  case (2 B)
  then show ?case by (simp add: selected_def split: option.splits)
next
  case (3 B virt Base rest)
  let ?I = "CXXBaseSpecifier virt Base"
  let ?B1 = "rememberFirstNearlyEmptyVBase virt Base B"
  let ?B2 = "SelectPrimaryVBase ?B1 Base"
  show ?case
  proof (cases "virt \<and> isNearlyEmpty (info Base) \<and> declId (info Base) \<notin> IndirectPrimaryBases B")
    case True
    then show ?thesis by (simp add: selected_def spec_nearlyEmptyVBase_def)
  next
    case False
    have p1: "PrimaryBase ?B1 = None"
      using "3.prems" by (simp add: rememberFirstNearlyEmptyVBase_def)
    have ipb1: "IndirectPrimaryBases ?B1 = IndirectPrimaryBases B"
      by (simp add: rememberFirstNearlyEmptyVBase_def)
    have s2: "selected ?B1 (spec_inheritanceOrder Base) ?B2"
      using "3.IH"(1) [OF False p1] .
    show ?thesis
    proof (cases "PrimaryBase ?B2 \<noteq> None")
      case True
      then show ?thesis
        using False s2 ipb1
        by (auto simp: selected_def find_append_cases spec_nearlyEmptyVBase_def
            split: option.splits)
    next
      case F2: False
      then have p2: "PrimaryBase ?B2 = None" by simp
      have s3: "selected ?B2 (spec_inheritanceOrder_bases rest) (SelectPrimaryVBase_bases ?B2 rest)"
        using "3.IH"(4) [OF False F2 p2] .
      show ?thesis
        using False F2 s2 s3 ipb1
        by (auto simp: selected_def find_append_cases spec_nearlyEmptyVBase_def
            rememberFirstNearlyEmptyVBase_def split: option.splits if_splits)
    qed
  qed
qed


lemma firstNonVirtualDynamicBase_find:
  "firstNonVirtualDynamicBase bs =
     map_option getBaseDecl
       (List.find (\<lambda>I. \<not> isVirtual I \<and> isDynamicClass (info (getBaseDecl I))) bs)"
  by (induction bs) auto

lemma find_None_virtual:
  "\<forall>I \<in> set xs. \<not> isVirtual I \<Longrightarrow> List.find (\<lambda>I. spec_nearlyEmptyVBase I \<and> Q I) xs = None"
  "\<forall>I \<in> set xs. \<not> isVirtual I \<Longrightarrow> List.find spec_nearlyEmptyVBase xs = None"
  by (auto simp: find_None_iff spec_nearlyEmptyVBase_def)

text \<open>
  C2. For a dynamic class the primary base chosen by \<^verbatim>\<open>DeterminePrimaryBase\<close> is the
  first direct non-virtual dynamic base in declaration order, if there is one; otherwise
  the first nearly empty virtual base, in recursive inheritance order, that is not an
  indirect primary base; otherwise the first nearly empty virtual base met at all; a
  class that is not dynamic has no primary base. (A class whose count of virtual bases is
  zero has no virtual base specifier in its hierarchy.)
\<close>

theorem DeterminePrimaryBase_spec:
  assumes "getNumVBases RD = 0 \<longrightarrow> (\<forall>I \<in> set (spec_inheritanceOrder RD). \<not> isVirtual I)"
  shows "(case spec_PrimaryBase IndirectPrimary RD of
            None \<Rightarrow>
              PrimaryBase (DeterminePrimaryBase IndirectPrimary RD (newRecordLayoutBuilder ESM)) = None
          | Some (Base, virt) \<Rightarrow>
              PrimaryBase (DeterminePrimaryBase IndirectPrimary RD (newRecordLayoutBuilder ESM)) = Some Base \<and>
              PrimaryBaseIsVirtual (DeterminePrimaryBase IndirectPrimary RD (newRecordLayoutBuilder ESM)) = virt)"
proof (cases "isDynamicClass (info RD)")
  case False
  then show ?thesis
    by (simp add: spec_PrimaryBase_def DeterminePrimaryBase_def newRecordLayoutBuilder_def)
next
  case dyn: True
  let ?B1 = "(newRecordLayoutBuilder ESM)\<lparr>IndirectPrimaryBases :=
               IndirectPrimaryBases (newRecordLayoutBuilder ESM) \<union> IndirectPrimary\<rparr>"
  have b1: "PrimaryBase ?B1 = None" "FirstNearlyEmptyVBase ?B1 = None"
    "IndirectPrimaryBases ?B1 = IndirectPrimary"
    by (simp_all add: newRecordLayoutBuilder_def)
  show ?thesis
  proof (cases "List.find (\<lambda>I. \<not> isVirtual I \<and> isDynamicClass (info (getBaseDecl I))) (bases RD)")
    case (Some I)
    then show ?thesis
      using dyn
      by (simp add: spec_PrimaryBase_def DeterminePrimaryBase_def firstNonVirtualDynamicBase_find)
  next
    case None
    show ?thesis
    proof (cases "getNumVBases RD = 0")
      case True
      then have nov: "\<forall>I \<in> set (spec_inheritanceOrder RD). \<not> isVirtual I" using assms by simp
      show ?thesis
        using dyn None True b1 find_None_virtual [OF nov]
        by (simp add: spec_PrimaryBase_def DeterminePrimaryBase_def
            firstNonVirtualDynamicBase_find Let_def)
    next
      case False
      have sel: "selected ?B1 (spec_inheritanceOrder RD) (SelectPrimaryVBase ?B1 RD)"
        using SelectPrimaryVBase_selected(1) [OF b1(1)] .
      show ?thesis
        using dyn None False sel b1
        by (auto simp: spec_PrimaryBase_def DeterminePrimaryBase_def
            firstNonVirtualDynamicBase_find Let_def selected_def split: option.splits)
    qed
  qed
qed


theorem DeterminePrimaryBase_spec_witness:
  "getNumVBases ex_Derived \<noteq> 0 \<and>
   PrimaryBase (DeterminePrimaryBase {2} ex_Derived (newRecordLayoutBuilder None)) =
     Some (ex_VBase 3) \<and>
   PrimaryBaseIsVirtual (DeterminePrimaryBase {2} ex_Derived (newRecordLayoutBuilder None))"
  using DeterminePrimaryBase_spec [of ex_Derived "{2}" None]
  by (simp add: ex_Derived_def ex_VBase_def ex_DeclInfo_def getNumVBases_def
      spec_PrimaryBase_def spec_nearlyEmptyVBase_def)

subsection \<open>Key function\<close>

lemma keyFunctionLoop_find:
  "keyFunctionLoop allow ms = List.find (spec_qualifying allow) ms"
  by (induction ms) (auto simp: spec_qualifying_def split: option.splits)

text \<open>
  C7. The key-function resolver returns null for a class that is not polymorphic, is not
  externally visible, or is an implicit or explicit-definition template instantiation;
  otherwise it returns the first method in declaration order that is virtual, non-pure,
  non-implicit, not inline-specified, without an inline body, user-provided and (when the
  ABI forbids inline key functions) without a definition marked inline; null when no
  method qualifies.
\<close>

theorem computeKeyFunction_first_qualifying:
  "computeKeyFunction Context RD =
     (if spec_hasNoKeyFunction RD then None
      else List.find (spec_qualifying (canKeyFunctionBeInline Context)) (methods RD))"
  by (simp add: computeKeyFunction_def spec_hasNoKeyFunction_def keyFunctionLoop_find)

theorem computeKeyFunction_first_qualifying_witness:
  "computeKeyFunction ex_Context ex_KeyClass = Some (ex_Method 3 True False False)"
  using computeKeyFunction_first_qualifying [of ex_Context ex_KeyClass]
  by (simp add: ex_KeyClass_def ex_DeclInfo_def ex_Method_def ex_Context_def
      spec_hasNoKeyFunction_def spec_qualifying_def)

subsection \<open>Microsoft builder: what each step leaves alone\<close>

lemma adjusted_Layout_frame [simp]:
  "MS_Size (snd (getAdjustedElementInfo_Layout L B)) = MS_Size B"
  "MS_DataSize (snd (getAdjustedElementInfo_Layout L B)) = MS_DataSize B"
  "MS_MaxFieldAlignment (snd (getAdjustedElementInfo_Layout L B)) = MS_MaxFieldAlignment B"
  "MS_RequiredAlignment (snd (getAdjustedElementInfo_Layout L B)) = MS_RequiredAlignment B"
  "MS_CurrentBitfieldSize (snd (getAdjustedElementInfo_Layout L B)) = MS_CurrentBitfieldSize B"
  "MS_VBPtrOffset (snd (getAdjustedElementInfo_Layout L B)) = MS_VBPtrOffset B"
  "MS_PointerInfo (snd (getAdjustedElementInfo_Layout L B)) = MS_PointerInfo B"
  "MS_PrimaryBase (snd (getAdjustedElementInfo_Layout L B)) = MS_PrimaryBase B"
  "MS_SharedVBPtrBase (snd (getAdjustedElementInfo_Layout L B)) = MS_SharedVBPtrBase B"
  "MS_FieldOffsets (snd (getAdjustedElementInfo_Layout L B)) = MS_FieldOffsets B"
  "MS_Bases (snd (getAdjustedElementInfo_Layout L B)) = MS_Bases B"
  "MS_VBases (snd (getAdjustedElementInfo_Layout L B)) = MS_VBases B"
  "MS_RemainingBitsInField (snd (getAdjustedElementInfo_Layout L B)) = MS_RemainingBitsInField B"
  "MS_IsUnion (snd (getAdjustedElementInfo_Layout L B)) = MS_IsUnion B"
  "MS_LastFieldIsNonZeroWidthBitfield (snd (getAdjustedElementInfo_Layout L B)) =
     MS_LastFieldIsNonZeroWidthBitfield B"
  "MS_HasOwnVFPtr (snd (getAdjustedElementInfo_Layout L B)) = MS_HasOwnVFPtr B"
  "MS_HasVBPtr (snd (getAdjustedElementInfo_Layout L B)) = MS_HasVBPtr B"
  "MS_Is64BitMode (snd (getAdjustedElementInfo_Layout L B)) = MS_Is64BitMode B"
  "MS_Alignment (snd (getAdjustedElementInfo_Layout L B)) =
     max (MS_Alignment B) (packedAlignment L B)"
  "EI_Size (fst (getAdjustedElementInfo_Layout L B)) = getDataSize L"
  "EI_Alignment (fst (getAdjustedElementInfo_Layout L B)) =
     max (packedAlignment L B) (getRequiredAlignment L)"
  by (simp_all add: getAdjustedElementInfo_Layout_def)

lemma fieldElementInfo_frame [simp]:
  "MS_Size (snd (fieldElementInfo C FD B)) = MS_Size B"
  "MS_DataSize (snd (fieldElementInfo C FD B)) = MS_DataSize B"
  "MS_MaxFieldAlignment (snd (fieldElementInfo C FD B)) = MS_MaxFieldAlignment B"
  "MS_CurrentBitfieldSize (snd (fieldElementInfo C FD B)) = MS_CurrentBitfieldSize B"
  "MS_VBPtrOffset (snd (fieldElementInfo C FD B)) = MS_VBPtrOffset B"
  "MS_PointerInfo (snd (fieldElementInfo C FD B)) = MS_PointerInfo B"
  "MS_PrimaryBase (snd (fieldElementInfo C FD B)) = MS_PrimaryBase B"
  "MS_SharedVBPtrBase (snd (fieldElementInfo C FD B)) = MS_SharedVBPtrBase B"
  "MS_FieldOffsets (snd (fieldElementInfo C FD B)) = MS_FieldOffsets B"
  "MS_Bases (snd (fieldElementInfo C FD B)) = MS_Bases B"
  "MS_VBases (snd (fieldElementInfo C FD B)) = MS_VBases B"
  "MS_RemainingBitsInField (snd (fieldElementInfo C FD B)) = MS_RemainingBitsInField B"
  "MS_IsUnion (snd (fieldElementInfo C FD B)) = MS_IsUnion B"
  "MS_LastFieldIsNonZeroWidthBitfield (snd (fieldElementInfo C FD B)) =
     MS_LastFieldIsNonZeroWidthBitfield B"
  "MS_HasOwnVFPtr (snd (fieldElementInfo C FD B)) = MS_HasOwnVFPtr B"
  "MS_HasVBPtr (snd (fieldElementInfo C FD B)) = MS_HasVBPtr B"
  "MS_Is64BitMode (snd (fieldElementInfo C FD B)) = MS_Is64BitMode B"
  "EI_Size (fst (fieldElementInfo C FD B)) = fst (getTypeInfoInChars C FD)"
  by (simp_all add: fieldElementInfo_def Let_def split: QualType.splits)

lemma fieldElementInfo_mono:
  "MS_Alignment B \<le> MS_Alignment (snd (fieldElementInfo C FD B))"
  "MS_RequiredAlignment B \<le> MS_RequiredAlignment (snd (fieldElementInfo C FD B))"
  by (simp_all add: fieldElementInfo_def Let_def split: QualType.splits)

lemma adjusted_FD_frame [simp]:
  "MS_Size (snd (getAdjustedElementInfo_FD C FD B)) = MS_Size B"
  "MS_DataSize (snd (getAdjustedElementInfo_FD C FD B)) = MS_DataSize B"
  "MS_MaxFieldAlignment (snd (getAdjustedElementInfo_FD C FD B)) = MS_MaxFieldAlignment B"
  "MS_CurrentBitfieldSize (snd (getAdjustedElementInfo_FD C FD B)) = MS_CurrentBitfieldSize B"
  "MS_VBPtrOffset (snd (getAdjustedElementInfo_FD C FD B)) = MS_VBPtrOffset B"
  "MS_PointerInfo (snd (getAdjustedElementInfo_FD C FD B)) = MS_PointerInfo B"
  "MS_PrimaryBase (snd (getAdjustedElementInfo_FD C FD B)) = MS_PrimaryBase B"
  "MS_SharedVBPtrBase (snd (getAdjustedElementInfo_FD C FD B)) = MS_SharedVBPtrBase B"
  "MS_FieldOffsets (snd (getAdjustedElementInfo_FD C FD B)) = MS_FieldOffsets B"
  "MS_Bases (snd (getAdjustedElementInfo_FD C FD B)) = MS_Bases B"
  "MS_VBases (snd (getAdjustedElementInfo_FD C FD B)) = MS_VBases B"
  "MS_RemainingBitsInField (snd (getAdjustedElementInfo_FD C FD B)) = MS_RemainingBitsInField B"
  "MS_IsUnion (snd (getAdjustedElementInfo_FD C FD B)) = MS_IsUnion B"
  "MS_LastFieldIsNonZeroWidthBitfield (snd (getAdjustedElementInfo_FD C FD B)) =
     MS_LastFieldIsNonZeroWidthBitfield B"
  "MS_HasOwnVFPtr (snd (getAdjustedElementInfo_FD C FD B)) = MS_HasOwnVFPtr B"
  "MS_HasVBPtr (snd (getAdjustedElementInfo_FD C FD B)) = MS_HasVBPtr B"
  "MS_Is64BitMode (snd (getAdjustedElementInfo_FD C FD B)) = MS_Is64BitMode B"
  "EI_Size (fst (getAdjustedElementInfo_FD C FD B)) = fst (getTypeInfoInChars C FD)"
  by (simp_all add: getAdjustedElementInfo_FD_def Let_def)

lemma adjusted_FD_Required:
  "MS_RequiredAlignment B \<le> MS_RequiredAlignment (snd (getAdjustedElementInfo_FD C FD B))"
  using fieldElementInfo_mono(2) [of B C FD]
  by (auto simp: getAdjustedElementInfo_FD_def Let_def)

lemma adjusted_FD_Alignment:
  assumes "0 < MS_Alignment B" and "0 \<le> MS_MaxFieldAlignment B"
  shows "0 < MS_Alignment (snd (getAdjustedElementInfo_FD C FD B))"
  using fieldElementInfo_mono(1) [of B C FD] assms
  by (auto simp: getAdjustedElementInfo_FD_def Let_def)

lemma placeField_frame [simp]:
  "MS_DataSize (placeField C Info f B) = MS_DataSize B"
  "MS_Alignment (placeField C Info f B) = MS_Alignment B"
  "MS_MaxFieldAlignment (placeField C Info f B) = MS_MaxFieldAlignment B"
  "MS_RequiredAlignment (placeField C Info f B) = MS_RequiredAlignment B"
  "MS_CurrentBitfieldSize (placeField C Info f B) = MS_CurrentBitfieldSize B"
  "MS_VBPtrOffset (placeField C Info f B) = MS_VBPtrOffset B"
  "MS_PointerInfo (placeField C Info f B) = MS_PointerInfo B"
  "MS_PrimaryBase (placeField C Info f B) = MS_PrimaryBase B"
  "MS_SharedVBPtrBase (placeField C Info f B) = MS_SharedVBPtrBase B"
  "MS_Bases (placeField C Info f B) = MS_Bases B"
  "MS_VBases (placeField C Info f B) = MS_VBases B"
  "MS_RemainingBitsInField (placeField C Info f B) = MS_RemainingBitsInField B"
  "MS_IsUnion (placeField C Info f B) = MS_IsUnion B"
  "MS_LastFieldIsNonZeroWidthBitfield (placeField C Info f B) =
     MS_LastFieldIsNonZeroWidthBitfield B"
  "MS_HasOwnVFPtr (placeField C Info f B) = MS_HasOwnVFPtr B"
  "MS_HasVBPtr (placeField C Info f B) = MS_HasVBPtr B"
  "MS_Is64BitMode (placeField C Info f B) = MS_Is64BitMode B"
  by (simp_all add: placeField_def placeFieldAtOffset_def)

lemma placeAt_frame [simp]:
  "MS_DataSize (placeFieldAtOffset C Off B) = MS_DataSize B"
  "MS_Size (placeFieldAtOffset C Off B) = MS_Size B"
  "MS_Alignment (placeFieldAtOffset C Off B) = MS_Alignment B"
  "MS_MaxFieldAlignment (placeFieldAtOffset C Off B) = MS_MaxFieldAlignment B"
  "MS_RequiredAlignment (placeFieldAtOffset C Off B) = MS_RequiredAlignment B"
  "MS_CurrentBitfieldSize (placeFieldAtOffset C Off B) = MS_CurrentBitfieldSize B"
  "MS_VBPtrOffset (placeFieldAtOffset C Off B) = MS_VBPtrOffset B"
  "MS_PointerInfo (placeFieldAtOffset C Off B) = MS_PointerInfo B"
  "MS_PrimaryBase (placeFieldAtOffset C Off B) = MS_PrimaryBase B"
  "MS_SharedVBPtrBase (placeFieldAtOffset C Off B) = MS_SharedVBPtrBase B"
  "MS_Bases (placeFieldAtOffset C Off B) = MS_Bases B"
  "MS_VBases (placeFieldAtOffset C Off B) = MS_VBases B"
  "MS_RemainingBitsInField (placeFieldAtOffset C Off B) = MS_RemainingBitsInField B"
  "MS_IsUnion (placeFieldAtOffset C Off B) = MS_IsUnion B"
  "MS_LastFieldIsNonZeroWidthBitfield (placeFieldAtOffset C Off B) =
     MS_LastFieldIsNonZeroWidthBitfield B"
  "MS_HasOwnVFPtr (placeFieldAtOffset C Off B) = MS_HasOwnVFPtr B"
  "MS_HasVBPtr (placeFieldAtOffset C Off B) = MS_HasVBPtr B"
  "MS_Is64BitMode (placeFieldAtOffset C Off B) = MS_Is64BitMode B"
  "MS_DataSize (placeFieldAtBitOffset Bit B) = MS_DataSize B"
  "MS_Size (placeFieldAtBitOffset Bit B) = MS_Size B"
  "MS_Alignment (placeFieldAtBitOffset Bit B) = MS_Alignment B"
  "MS_MaxFieldAlignment (placeFieldAtBitOffset Bit B) = MS_MaxFieldAlignment B"
  "MS_RequiredAlignment (placeFieldAtBitOffset Bit B) = MS_RequiredAlignment B"
  "MS_CurrentBitfieldSize (placeFieldAtBitOffset Bit B) = MS_CurrentBitfieldSize B"
  "MS_VBPtrOffset (placeFieldAtBitOffset Bit B) = MS_VBPtrOffset B"
  "MS_PointerInfo (placeFieldAtBitOffset Bit B) = MS_PointerInfo B"
  "MS_PrimaryBase (placeFieldAtBitOffset Bit B) = MS_PrimaryBase B"
  "MS_SharedVBPtrBase (placeFieldAtBitOffset Bit B) = MS_SharedVBPtrBase B"
  "MS_Bases (placeFieldAtBitOffset Bit B) = MS_Bases B"
  "MS_VBases (placeFieldAtBitOffset Bit B) = MS_VBases B"
  "MS_RemainingBitsInField (placeFieldAtBitOffset Bit B) = MS_RemainingBitsInField B"
  "MS_IsUnion (placeFieldAtBitOffset Bit B) = MS_IsUnion B"
  "MS_LastFieldIsNonZeroWidthBitfield (placeFieldAtBitOffset Bit B) =
     MS_LastFieldIsNonZeroWidthBitfield B"
  "MS_HasOwnVFPtr (placeFieldAtBitOffset Bit B) = MS_HasOwnVFPtr B"
  "MS_HasVBPtr (placeFieldAtBitOffset Bit B) = MS_HasVBPtr B"
  "MS_Is64BitMode (placeFieldAtBitOffset Bit B) = MS_Is64BitMode B"
  by (simp_all add: placeFieldAtOffset_def placeFieldAtBitOffset_def)

lemma layoutField_frame [simp]:
  "MS_DataSize (layoutField C FD B) = MS_DataSize B"
  "MS_MaxFieldAlignment (layoutField C FD B) = MS_MaxFieldAlignment B"
  "MS_VBPtrOffset (layoutField C FD B) = MS_VBPtrOffset B"
  "MS_PointerInfo (layoutField C FD B) = MS_PointerInfo B"
  "MS_PrimaryBase (layoutField C FD B) = MS_PrimaryBase B"
  "MS_SharedVBPtrBase (layoutField C FD B) = MS_SharedVBPtrBase B"
  "MS_Bases (layoutField C FD B) = MS_Bases B"
  "MS_VBases (layoutField C FD B) = MS_VBases B"
  "MS_IsUnion (layoutField C FD B) = MS_IsUnion B"
  "MS_HasOwnVFPtr (layoutField C FD B) = MS_HasOwnVFPtr B"
  "MS_HasVBPtr (layoutField C FD B) = MS_HasVBPtr B"
  "MS_Is64BitMode (layoutField C FD B) = MS_Is64BitMode B"
  by (simp_all add: layoutField_def layoutBitField_def layoutZeroWidthBitField_def Let_def)

lemma layoutFields_loop_frame [simp]:
  "MS_DataSize (layoutFields_loop C Fs B) = MS_DataSize B"
  "MS_MaxFieldAlignment (layoutFields_loop C Fs B) = MS_MaxFieldAlignment B"
  "MS_VBPtrOffset (layoutFields_loop C Fs B) = MS_VBPtrOffset B"
  "MS_PointerInfo (layoutFields_loop C Fs B) = MS_PointerInfo B"
  "MS_PrimaryBase (layoutFields_loop C Fs B) = MS_PrimaryBase B"
  "MS_SharedVBPtrBase (layoutFields_loop C Fs B) = MS_SharedVBPtrBase B"
  "MS_Bases (layoutFields_loop C Fs B) = MS_Bases B"
  "MS_VBases (layoutFields_loop C Fs B) = MS_VBases B"
  "MS_IsUnion (layoutFields_loop C Fs B) = MS_IsUnion B"
  "MS_HasOwnVFPtr (layoutFields_loop C Fs B) = MS_HasOwnVFPtr B"
  "MS_HasVBPtr (layoutFields_loop C Fs B) = MS_HasVBPtr B"
  "MS_Is64BitMode (layoutFields_loop C Fs B) = MS_Is64BitMode B"
  by (induction Fs arbitrary: B; simp)+

lemma layoutFields_frame [simp]:
  "MS_DataSize (layoutFields C Fs B) = MS_DataSize B"
  "MS_MaxFieldAlignment (layoutFields C Fs B) = MS_MaxFieldAlignment B"
  "MS_VBPtrOffset (layoutFields C Fs B) = MS_VBPtrOffset B"
  "MS_PointerInfo (layoutFields C Fs B) = MS_PointerInfo B"
  "MS_PrimaryBase (layoutFields C Fs B) = MS_PrimaryBase B"
  "MS_SharedVBPtrBase (layoutFields C Fs B) = MS_SharedVBPtrBase B"
  "MS_Bases (layoutFields C Fs B) = MS_Bases B"
  "MS_VBases (layoutFields C Fs B) = MS_VBases B"
  "MS_IsUnion (layoutFields C Fs B) = MS_IsUnion B"
  "MS_HasOwnVFPtr (layoutFields C Fs B) = MS_HasOwnVFPtr B"
  "MS_HasVBPtr (layoutFields C Fs B) = MS_HasVBPtr B"
  "MS_Is64BitMode (layoutFields C Fs B) = MS_Is64BitMode B"
  by (simp_all add: layoutFields_def)

subsection \<open>Wide bit-fields\<close>

lemma RoundUp_ge: "0 < a \<Longrightarrow> v \<le> RoundUpToAlignment v a"
proof -
  assume a: "0 < a"
  have "(v + a - 1) mod a < a" using a by simp
  moreover have "(v + a - 1) div a * a = (v + a - 1) - (v + a - 1) mod a"
    by (simp add: algebra_simps minus_mod_eq_mult_div)
  ultimately show ?thesis unfolding RoundUpToAlignment_def by linarith
qed

lemma RoundUp_lt: "0 < a \<Longrightarrow> RoundUpToAlignment v a < v + a"
proof -
  assume a: "0 < a"
  have "0 \<le> (v + a - 1) mod a" using a by simp
  moreover have "(v + a - 1) div a * a = (v + a - 1) - (v + a - 1) mod a"
    by (simp add: algebra_simps minus_mod_eq_mult_div)
  ultimately show ?thesis unfolding RoundUpToAlignment_def by linarith
qed

lemma RoundUp_mod: "RoundUpToAlignment v a mod a = 0"
  by (simp add: RoundUpToAlignment_def)

lemma RoundUp_dvd: "a dvd RoundUpToAlignment v a"
  by (simp add: RoundUpToAlignment_def)

lemma selectWideType_largest:
  assumes "getTypeSize C UnsignedCharTy \<le> getTypeSize C UnsignedShortTy"
    and "getTypeSize C UnsignedShortTy \<le> getTypeSize C UnsignedIntTy"
    and "getTypeSize C UnsignedIntTy \<le> getTypeSize C UnsignedLongTy"
    and "getTypeSize C UnsignedLongTy \<le> getTypeSize C UnsignedLongLongTy"
    and "getTypeSize C UnsignedCharTy \<le> FieldSize"
  shows "\<exists>T. selectWideType C FieldSize IntegralPODTypes None = Some T \<and>
             getTypeSize C T \<le> FieldSize \<and>
             (\<forall>T'. getTypeSize C T' \<le> FieldSize \<longrightarrow> getTypeSize C T' \<le> getTypeSize C T)"
proof -
  show ?thesis
    using assms
    apply (simp add: IntegralPODTypes_def)
    apply (intro conjI impI allI)
    subgoal for T' by (cases T') auto
    subgoal for T' by (cases T') auto
    subgoal for T' by (cases T') auto
    subgoal for T' by (cases T') auto
    subgoal for T' by (cases T') auto
    done
qed



lemma msReset_frame [simp]:
  "Packed (LayoutBitField_msReset D B) = Packed B"
  "IsUnion (LayoutBitField_msReset D B) = IsUnion B"
  "IsMsStruct (LayoutBitField_msReset D B) = IsMsStruct B"
  "DataSize (LayoutBitField_msReset D B) = DataSize B"
  "Size (LayoutBitField_msReset D B) = Size B"
  "FieldOffsets (LayoutBitField_msReset D B) = FieldOffsets B"
  "Alignment (LayoutBitField_msReset D B) = Alignment B"
  "InferAlignment (LayoutBitField_msReset D B) = InferAlignment B"
  "ExternalLayout (LayoutBitField_msReset D B) = ExternalLayout B"
  "IsMac68kAlign (LayoutBitField_msReset D B) = IsMac68kAlign B"
  "ExternalFieldOffsets (LayoutBitField_msReset D B) = ExternalFieldOffsets B"
  "MaxFieldAlignment (LayoutBitField_msReset D B) = MaxFieldAlignment B"
  "EmptySubobjects (LayoutBitField_msReset D B) = EmptySubobjects B"
  by (simp_all add: LayoutBitField_msReset_def)

lemma msReset_reset:
  "(LayoutBitField_msReset D B)\<lparr>UnfilledBitsInLastUnit := 0, LastBitfieldTypeSize := 0\<rparr> =
   B\<lparr>UnfilledBitsInLastUnit := 0, LastBitfieldTypeSize := 0\<rparr>"
  by (simp add: LayoutBitField_msReset_def)

lemma LayoutWideBitField_msReset:
  "LayoutWideBitField C FieldSize TypeSize FieldPacked D (LayoutBitField_msReset D B) =
   LayoutWideBitField C FieldSize TypeSize FieldPacked D B"
  unfolding LayoutWideBitField_def msReset_reset by (rule refl)

lemma LayoutBitField_is_wide:
  "FD_BitWidthValue D > fst (FD_TypeInfo D) \<Longrightarrow>
   LayoutBitField C D B =
     LayoutWideBitField C (FD_BitWidthValue D) (fst (FD_TypeInfo D))
       (Packed B \<or> FD_hasPackedAttr D) D B"
  by (simp add: LayoutBitField_def Let_def LayoutWideBitField_msReset)

lemmas field_layout_defs =
  LayoutField_def LayoutBitField_def LayoutBitField_msAlign_def LayoutBitField_msReset_def
  LayoutBitField_aligns_def LayoutBitField_offset_def LayoutBitField_reserve_def
  ZeroLengthBitfield_def LayoutField_aligns_def LayoutField_offset_def
  LayoutField_placeExternal_def LayoutField_placeComputed_def LayoutField_reserve_def
  fieldSizeAndAlign_def externalFieldOffset_def updateExternalFieldOffset_def
  UpdateAlignment_def getSizeInChars_def getDataSizeInChars_def toBits_def
  toCharUnitsFromBits_def RoundUpToAlignment_def newRecordLayoutBuilder_def

lemmas base_layout_defs =
  LayoutNonVirtualBase_def LayoutBase_def LayoutBase_place_def LayoutBase_aligns_def
  externalBaseOffset_def CanPlaceBaseAtOffset_def CanPlaceSubobjectAtOffset_def
  AnyEmptySubobjectsBeyondOffset_def AddSubobjectAtOffset_def

lemmas layout_defs =
  Layout_CXXRecordDecl_def Layout_RecordDecl_def InitializeLayout_def FinishLayout_def
  newEmptySubobjectMap_def ComputeEmptySubobjectSizes_def LayoutNonVirtualBases_def
  DeterminePrimaryBase_def LayoutFields_CXX_def

lemma ex_Union40_parts: "info ex_Union40 = (ex_DeclInfo 40 False)\<lparr>isUnion := True\<rparr>" "bases ex_Union40 = []"
  "fieldDecls ex_Union40 = [FieldDecl ex_ULL40 OtherType]" "vbases ex_Union40 = []"
  by (simp_all add: ex_Union40_def)

lemma ex_MSUnion_initializeLayout: "initializeLayout ex_MSContext (info ex_Union40) newMicrosoftRecordLayoutBuilder =
  newMicrosoftRecordLayoutBuilder\<lparr>MS_Alignment := 1, MS_IsUnion := True\<rparr>"
  unfolding ex_Union40_parts
  by (simp add: ex_DeclInfo_def ex_MSContext_def
      ex_Context_def initializeLayout_def 
      newMicrosoftRecordLayoutBuilder_def toCharUnitsFromBits_def Let_def)

lemma ex_MSUnion_initializeCXXLayout: "initializeCXXLayout ex_MSContext (newMicrosoftRecordLayoutBuilder\<lparr>MS_Alignment := 1, MS_IsUnion := True\<rparr>) =
  newMicrosoftRecordLayoutBuilder\<lparr>MS_Alignment := 1, 
        MS_PointerInfo := \<lparr>EI_Size = 4, EI_Alignment = 4\<rparr>, MS_IsUnion := True\<rparr>"
  by (simp add: ex_MSContext_def
      ex_Context_def initializeCXXLayout_def 
      newMicrosoftRecordLayoutBuilder_def toCharUnitsFromBits_def Let_def)

lemma ex_MSUnion_layoutNonVirtualBases: "layoutNonVirtualBases ex_Union40 (newMicrosoftRecordLayoutBuilder\<lparr>MS_Alignment := 1, 
        MS_PointerInfo := \<lparr>EI_Size = 4, EI_Alignment = 4\<rparr>, MS_IsUnion := True\<rparr>) =
  newMicrosoftRecordLayoutBuilder\<lparr>MS_Alignment := 1, MS_VBPtrOffset := -1,
        MS_PointerInfo := \<lparr>EI_Size = 4, EI_Alignment = 4\<rparr>, MS_IsUnion := True\<rparr>"
  unfolding layoutNonVirtualBases_def ex_Union40_parts
  by (simp add: ex_DeclInfo_def setVBPtrOffset_def
      newMicrosoftRecordLayoutBuilder_def Let_def)

lemma ex_MSUnionBuilder_eq:
  "ex_MSUnionBuilder =
     newMicrosoftRecordLayoutBuilder
       \<lparr>MS_Alignment := 1, MS_VBPtrOffset := -1,
        MS_PointerInfo := \<lparr>EI_Size = 4, EI_Alignment = 4\<rparr>, MS_IsUnion := True\<rparr>"
  unfolding ex_MSUnionBuilder_def ex_MSUnion_initializeLayout ex_MSUnion_initializeCXXLayout ex_MSUnion_layoutNonVirtualBases ..

lemma ex_MSUnion_layoutFields:
  "layoutFields ex_MSContext (fieldDecls ex_Union40) ex_MSUnionBuilder =
     newMicrosoftRecordLayoutBuilder
       \<lparr>MS_Size := 8, MS_Alignment := 1, MS_CurrentBitfieldSize := 8, MS_VBPtrOffset := -1,
        MS_PointerInfo := \<lparr>EI_Size = 4, EI_Alignment = 4\<rparr>, MS_FieldOffsets := [0],
        MS_IsUnion := True, MS_LastFieldIsNonZeroWidthBitfield := True\<rparr>"
  unfolding ex_MSUnionBuilder_eq ex_Union40_parts
  by (simp add: ex_ULL40_def ex_FieldInfo_def ex_MSContext_def ex_Context_def
      layoutFields_def layoutField_def layoutBitField_def getAdjustedElementInfo_FD_def
      fieldElementInfo_def getTypeInfoInChars_def placeField_def placeFieldAtOffset_def
      newMicrosoftRecordLayoutBuilder_def toCharUnitsFromBits_def toBits_def Let_def)

lemma ex_MSUnion_layout:
  "cxxLayout ex_MSContext {} ex_Union40 newMicrosoftRecordLayoutBuilder =
     newMicrosoftRecordLayoutBuilder
       \<lparr>MS_Size := 8, MS_DataSize := 8, MS_Alignment := 1, MS_CurrentBitfieldSize := 8,
        MS_VBPtrOffset := -1, MS_PointerInfo := \<lparr>EI_Size = 4, EI_Alignment = 4\<rparr>,
        MS_FieldOffsets := [0], MS_IsUnion := True,
        MS_LastFieldIsNonZeroWidthBitfield := True\<rparr>"
  unfolding cxxLayout_def cxxLayout_fields_def ex_MSUnionBuilder_def [symmetric] ex_MSUnion_layoutFields
  by (simp add: injectVPtrs_def alignSize_def layoutVirtualBases_def finalizeLayout_def
      newMicrosoftRecordLayoutBuilder_def RoundUpToAlignment_def Let_def)

lemma layoutBitField_union:
  assumes "MS_IsUnion MB" and "FD_isBitField (fieldInfo FD)"
    and "FD_BitWidthValue (fieldInfo FD) \<noteq> 0"
  shows "MS_FieldOffsets (layoutBitField C FD MB) = MS_FieldOffsets MB @ [0]"
    and "MS_Size (layoutBitField C FD MB) = max (MS_Size MB) (fst (getTypeInfoInChars C FD))"
  using assms
  by (simp_all add: layoutBitField_def placeField_def placeFieldAtOffset_def Let_def toBits_def)

lemma LayoutWideBitField_rule:
  assumes "FD_BitWidthValue D > fst (FD_TypeInfo D)"
    and "getTypeSize C UnsignedCharTy \<le> getTypeSize C UnsignedShortTy"
    and "getTypeSize C UnsignedShortTy \<le> getTypeSize C UnsignedIntTy"
    and "getTypeSize C UnsignedIntTy \<le> getTypeSize C UnsignedLongTy"
    and "getTypeSize C UnsignedLongTy \<le> getTypeSize C UnsignedLongLongTy"
    and "getTypeSize C UnsignedCharTy \<le> FD_BitWidthValue D"
    and "0 < CharAlign C" and "CharAlign C \<le> 256"
  shows "\<exists>Type B'.
           selectWideType C (FD_BitWidthValue D) IntegralPODTypes None = Some Type \<and>
           getTypeSize C Type \<le> FD_BitWidthValue D \<and>
           (\<forall>T'. getTypeSize C T' \<le> FD_BitWidthValue D \<longrightarrow>
                 getTypeSize C T' \<le> getTypeSize C Type) \<and>
           LayoutBitField C D B = Some B' \<and>
           LastBitfieldTypeSize B' = 0 \<and>
           Size B' = max (Size B) (DataSize B') \<and>
           (if IsUnion B
            then FieldOffsets B' = FieldOffsets B @ [0] \<and>
                 DataSize B' = max (DataSize B) (FD_BitWidthValue D) \<and>
                 UnfilledBitsInLastUnit B' = 0
            else FieldOffsets B' =
                   FieldOffsets B @
                   [RoundUpToAlignment (DataSize B) (toBits C (getTypeAlignInChars C Type))] \<and>
                 DataSize B' =
                   RoundUpToAlignment
                     (RoundUpToAlignment (DataSize B) (toBits C (getTypeAlignInChars C Type)) +
                      FD_BitWidthValue D)
                     (CharAlign C) \<and>
                 UnfilledBitsInLastUnit B' =
                   DataSize B' -
                   (RoundUpToAlignment (DataSize B) (toBits C (getTypeAlignInChars C Type)) +
                    FD_BitWidthValue D))"
proof -
  obtain Type where T: "selectWideType C (FD_BitWidthValue D) IntegralPODTypes None = Some Type"
    and le: "getTypeSize C Type \<le> FD_BitWidthValue D"
    and largest: "\<forall>T'. getTypeSize C T' \<le> FD_BitWidthValue D \<longrightarrow>
                       getTypeSize C T' \<le> getTypeSize C Type"
    using selectWideType_largest [OF assms(2-6)] by blast
  let ?off = "RoundUpToAlignment (DataSize B) (toBits C (getTypeAlignInChars C Type))"
  let ?new = "?off + FD_BitWidthValue D"
  have r1: "?new \<le> RoundUpToAlignment ?new (CharAlign C)"
    using RoundUp_ge [OF assms(7)] .
  have r2: "RoundUpToAlignment ?new (CharAlign C) < ?new + CharAlign C"
    using RoundUp_lt [OF assms(7)] .
  have m: "(RoundUpToAlignment ?new (CharAlign C) - ?new) mod 256 =
           RoundUpToAlignment ?new (CharAlign C) - ?new"
    using r1 r2 assms(8) by simp
  show ?thesis
    using assms(1) T le largest m
    by (auto simp: LayoutBitField_is_wide LayoutWideBitField_def Let_def UpdateAlignment_def)
qed

text \<open>
  Claim C5, as the code has it. When the declared width of a bit-field exceeds the width
  of its type, \<^verbatim>\<open>LayoutBitField\<close> hands over to \<^verbatim>\<open>LayoutWideBitField\<close>. On a target
  whose unsigned integer types are ordered by size and whose \<^verbatim>\<open>unsigned char\<close> is not
  wider than the field, the loop selects a type \<open>Type\<close> that fits the width and is at least
  as large as every listed type that fits; the bit-packing state is reset; in a struct
  the field is placed at the data size rounded up to the alignment of \<open>Type\<close>, the data
  size grows to the next multiple of the char alignment and the unfilled tail bits are
  remembered; in a union the field is placed at offset zero and the data size becomes
  the maximum of the old data size and the declared width. The Microsoft builder has no
  such branch: in a union it places a bit-field of non-zero width at offset zero, and
  the size of the union becomes the maximum of its old size and the size of the declared
  type of the bit-field.
\<close>

theorem LayoutBitField_wide:
  "(FD_BitWidthValue D > fst (FD_TypeInfo D) \<and>
    getTypeSize C UnsignedCharTy \<le> getTypeSize C UnsignedShortTy \<and>
    getTypeSize C UnsignedShortTy \<le> getTypeSize C UnsignedIntTy \<and>
    getTypeSize C UnsignedIntTy \<le> getTypeSize C UnsignedLongTy \<and>
    getTypeSize C UnsignedLongTy \<le> getTypeSize C UnsignedLongLongTy \<and>
    getTypeSize C UnsignedCharTy \<le> FD_BitWidthValue D \<and>
    0 < CharAlign C \<and> CharAlign C \<le> 256 \<longrightarrow>
    (\<exists>Type B'.
       selectWideType C (FD_BitWidthValue D) IntegralPODTypes None = Some Type \<and>
       getTypeSize C Type \<le> FD_BitWidthValue D \<and>
       (\<forall>T'. getTypeSize C T' \<le> FD_BitWidthValue D \<longrightarrow>
             getTypeSize C T' \<le> getTypeSize C Type) \<and>
       LayoutBitField C D B = Some B' \<and>
       LastBitfieldTypeSize B' = 0 \<and>
       Size B' = max (Size B) (DataSize B') \<and>
       (if IsUnion B
        then FieldOffsets B' = FieldOffsets B @ [0] \<and>
             DataSize B' = max (DataSize B) (FD_BitWidthValue D) \<and>
             UnfilledBitsInLastUnit B' = 0
        else FieldOffsets B' =
               FieldOffsets B @
               [RoundUpToAlignment (DataSize B) (toBits C (getTypeAlignInChars C Type))] \<and>
             DataSize B' =
               RoundUpToAlignment
                 (RoundUpToAlignment (DataSize B) (toBits C (getTypeAlignInChars C Type)) +
                  FD_BitWidthValue D)
                 (CharAlign C) \<and>
             UnfilledBitsInLastUnit B' =
               DataSize B' -
               (RoundUpToAlignment (DataSize B) (toBits C (getTypeAlignInChars C Type)) +
                FD_BitWidthValue D)))) \<and>
   (MS_IsUnion MB \<and> FD_isBitField (fieldInfo MFD) \<and> FD_BitWidthValue (fieldInfo MFD) \<noteq> 0 \<longrightarrow>
      MS_FieldOffsets (layoutBitField MC MFD MB) = MS_FieldOffsets MB @ [0] \<and>
      MS_Size (layoutBitField MC MFD MB) = max (MS_Size MB) (fst (getTypeInfoInChars MC MFD)))"
  using LayoutWideBitField_rule [of D C B] layoutBitField_union [of MB MFD MC] by blast

theorem LayoutBitField_wide_witness:
  "FD_BitWidthValue ex_WideField > fst (FD_TypeInfo ex_WideField) \<and>
   getTypeSize ex_Context UnsignedCharTy \<le> getTypeSize ex_Context UnsignedShortTy \<and>
   getTypeSize ex_Context UnsignedShortTy \<le> getTypeSize ex_Context UnsignedIntTy \<and>
   getTypeSize ex_Context UnsignedIntTy \<le> getTypeSize ex_Context UnsignedLongTy \<and>
   getTypeSize ex_Context UnsignedLongTy \<le> getTypeSize ex_Context UnsignedLongLongTy \<and>
   getTypeSize ex_Context UnsignedCharTy \<le> FD_BitWidthValue ex_WideField \<and>
   0 < CharAlign ex_Context \<and> CharAlign ex_Context \<le> 256 \<and>
   selectWideType ex_Context 37 IntegralPODTypes None = Some UnsignedIntTy \<and>
   map_option FieldOffsets (LayoutBitField ex_Context ex_WideField ex_AfterChar) = Some [0, 32] \<and>
   map_option DataSize (LayoutBitField ex_Context ex_WideField ex_AfterChar) = Some 72 \<and>
   map_option UnfilledBitsInLastUnit (LayoutBitField ex_Context ex_WideField ex_AfterChar) = Some 3 \<and>
   MS_IsUnion ex_MSUnionBuilder \<and> FD_isBitField (fieldInfo (FieldDecl ex_ULL40 OtherType)) \<and>
   FD_BitWidthValue (fieldInfo (FieldDecl ex_ULL40 OtherType)) \<noteq> 0 \<and>
   MS_FieldOffsets (layoutBitField ex_MSContext (FieldDecl ex_ULL40 OtherType) ex_MSUnionBuilder) = [0] \<and>
   MS_Size (layoutBitField ex_MSContext (FieldDecl ex_ULL40 OtherType) ex_MSUnionBuilder) = 8"
proof -
  have h1: "FD_BitWidthValue ex_WideField > fst (FD_TypeInfo ex_WideField)"
    by (simp add: ex_WideField_def ex_FieldInfo_def)
  have h2: "getTypeSize ex_Context UnsignedCharTy \<le> getTypeSize ex_Context UnsignedShortTy"
    and h3: "getTypeSize ex_Context UnsignedShortTy \<le> getTypeSize ex_Context UnsignedIntTy"
    and h4: "getTypeSize ex_Context UnsignedIntTy \<le> getTypeSize ex_Context UnsignedLongTy"
    and h5: "getTypeSize ex_Context UnsignedLongTy \<le> getTypeSize ex_Context UnsignedLongLongTy"
    and h7: "0 < CharAlign ex_Context" and h8: "CharAlign ex_Context \<le> 256"
    by (simp_all add: ex_Context_def)
  have h6: "getTypeSize ex_Context UnsignedCharTy \<le> FD_BitWidthValue ex_WideField"
    by (simp add: ex_Context_def ex_WideField_def ex_FieldInfo_def)
  have w: "FD_BitWidthValue ex_WideField = 37"
    by (simp add: ex_WideField_def ex_FieldInfo_def)
  have sel: "selectWideType ex_Context 37 IntegralPODTypes None = Some UnsignedIntTy"
    by (simp add: IntegralPODTypes_def ex_Context_def)
  have st: "\<not> IsUnion ex_AfterChar" "DataSize ex_AfterChar = 8" "FieldOffsets ex_AfterChar = [0]"
    by (simp_all add: ex_AfterChar_def newRecordLayoutBuilder_def)
  have al: "toBits ex_Context (getTypeAlignInChars ex_Context UnsignedIntTy) = 32"
    "CharAlign ex_Context = 8"
    by (simp_all add: ex_Context_def toBits_def)
  have m1: "MS_IsUnion ex_MSUnionBuilder" "MS_FieldOffsets ex_MSUnionBuilder = []"
    "MS_Size ex_MSUnionBuilder = 0"
    by (simp_all add: ex_MSUnionBuilder_eq newMicrosoftRecordLayoutBuilder_def)
  have m2: "FD_isBitField (fieldInfo (FieldDecl ex_ULL40 OtherType))"
    "FD_BitWidthValue (fieldInfo (FieldDecl ex_ULL40 OtherType)) \<noteq> 0"
    "fst (getTypeInfoInChars ex_MSContext (FieldDecl ex_ULL40 OtherType)) = 8"
    by (simp_all add: ex_ULL40_def ex_FieldInfo_def getTypeInfoInChars_def toCharUnitsFromBits_def
        ex_MSContext_def ex_Context_def)
  show ?thesis
    using LayoutBitField_wide [of ex_WideField ex_Context ex_AfterChar ex_MSUnionBuilder
        "FieldDecl ex_ULL40 OtherType" ex_MSContext]
      h1 h2 h3 h4 h5 h6 h7 h8 sel m1 m2
    by (auto simp: w st al RoundUpToAlignment_def)
qed

text \<open>
  The union \<^verbatim>\<open>union { unsigned long long : 40; }\<close> is not an instance of the rule for
  wide bit-fields: 40 bits do not exceed the 64 bits of the type, and the rule applied
  to a width of 40 would select a type of 32 bits, not \<^verbatim>\<open>unsigned long long\<close>. Under
  the Microsoft builder the size of the union is 8, the size of \<^verbatim>\<open>unsigned long long\<close>,
  because the bit-field is given a whole unit of its declared type.
\<close>

theorem wide_bitfield_union_counterexample:
  "\<not> FD_BitWidthValue ex_ULL40 > fst (FD_TypeInfo ex_ULL40) \<and>
   selectWideType ex_MSContext (FD_BitWidthValue ex_ULL40) IntegralPODTypes None =
     Some UnsignedLongTy \<and>
   getTypeSize ex_MSContext UnsignedLongTy = 32 \<and>
   getTypeSize ex_MSContext UnsignedLongLongTy = 64 \<and>
   getFieldOffsets (BuildMicrosoftASTRecordLayout_CXX ex_MSContext {} ex_Union40) = [0] \<and>
   getSize (BuildMicrosoftASTRecordLayout_CXX ex_MSContext {} ex_Union40) = 8 \<and>
   toCharUnitsFromBits ex_MSContext (getTypeSize ex_MSContext UnsignedLongLongTy) = 8"
  unfolding BuildMicrosoftASTRecordLayout_CXX_def ex_MSUnion_layout
  by (simp add: ex_ULL40_def ex_FieldInfo_def ex_Context_def ex_MSContext_def
      IntegralPODTypes_def toCharUnitsFromBits_def newMicrosoftRecordLayoutBuilder_def)

subsection \<open>External offsets\<close>

lemma reserve_bit_frame [simp]:
  "FieldOffsets (LayoutBitField_reserve C D Off B) = FieldOffsets B"
  "Alignment (LayoutBitField_reserve C D Off B) = Alignment B"
  "UnpackedAlignment (LayoutBitField_reserve C D Off B) = UnpackedAlignment B"
  "InferAlignment (LayoutBitField_reserve C D Off B) = InferAlignment B"
  "ExternalLayout (LayoutBitField_reserve C D Off B) = ExternalLayout B"
  "IsMac68kAlign (LayoutBitField_reserve C D Off B) = IsMac68kAlign B"
  "EmptySubobjects (LayoutBitField_reserve C D Off B) = EmptySubobjects B"
  by (simp_all add: LayoutBitField_reserve_def Let_def)

lemma reserve_frame [simp]:
  "FieldOffsets (LayoutField_reserve C Off Sz B) = FieldOffsets B @ [toBits C Off]"
  "Alignment (LayoutField_reserve C Off Sz B) = Alignment B"
  "UnpackedAlignment (LayoutField_reserve C Off Sz B) = UnpackedAlignment B"
  "InferAlignment (LayoutField_reserve C Off Sz B) = InferAlignment B"
  "ExternalLayout (LayoutField_reserve C Off Sz B) = ExternalLayout B"
  "IsMac68kAlign (LayoutField_reserve C Off Sz B) = IsMac68kAlign B"
  "EmptySubobjects (LayoutField_reserve C Off Sz B) = EmptySubobjects B"
  by (simp_all add: LayoutField_reserve_def Let_def)

lemma UpdateAlignment_frame [simp]:
  "FieldOffsets (UpdateAlignment a u B) = FieldOffsets B"
  "InferAlignment (UpdateAlignment a u B) = InferAlignment B"
  "ExternalLayout (UpdateAlignment a u B) = ExternalLayout B"
  "IsMac68kAlign (UpdateAlignment a u B) = IsMac68kAlign B"
  "Size (UpdateAlignment a u B) = Size B"
  "DataSize (UpdateAlignment a u B) = DataSize B"
  "EmptySubobjects (UpdateAlignment a u B) = EmptySubobjects B"
  "BaseOffsets (UpdateAlignment a u B) = BaseOffsets B"
  by (simp_all add: UpdateAlignment_def)

lemma UpdateAlignment_external:
  "ExternalLayout B \<Longrightarrow> \<not> InferAlignment B \<Longrightarrow> UpdateAlignment a u B = B"
  by (simp add: UpdateAlignment_def)

lemma UpdateAlignment_mono: "Alignment B \<le> Alignment (UpdateAlignment a u B)"
  by (simp add: UpdateAlignment_def)

lemma updateExternal_frame [simp]:
  "fst (updateExternalFieldOffset FD Computed B) = externalFieldOffset B FD"
  "FieldOffsets (snd (updateExternalFieldOffset FD Computed B)) = FieldOffsets B"
  "ExternalLayout (snd (updateExternalFieldOffset FD Computed B)) = ExternalLayout B"
  "IsUnion (snd (updateExternalFieldOffset FD Computed B)) = IsUnion B"
  "EmptySubobjects (snd (updateExternalFieldOffset FD Computed B)) = EmptySubobjects B"
  "InferAlignment (snd (updateExternalFieldOffset FD Computed B)) =
     (InferAlignment B \<and> \<not> externalFieldOffset B FD < Computed)"
  "Alignment (snd (updateExternalFieldOffset FD Computed B)) =
     (if InferAlignment B \<and> externalFieldOffset B FD < Computed then 1 else Alignment B)"
  by (auto simp: updateExternalFieldOffset_def)

lemma LayoutBitField_external:
  assumes "ExternalLayout B" and "\<not> FD_BitWidthValue D > fst (FD_TypeInfo D)"
  shows "\<exists>B'. LayoutBitField C D B = Some B' \<and>
           FieldOffsets B' = FieldOffsets B @ [externalFieldOffset B D] \<and>
           inferredPacking B (externalFieldOffset B D)
             (LayoutBitField_offset D
                (fst (LayoutBitField_aligns C D (LayoutBitField_msAlign D B)
                        (LayoutBitField_msReset D B)))
                (LayoutBitField_msReset D B)) B'"
proof -
  let ?B1 = "LayoutBitField_msReset D B"
  let ?comp = "LayoutBitField_offset D
                (fst (LayoutBitField_aligns C D (LayoutBitField_msAlign D B) ?B1)) ?B1"
  let ?B2 = "snd (updateExternalFieldOffset D ?comp ?B1)"
  have e: "externalFieldOffset ?B1 D = externalFieldOffset B D"
    by (simp add: externalFieldOffset_def)
  show ?thesis
  proof (cases "InferAlignment B \<and> externalFieldOffset B D < ?comp")
    case True
    then show ?thesis
      using assms e
      by (simp add: LayoutBitField_def Let_def inferredPacking_def UpdateAlignment_def)
  next
    case False
    then show ?thesis
      using assms e
      by (auto simp: LayoutBitField_def Let_def inferredPacking_def UpdateAlignment_def)
  qed
qed


lemma LayoutField_offset_reset [simp]:
  "LayoutField_aligns C D (B\<lparr>UnfilledBitsInLastUnit := u, LastBitfieldTypeSize := l\<rparr>) =
     LayoutField_aligns C D B"
  "LayoutField_offset C D (B\<lparr>UnfilledBitsInLastUnit := u, LastBitfieldTypeSize := l\<rparr>) =
     LayoutField_offset C D B"
  by (simp_all add: LayoutField_offset_def LayoutField_aligns_def getDataSizeInChars_def Let_def)

lemma externalFieldOffset_reset [simp]:
  "externalFieldOffset (B\<lparr>UnfilledBitsInLastUnit := u, LastBitfieldTypeSize := l\<rparr>) FD =
     externalFieldOffset B FD"
  by (simp add: externalFieldOffset_def)

lemma placeExternal_frame:
  "fst (LayoutField_placeExternal C D B) =
     toCharUnitsFromBits C (externalFieldOffset B (fieldInfo D))"
  "FieldOffsets (snd (LayoutField_placeExternal C D B)) = FieldOffsets B"
  "ExternalLayout (snd (LayoutField_placeExternal C D B)) = ExternalLayout B"
  "InferAlignment (snd (LayoutField_placeExternal C D B)) =
     (InferAlignment B \<and>
      \<not> externalFieldOffset B (fieldInfo D) < toBits C (LayoutField_offset C D B))"
  "Alignment (snd (LayoutField_placeExternal C D B)) =
     (if InferAlignment B \<and>
         externalFieldOffset B (fieldInfo D) < toBits C (LayoutField_offset C D B)
      then 1 else Alignment B)"
  by (auto simp: LayoutField_placeExternal_def Let_def split: option.splits)

lemma LayoutField_external:
  assumes "ExternalLayout B" and "\<not> FD_isBitField (fieldInfo D)"
    and "0 < CharWidth C" and "externalFieldOffset B (fieldInfo D) mod CharWidth C = 0"
  shows "\<exists>B'. LayoutField C D B = Some B' \<and>
           FieldOffsets B' = FieldOffsets B @ [externalFieldOffset B (fieldInfo D)] \<and>
           inferredPacking B (externalFieldOffset B (fieldInfo D))
             (toBits C (LayoutField_offset C D B)) B'"
proof -
  let ?B1 = "B\<lparr>UnfilledBitsInLastUnit := 0, LastBitfieldTypeSize := 0\<rparr>"
  let ?P = "LayoutField_placeExternal C D ?B1"
  have rt: "toBits C (toCharUnitsFromBits C (externalFieldOffset B (fieldInfo D))) =
            externalFieldOffset B (fieldInfo D)"
    using assms(3,4) by (simp add: toBits_def toCharUnitsFromBits_def mod_eq_0_iff_dvd)
  have L: "LayoutField C D B =
           Some (UpdateAlignment (fst (LayoutField_aligns C D ?B1)) (snd (LayoutField_aligns C D ?B1))
                  (LayoutField_reserve C (fst ?P)
                     (fst (fieldSizeAndAlign C (IsMsStruct ?B1) D)) (snd ?P)))"
    using assms(1,2) by (simp add: LayoutField_def Let_def split: prod.splits)
  show ?thesis
    unfolding L
    using assms(1) rt
    by (auto simp: placeExternal_frame inferredPacking_def UpdateAlignment_def)
qed

lemma place_frame [simp]:
  "InferAlignment (LayoutBase_place C Base Off a u B) = InferAlignment B"
  "ExternalLayout (LayoutBase_place C Base Off a u B) = ExternalLayout B"
  "BaseOffsets (LayoutBase_place C Base Off a u B) = BaseOffsets B"
  "FieldOffsets (LayoutBase_place C Base Off a u B) = FieldOffsets B"
  by (simp_all add: LayoutBase_place_def Let_def)

lemma place_Alignment:
  "Alignment (LayoutBase_place C Base Off a u B) =
     Alignment (UpdateAlignment a u B)"
  by (simp add: LayoutBase_place_def Let_def UpdateAlignment_def)

lemma LayoutBase_external:
  assumes "externalBaseOffset B Base = Some Ext" and "EmptySubobjects B = Some M"
  shows "\<exists>B'. LayoutBase C Base B = Some (Ext, B') \<and>
           BaseOffsets B' = BaseOffsets B \<and>
           (\<not> (isEmpty (info (Class Base)) \<and> Ext = 0 \<and> fst (CanPlaceBaseAtOffset C M Base 0)) \<longrightarrow>
              inferredPacking B Ext
                (RoundUpToAlignment (getDataSizeInChars C B) (fst (LayoutBase_aligns Base B))) B')"
proof -
  have ext: "ExternalLayout B"
    using assms(1) by (simp add: externalBaseOffset_def split: if_splits)
  show ?thesis
  proof (cases "isEmpty (info (Class Base)) \<and> Ext = 0 \<and> fst (CanPlaceBaseAtOffset C M Base 0)")
    case True
    then show ?thesis
      using assms by (simp add: LayoutBase_def Let_def)
  next
    case False
    then show ?thesis
      using assms ext
      by (auto simp: LayoutBase_def Let_def inferredPacking_def place_Alignment UpdateAlignment_def)
  qed
qed

lemma LayoutNonVirtualBase_external:
  assumes "externalBaseOffset B Base = Some Ext" and "EmptySubobjects B = Some M"
    and "declId (info (Class Base)) \<notin> dom (BaseOffsets B)"
  shows "\<exists>B'. LayoutNonVirtualBase C Base B = Some B' \<and>
           BaseOffsets B' (declId (info (Class Base))) = Some Ext \<and>
           (\<not> (isEmpty (info (Class Base)) \<and> Ext = 0 \<and> fst (CanPlaceBaseAtOffset C M Base 0)) \<longrightarrow>
              inferredPacking B Ext
                (RoundUpToAlignment (getDataSizeInChars C B) (fst (LayoutBase_aligns Base B))) B')"
proof -
  obtain B1 where B1: "LayoutBase C Base B = Some (Ext, B1)" "BaseOffsets B1 = BaseOffsets B"
    and p: "\<not> (isEmpty (info (Class Base)) \<and> Ext = 0 \<and> fst (CanPlaceBaseAtOffset C M Base 0)) \<longrightarrow>
              inferredPacking B Ext
                (RoundUpToAlignment (getDataSizeInChars C B) (fst (LayoutBase_aligns Base B))) B1"
    using LayoutBase_external [OF assms(1,2)] by blast
  show ?thesis
    using B1 p assms(3)
    by (auto simp: LayoutNonVirtualBase_def inferredPacking_def)
qed

text \<open>
  Claim C8, as the code has it. Under an external layout, the offset recorded for a
  bit-field that is not wider than its type is the external one; so it is for any other
  field whose external offset is a whole number of chars, and for a non-virtual base.
  Packing is inferred (alignment one char, inference stopped) exactly when alignment is
  being inferred and the external offset is smaller than the computed one; otherwise the
  inference flag is kept and the alignment does not decrease. An empty base that the
  external source puts at offset zero, and that the map accepts there, is placed without
  the comparison.
\<close>

theorem external_offset_recorded:
  assumes "ExternalLayout B"
  shows "(FD_isBitField (fieldInfo D) \<and>
          FD_BitWidthValue (fieldInfo D) \<le> fst (FD_TypeInfo (fieldInfo D)) \<longrightarrow>
            (\<exists>B'. LayoutField C D B = Some B' \<and>
                  FieldOffsets B' = FieldOffsets B @ [externalFieldOffset B (fieldInfo D)] \<and>
                  inferredPacking B (externalFieldOffset B (fieldInfo D))
                    (computedBitFieldOffset C (fieldInfo D) B) B')) \<and>
         (\<not> FD_isBitField (fieldInfo D) \<and> 0 < CharWidth C \<and>
          externalFieldOffset B (fieldInfo D) mod CharWidth C = 0 \<longrightarrow>
            (\<exists>B'. LayoutField C D B = Some B' \<and>
                  FieldOffsets B' = FieldOffsets B @ [externalFieldOffset B (fieldInfo D)] \<and>
                  inferredPacking B (externalFieldOffset B (fieldInfo D))
                    (toBits C (LayoutField_offset C D B)) B')) \<and>
         (externalBaseOffset B Base = Some Ext \<and> EmptySubobjects B = Some M \<and>
          declId (info (Class Base)) \<notin> dom (BaseOffsets B) \<longrightarrow>
            (\<exists>B'. LayoutNonVirtualBase C Base B = Some B' \<and>
                  BaseOffsets B' (declId (info (Class Base))) = Some Ext \<and>
                  (\<not> (isEmpty (info (Class Base)) \<and> Ext = 0 \<and>
                      fst (CanPlaceBaseAtOffset C M Base 0)) \<longrightarrow>
                   inferredPacking B Ext (computedBaseOffset C Base B) B')))"
proof (intro conjI impI)
  assume a: "FD_isBitField (fieldInfo D) \<and>
             FD_BitWidthValue (fieldInfo D) \<le> fst (FD_TypeInfo (fieldInfo D))"
  then have "\<not> FD_BitWidthValue (fieldInfo D) > fst (FD_TypeInfo (fieldInfo D))" by simp
  from LayoutBitField_external [OF assms this, of C] a
  show "\<exists>B'. LayoutField C D B = Some B' \<and>
             FieldOffsets B' = FieldOffsets B @ [externalFieldOffset B (fieldInfo D)] \<and>
             inferredPacking B (externalFieldOffset B (fieldInfo D))
               (computedBitFieldOffset C (fieldInfo D) B) B'"
    by (simp add: LayoutField_def computedBitFieldOffset_def)
next
  assume a: "\<not> FD_isBitField (fieldInfo D) \<and> 0 < CharWidth C \<and>
             externalFieldOffset B (fieldInfo D) mod CharWidth C = 0"
  then show "\<exists>B'. LayoutField C D B = Some B' \<and>
             FieldOffsets B' = FieldOffsets B @ [externalFieldOffset B (fieldInfo D)] \<and>
             inferredPacking B (externalFieldOffset B (fieldInfo D))
               (toBits C (LayoutField_offset C D B)) B'"
    using LayoutField_external [OF assms, of D C] by simp
next
  assume a: "externalBaseOffset B Base = Some Ext \<and> EmptySubobjects B = Some M \<and>
             declId (info (Class Base)) \<notin> dom (BaseOffsets B)"
  then show "\<exists>B'. LayoutNonVirtualBase C Base B = Some B' \<and>
             BaseOffsets B' (declId (info (Class Base))) = Some Ext \<and>
             (\<not> (isEmpty (info (Class Base)) \<and> Ext = 0 \<and>
                 fst (CanPlaceBaseAtOffset C M Base 0)) \<longrightarrow>
              inferredPacking B Ext (computedBaseOffset C Base B) B')"
    using LayoutNonVirtualBase_external [of B Base Ext M C]
    by (simp add: computedBaseOffset_def)
qed

theorem external_offset_recorded_witness:
  "ExternalLayout ex_ExternalBuilder \<and>
   FD_isBitField (fieldInfo ex_IntBitField) \<and>
   FD_BitWidthValue (fieldInfo ex_IntBitField) \<le> fst (FD_TypeInfo (fieldInfo ex_IntBitField)) \<and>
   computedBitFieldOffset ex_Context (fieldInfo ex_IntBitField) ex_ExternalBuilder = 8 \<and>
   map_option FieldOffsets (LayoutField ex_Context ex_IntBitField ex_ExternalBuilder) =
     Some [0, 16] \<and>
   map_option Alignment (LayoutField ex_Context ex_IntBitField ex_ExternalBuilder) = Some 4 \<and>
   \<not> FD_isBitField (fieldInfo ex_IntField) \<and> 0 < CharWidth ex_Context \<and>
   externalFieldOffset ex_ExternalBuilder (fieldInfo ex_IntField) mod CharWidth ex_Context = 0 \<and>
   toBits ex_Context (LayoutField_offset ex_Context ex_IntField ex_ExternalBuilder) = 32 \<and>
   map_option FieldOffsets (LayoutField ex_Context ex_IntField ex_ExternalBuilder) =
     Some [0, 16] \<and>
   map_option Alignment (LayoutField ex_Context ex_IntField ex_ExternalBuilder) = Some 1 \<and>
   map_option InferAlignment (LayoutField ex_Context ex_IntField ex_ExternalBuilder) =
     Some False \<and>
   externalBaseOffset ex_ExternalBuilder ex_IntBase = Some 2 \<and>
   EmptySubobjects ex_ExternalBuilder = Some ex_Map \<and>
   declId (info (Class ex_IntBase)) \<notin> dom (BaseOffsets ex_ExternalBuilder) \<and>
   computedBaseOffset ex_Context ex_IntBase ex_ExternalBuilder = 4 \<and>
   map_option (\<lambda>B'. BaseOffsets B' 5)
     (LayoutNonVirtualBase ex_Context ex_IntBase ex_ExternalBuilder) = Some (Some 2) \<and>
   map_option Alignment (LayoutNonVirtualBase ex_Context ex_IntBase ex_ExternalBuilder) = Some 1"
  using external_offset_recorded [of ex_ExternalBuilder ex_IntBitField ex_Context ex_IntBase 2 ex_Map]
    external_offset_recorded [of ex_ExternalBuilder ex_IntField ex_Context ex_IntBase 2 ex_Map]
  by (simp add: ex_ExternalBuilder_def ex_IntBitField_def ex_IntField_def ex_IntBase_def
      ex_IntClass_def ex_FieldInfo_def ex_DeclInfo_def ex_Layout_def ex_Context_def ex_Map_def
      computedBitFieldOffset_def computedBaseOffset_def field_layout_defs base_layout_defs Let_def)

theorem external_offset_counterexample:
  "map_option FieldOffsets
     (Layout_RecordDecl ex_Context (ex_DeclInfo 50 False) [ex_CharField, ex_IntField] None) =
     Some [0, 32] \<and>
   map_option FieldOffsets
     (Layout_RecordDecl ex_Context (ex_DeclInfo 50 False) [ex_CharField, ex_IntField]
        (Some (ex_ExternalInfo 64))) = Some [0, 64] \<and>
   map_option Alignment
     (Layout_RecordDecl ex_Context (ex_DeclInfo 50 False) [ex_CharField, ex_IntField]
        (Some (ex_ExternalInfo 64))) = Some 4 \<and>
   map_option InferAlignment
     (Layout_RecordDecl ex_Context (ex_DeclInfo 50 False) [ex_CharField, ex_IntField]
        (Some (ex_ExternalInfo 64))) = Some True"
  by (simp add: layout_defs ex_ExternalInfo_def
      ex_CharField_def ex_IntField_def ex_FieldInfo_def ex_DeclInfo_def ex_Context_def
      field_layout_defs Let_def)

subsection \<open>Placement of bases\<close>




lemmas baseSubobjects_induct = baseSubobjects_Info_baseSubobjects_Info_bases_baseSubobjects_Info_primary.induct


lemma baseSubobjects_subset:
  "set (baseSubobjects_Info Info Offset) \<subseteq> set (subobjects_Info Context Info Offset)"
  "set (baseSubobjects_Info_bases Layout Bs Offset) \<subseteq>
     set (subobjects_Info_bases Context Layout Bs Offset)"
  "set (baseSubobjects_Info_primary n PVBI Offset) \<subseteq>
     set (subobjects_Info_primary Context n PVBI Offset)"
  by (induction Info Offset and Layout Bs Offset and n PVBI Offset
      rule: baseSubobjects_induct) auto















lemma RoundUp_nonneg: "0 < a \<Longrightarrow> 0 \<le> v \<Longrightarrow> 0 \<le> RoundUpToAlignment v a"
  using RoundUp_ge [of a v] by simp












subsection \<open>Microsoft builder: size and alignment\<close>

lemma toCharUnits_nonneg: "0 < CharWidth C \<Longrightarrow> 0 \<le> x \<Longrightarrow> 0 \<le> toCharUnitsFromBits C x"
  by (simp add: toCharUnitsFromBits_def pos_imp_zdiv_nonneg_iff)

lemma initializeLayout_invariant:
  assumes "pack_nonneg C RD" and "0 \<le> MS_CurrentBitfieldSize B"
  shows "ms_invariant (initializeLayout C RD B)"
proof -
  have m: "0 \<le> MS_MaxFieldAlignment (initializeLayout C RD B)"
    using assms(1)
    by (auto simp: pack_nonneg_def initializeLayout_def Let_def toCharUnits_nonneg
        split: option.splits)
  have "MS_Alignment (initializeLayout C RD B) = 1"
    "0 \<le> MS_RequiredAlignment (initializeLayout C RD B)"
    "MS_CurrentBitfieldSize (initializeLayout C RD B) = MS_CurrentBitfieldSize B"
    by (auto simp: initializeLayout_def Let_def max_def)
  then show ?thesis using m assms(2) by (simp add: ms_invariant_def)
qed

lemma adjusted_Layout_invariant:
  "ms_invariant B \<Longrightarrow> ms_invariant (snd (getAdjustedElementInfo_Layout L B))"
  by (auto simp: ms_invariant_def)

lemma adjusted_FD_invariant:
  "ms_invariant B \<Longrightarrow> ms_invariant (snd (getAdjustedElementInfo_FD C FD B))"
  using adjusted_FD_Required [of B C FD] adjusted_FD_Alignment [of B C FD]
  by (auto simp: ms_invariant_def)

lemma placeField_invariant [simp]:
  "ms_invariant (placeField C Info f B) = ms_invariant B"
  "ms_invariant (placeFieldAtOffset C Off B) = ms_invariant B"
  "ms_invariant (placeFieldAtBitOffset Bit B) = ms_invariant B"
  by (simp_all add: ms_invariant_def)

lemma invariant_update [simp]:
  "ms_invariant (B\<lparr>MS_LastFieldIsNonZeroWidthBitfield := l\<rparr>) = ms_invariant B"
  "ms_invariant (B\<lparr>MS_RemainingBitsInField := r\<rparr>) = ms_invariant B"
  "ms_invariant (B\<lparr>MS_Size := sz\<rparr>) = ms_invariant B"
  "ms_invariant (B\<lparr>MS_DataSize := sz\<rparr>) = ms_invariant B"
  "ms_invariant (B\<lparr>MS_HasZeroSizedSubObject := z\<rparr>) = ms_invariant B"
  "ms_invariant (B\<lparr>MS_LeadsWithZeroSizedBase := z\<rparr>) = ms_invariant B"
  "ms_invariant (B\<lparr>MS_HasOwnVFPtr := z\<rparr>) = ms_invariant B"
  "ms_invariant (B\<lparr>MS_HasVBPtr := z\<rparr>) = ms_invariant B"
  "ms_invariant (B\<lparr>MS_PrimaryBase := p\<rparr>) = ms_invariant B"
  "ms_invariant (B\<lparr>MS_SharedVBPtrBase := p\<rparr>) = ms_invariant B"
  "ms_invariant (B\<lparr>MS_VBPtrOffset := sz\<rparr>) = ms_invariant B"
  "ms_invariant (B\<lparr>MS_Bases := bs\<rparr>) = ms_invariant B"
  "ms_invariant (B\<lparr>MS_VBases := vbs\<rparr>) = ms_invariant B"
  "ms_invariant (B\<lparr>MS_FieldOffsets := fs\<rparr>) = ms_invariant B"
  "ms_invariant (B\<lparr>MS_PointerInfo := pi\<rparr>) = ms_invariant B"
  by (simp_all add: ms_invariant_def)

lemma layoutField_invariant:
  assumes "ms_invariant B" and "0 \<le> fst (getTypeInfoInChars C FD)"
  shows "ms_invariant (layoutField C FD B)"
proof -
  have a: "\<And>B'. ms_invariant B' \<Longrightarrow>
             ms_invariant ((snd (getAdjustedElementInfo_FD C FD B'))
                            \<lparr>MS_LastFieldIsNonZeroWidthBitfield := True,
                             MS_CurrentBitfieldSize := fst (getTypeInfoInChars C FD)\<rparr>)"
    using assms(2) adjusted_FD_invariant by (simp add: ms_invariant_def)
  show ?thesis
    using assms(1) a [OF assms(1)]
    by (auto simp: layoutField_def layoutBitField_def layoutZeroWidthBitField_def Let_def
        adjusted_FD_invariant)
qed

lemma layoutFields_loop_invariant:
  "ms_invariant B \<Longrightarrow> field_sizes_nonneg C Fs \<Longrightarrow> ms_invariant (layoutFields_loop C Fs B)"
  by (induction Fs arbitrary: B) (simp_all add: field_sizes_nonneg_def layoutField_invariant)

lemma layoutFields_invariant:
  "ms_invariant B \<Longrightarrow> field_sizes_nonneg C Fs \<Longrightarrow> ms_invariant (layoutFields C Fs B)"
  by (simp add: layoutFields_def layoutFields_loop_invariant)

subsection \<open>Microsoft builder: the last steps\<close>

lemma finalizeLayout_frame [simp]:
  "MS_DataSize (finalizeLayout B) = MS_DataSize B"
  "MS_RequiredAlignment (finalizeLayout B) = MS_RequiredAlignment B"
  "MS_VBPtrOffset (finalizeLayout B) = MS_VBPtrOffset B"
  "MS_PointerInfo (finalizeLayout B) = MS_PointerInfo B"
  "MS_SharedVBPtrBase (finalizeLayout B) = MS_SharedVBPtrBase B"
  "MS_Bases (finalizeLayout B) = MS_Bases B"
  "MS_VBases (finalizeLayout B) = MS_VBases B"
  "MS_HasVBPtr (finalizeLayout B) = MS_HasVBPtr B"
  "MS_HasOwnVFPtr (finalizeLayout B) = MS_HasOwnVFPtr B"
  by (simp_all add: finalizeLayout_def Let_def)

lemma finalizeLayout_Size:
  "MS_Size (finalizeLayout B) =
     (if MS_RequiredAlignment B \<noteq> 0
      then (if RoundUpToAlignment (MS_Size B) (max (MS_Alignment B) (MS_RequiredAlignment B)) = 0
            then max (MS_Alignment B) (MS_RequiredAlignment B)
            else RoundUpToAlignment (MS_Size B) (max (MS_Alignment B) (MS_RequiredAlignment B)))
      else (if MS_Size B = 0 then MS_Alignment B else MS_Size B))"
  "MS_Alignment (finalizeLayout B) =
     (if MS_RequiredAlignment B \<noteq> 0 then max (MS_Alignment B) (MS_RequiredAlignment B)
      else MS_Alignment B)"
  by (simp_all add: finalizeLayout_def Let_def)

lemma finalizeLayout_multiple:
  "MS_RequiredAlignment B \<noteq> 0 \<Longrightarrow>
     MS_Size (finalizeLayout B) mod MS_Alignment (finalizeLayout B) = 0"
  by (simp add: finalizeLayout_Size RoundUp_mod)

lemma finalizeLayout_ge:
  assumes "0 < MS_Alignment B"
  shows "MS_Size B \<le> MS_Size (finalizeLayout B)"
proof -
  let ?A = "max (MS_Alignment B) (MS_RequiredAlignment B)"
  have p: "0 < ?A" using assms(1) by simp
  have r: "MS_Size B \<le> RoundUpToAlignment (MS_Size B) ?A"
    using p by (rule RoundUp_ge)
  show ?thesis
  proof (cases "MS_RequiredAlignment B \<noteq> 0")
    case True
    show ?thesis
    proof (cases "RoundUpToAlignment (MS_Size B) ?A = 0")
      case z: True
      then have "MS_Size B \<le> 0" using r by simp
      then show ?thesis using True z p by (simp add: finalizeLayout_Size)
    next
      case False
      then show ?thesis using True r by (simp add: finalizeLayout_Size)
    qed
  next
    case False
    then show ?thesis using assms by (simp add: finalizeLayout_Size)
  qed
qed

lemma alignSize_frame [simp]:
  "MS_Alignment (alignSize B) = MS_Alignment B"
  "MS_RequiredAlignment (alignSize B) = MS_RequiredAlignment B"
  "MS_MaxFieldAlignment (alignSize B) = MS_MaxFieldAlignment B"
  "MS_VBPtrOffset (alignSize B) = MS_VBPtrOffset B"
  "MS_PointerInfo (alignSize B) = MS_PointerInfo B"
  "MS_SharedVBPtrBase (alignSize B) = MS_SharedVBPtrBase B"
  "MS_Bases (alignSize B) = MS_Bases B"
  "MS_VBases (alignSize B) = MS_VBases B"
  "MS_HasVBPtr (alignSize B) = MS_HasVBPtr B"
  "MS_HasOwnVFPtr (alignSize B) = MS_HasOwnVFPtr B"
  "MS_Size (alignSize B) = RoundUpToAlignment (MS_Size B) (MS_Alignment B)"
  "MS_DataSize (alignSize B) = RoundUpToAlignment (MS_Size B) (MS_Alignment B)"
  "ms_invariant (alignSize B) = ms_invariant B"
  by (simp_all add: alignSize_def ms_invariant_def)

lemma VtorDispAlignment_pos: "ms_invariant B \<Longrightarrow> 0 < VtorDispAlignment B"
  by (auto simp: ms_invariant_def VtorDispAlignment_def)

lemma packedAlignment_pos:
  "ms_invariant B \<Longrightarrow> 0 < getAlignment L \<Longrightarrow> 0 < packedAlignment L B"
  by (auto simp: ms_invariant_def packedAlignment_def)

lemma layoutVirtualBase_frame [simp]:
  "MS_DataSize (snd (layoutVirtualBase S V PB)) = MS_DataSize (snd PB)"
  "MS_RequiredAlignment (snd (layoutVirtualBase S V PB)) = MS_RequiredAlignment (snd PB)"
  "MS_MaxFieldAlignment (snd (layoutVirtualBase S V PB)) = MS_MaxFieldAlignment (snd PB)"
  "MS_CurrentBitfieldSize (snd (layoutVirtualBase S V PB)) = MS_CurrentBitfieldSize (snd PB)"
  "MS_VBPtrOffset (snd (layoutVirtualBase S V PB)) = MS_VBPtrOffset (snd PB)"
  "MS_PointerInfo (snd (layoutVirtualBase S V PB)) = MS_PointerInfo (snd PB)"
  "MS_SharedVBPtrBase (snd (layoutVirtualBase S V PB)) = MS_SharedVBPtrBase (snd PB)"
  "MS_Bases (snd (layoutVirtualBase S V PB)) = MS_Bases (snd PB)"
  "MS_HasVBPtr (snd (layoutVirtualBase S V PB)) = MS_HasVBPtr (snd PB)"
  "MS_HasOwnVFPtr (snd (layoutVirtualBase S V PB)) = MS_HasOwnVFPtr (snd PB)"
  by (simp_all add: layoutVirtualBase_def Let_def)

lemma layoutVirtualBase_Alignment:
  "MS_Alignment (snd PB) \<le> MS_Alignment (snd (layoutVirtualBase S V PB))"
  by (simp add: layoutVirtualBase_def Let_def)

lemma layoutVirtualBase_invariant:
  "ms_invariant (snd PB) \<Longrightarrow> ms_invariant (snd (layoutVirtualBase S V PB))"
  using layoutVirtualBase_Alignment [of PB S V] by (simp add: ms_invariant_def)

lemma layoutVirtualBase_dom:
  "dom (MS_VBases (snd (layoutVirtualBase S V PB))) =
     insert (declId (info V)) (dom (MS_VBases (snd PB)))"
  by (auto simp: layoutVirtualBase_def Let_def)

lemma packedAlignment_Size [simp]:
  "packedAlignment L (B\<lparr>MS_Size := sz\<rparr>) = packedAlignment L B"
  by (simp add: packedAlignment_def)

lemma vbasePadding_ge:
  assumes "ms_invariant (snd PB)"
  shows "MS_Size (snd PB) \<le> vbasePadding S V PB"
proof -
  have v: "0 < VtorDispAlignment (snd PB)" using VtorDispAlignment_pos [OF assms] .
  have c: "0 \<le> MS_CurrentBitfieldSize (snd PB)" using assms by (simp add: ms_invariant_def)
  have r: "\<And>x. x \<le> RoundUpToAlignment x (VtorDispAlignment (snd PB))"
    using RoundUp_ge [OF v] .
  define S1 where "S1 = (if MS_LastFieldIsNonZeroWidthBitfield (snd PB)
                          then MS_Size (snd PB) + MS_CurrentBitfieldSize (snd PB)
                          else MS_Size (snd PB))"
  define S2 where "S2 = (if (case fst PB of None \<Rightarrow> False
                              | Some PL \<Rightarrow> hasZeroSizedSubObject PL) \<and>
                             leadsWithZeroSizedBase (getASTRecordLayout V)
                          then RoundUpToAlignment S1 (VtorDispAlignment (snd PB)) + 4 else S1)"
  have e: "vbasePadding S V PB =
             (if declId (info V) \<in> S
              then RoundUpToAlignment S2 (VtorDispAlignment (snd PB)) + 4 else S2)"
    unfolding vbasePadding_def S1_def S2_def Let_def by (rule refl)
  have "MS_Size (snd PB) \<le> S1" using c by (simp add: S1_def)
  also have "S1 \<le> S2" using r [of S1] by (simp add: S2_def)
  also have "S2 \<le> vbasePadding S V PB" using r [of S2] by (simp add: e)
  finally show ?thesis .
qed

lemma layoutVirtualBase_ge:
  assumes "ms_invariant (snd PB)" and "placeable (getASTRecordLayout V)"
  shows "MS_Size (snd PB) \<le> MS_Size (snd (layoutVirtualBase S V PB))"
proof -
  let ?B = "snd PB"
  let ?L = "getASTRecordLayout V"
  have p: "0 < max (packedAlignment ?L ?B) (getRequiredAlignment ?L)"
    using packedAlignment_pos [OF assms(1), of ?L] assms(2) by (simp add: placeable_def)
  have d: "0 \<le> getDataSize ?L" using assms(2) by (simp add: placeable_def)
  have e: "MS_Size (snd (layoutVirtualBase S V PB)) =
             RoundUpToAlignment (vbasePadding S V PB)
               (max (packedAlignment ?L ?B) (getRequiredAlignment ?L)) +
             getDataSize ?L"
    by (simp add: layoutVirtualBase_def Let_def)
  have "MS_Size ?B \<le> vbasePadding S V PB" using vbasePadding_ge [OF assms(1)] .
  also have "\<dots> \<le> RoundUpToAlignment (vbasePadding S V PB)
                      (max (packedAlignment ?L ?B) (getRequiredAlignment ?L))"
    using RoundUp_ge [OF p] .
  finally show ?thesis using d unfolding e by linarith
qed

lemma layoutVirtualBases_loop_props:
  assumes "ms_invariant (snd PB)" and "list_all (\<lambda>V. placeable (getASTRecordLayout V)) Vs"
  shows "ms_invariant (snd (layoutVirtualBases_loop S Vs PB))"
    and "MS_Size (snd PB) \<le> MS_Size (snd (layoutVirtualBases_loop S Vs PB))"
  using assms
proof (induction Vs arbitrary: PB)
  case Nil
  { case 1 then show ?case by simp }
  { case 2 then show ?case by simp }
next
  case (Cons V Vs)
  { case 1
    then show ?case using Cons.IH(1) [of "layoutVirtualBase S V PB"]
      by (simp add: layoutVirtualBase_invariant) }
  { case 2
    then show ?case
      using Cons.IH(2) [of "layoutVirtualBase S V PB"] layoutVirtualBase_ge [of PB V S]
      by (simp add: layoutVirtualBase_invariant) }
qed

lemma layoutVirtualBases_loop_frame [simp]:
  "MS_DataSize (snd (layoutVirtualBases_loop S Vs PB)) = MS_DataSize (snd PB)"
  "MS_RequiredAlignment (snd (layoutVirtualBases_loop S Vs PB)) = MS_RequiredAlignment (snd PB)"
  "MS_VBPtrOffset (snd (layoutVirtualBases_loop S Vs PB)) = MS_VBPtrOffset (snd PB)"
  "MS_PointerInfo (snd (layoutVirtualBases_loop S Vs PB)) = MS_PointerInfo (snd PB)"
  "MS_SharedVBPtrBase (snd (layoutVirtualBases_loop S Vs PB)) = MS_SharedVBPtrBase (snd PB)"
  "MS_Bases (snd (layoutVirtualBases_loop S Vs PB)) = MS_Bases (snd PB)"
  "MS_HasVBPtr (snd (layoutVirtualBases_loop S Vs PB)) = MS_HasVBPtr (snd PB)"
  "MS_HasOwnVFPtr (snd (layoutVirtualBases_loop S Vs PB)) = MS_HasOwnVFPtr (snd PB)"
  by (induction Vs arbitrary: PB; simp)+

lemma layoutVirtualBases_loop_dom:
  "dom (MS_VBases (snd (layoutVirtualBases_loop S Vs PB))) =
     (\<lambda>V. declId (info V)) ` set Vs \<union> dom (MS_VBases (snd PB))"
  by (induction Vs arbitrary: PB) (simp_all add: layoutVirtualBase_dom)

lemma layoutVirtualBases_frame [simp]:
  "MS_DataSize (layoutVirtualBases S RD B) = MS_DataSize B"
  "MS_RequiredAlignment (layoutVirtualBases S RD B) = MS_RequiredAlignment B"
  "MS_VBPtrOffset (layoutVirtualBases S RD B) = MS_VBPtrOffset B"
  "MS_PointerInfo (layoutVirtualBases S RD B) = MS_PointerInfo B"
  "MS_SharedVBPtrBase (layoutVirtualBases S RD B) = MS_SharedVBPtrBase B"
  "MS_Bases (layoutVirtualBases S RD B) = MS_Bases B"
  "MS_HasVBPtr (layoutVirtualBases S RD B) = MS_HasVBPtr B"
  "MS_HasOwnVFPtr (layoutVirtualBases S RD B) = MS_HasOwnVFPtr B"
  by (simp_all add: layoutVirtualBases_def)

lemma layoutVirtualBases_props:
  assumes "ms_invariant B" and "list_all (\<lambda>V. placeable (getASTRecordLayout V)) (vbases RD)"
  shows "ms_invariant (layoutVirtualBases S RD B)"
    and "MS_Size B \<le> MS_Size (layoutVirtualBases S RD B)"
  using layoutVirtualBases_loop_props [of "(None, B)" "vbases RD" S] assms
  by (simp_all add: layoutVirtualBases_def)

lemma layoutVirtualBases_dom:
  "dom (MS_VBases (layoutVirtualBases S RD B)) =
     (if MS_HasVBPtr B then (\<lambda>V. declId (info V)) ` set (vbases RD) \<union> dom (MS_VBases B)
      else dom (MS_VBases B))"
  by (simp add: layoutVirtualBases_def layoutVirtualBases_loop_dom)

subsection \<open>Microsoft builder: the non-virtual bases\<close>

lemma layoutNonVirtualBase_frame [simp]:
  "MS_DataSize (snd (layoutNonVirtualBase D L PB)) = MS_DataSize (snd PB)"
  "MS_MaxFieldAlignment (snd (layoutNonVirtualBase D L PB)) = MS_MaxFieldAlignment (snd PB)"
  "MS_RequiredAlignment (snd (layoutNonVirtualBase D L PB)) = MS_RequiredAlignment (snd PB)"
  "MS_CurrentBitfieldSize (snd (layoutNonVirtualBase D L PB)) = MS_CurrentBitfieldSize (snd PB)"
  "MS_PointerInfo (snd (layoutNonVirtualBase D L PB)) = MS_PointerInfo (snd PB)"
  "MS_PrimaryBase (snd (layoutNonVirtualBase D L PB)) = MS_PrimaryBase (snd PB)"
  "MS_SharedVBPtrBase (snd (layoutNonVirtualBase D L PB)) = MS_SharedVBPtrBase (snd PB)"
  "MS_FieldOffsets (snd (layoutNonVirtualBase D L PB)) = MS_FieldOffsets (snd PB)"
  "MS_VBases (snd (layoutNonVirtualBase D L PB)) = MS_VBases (snd PB)"
  "MS_IsUnion (snd (layoutNonVirtualBase D L PB)) = MS_IsUnion (snd PB)"
  "MS_HasOwnVFPtr (snd (layoutNonVirtualBase D L PB)) = MS_HasOwnVFPtr (snd PB)"
  "MS_HasVBPtr (snd (layoutNonVirtualBase D L PB)) = MS_HasVBPtr (snd PB)"
  "MS_Is64BitMode (snd (layoutNonVirtualBase D L PB)) = MS_Is64BitMode (snd PB)"
  "MS_VBPtrOffset (snd (layoutNonVirtualBase D L PB)) = MS_Size (snd (layoutNonVirtualBase D L PB))"
  by (simp_all add: layoutNonVirtualBase_def Let_def)

lemma packedAlignment_update [simp]:
  "packedAlignment L (B\<lparr>MS_RequiredAlignment := r\<rparr>) = packedAlignment L B"
  "packedAlignment L (B\<lparr>MS_SharedVBPtrBase := s\<rparr>) = packedAlignment L B"
  "packedAlignment L (B\<lparr>MS_HasVBPtr := h\<rparr>) = packedAlignment L B"
  "packedAlignment L (B\<lparr>MS_PrimaryBase := p\<rparr>) = packedAlignment L B"
  "packedAlignment L (B\<lparr>MS_LeadsWithZeroSizedBase := z\<rparr>) = packedAlignment L B"
  "packedAlignment L (B\<lparr>MS_Alignment := a\<rparr>) = packedAlignment L B"
  by (simp_all add: packedAlignment_def)

lemma layoutNonVirtualBase_Alignment_eq [simp]:
  "MS_Alignment (snd (layoutNonVirtualBase D L PB)) =
     max (MS_Alignment (snd PB)) (packedAlignment L (snd PB))"
  by (simp add: layoutNonVirtualBase_def Let_def)

lemma layoutNonVirtualBase_Alignment:
  "MS_Alignment (snd PB) \<le> MS_Alignment (snd (layoutNonVirtualBase D L PB))"
  by simp

lemma layoutNonVirtualBase_invariant:
  "ms_invariant (snd PB) \<Longrightarrow> ms_invariant (snd (layoutNonVirtualBase D L PB))"
  by (auto simp: ms_invariant_def)

lemma firstPass_frame [simp]:
  "MS_DataSize (snd (firstPass I PB)) = MS_DataSize (snd PB)"
  "MS_MaxFieldAlignment (snd (firstPass I PB)) = MS_MaxFieldAlignment (snd PB)"
  "MS_CurrentBitfieldSize (snd (firstPass I PB)) = MS_CurrentBitfieldSize (snd PB)"
  "MS_PointerInfo (snd (firstPass I PB)) = MS_PointerInfo (snd PB)"
  "MS_FieldOffsets (snd (firstPass I PB)) = MS_FieldOffsets (snd PB)"
  "MS_VBases (snd (firstPass I PB)) = MS_VBases (snd PB)"
  "MS_IsUnion (snd (firstPass I PB)) = MS_IsUnion (snd PB)"
  "MS_HasOwnVFPtr (snd (firstPass I PB)) = MS_HasOwnVFPtr (snd PB)"
  "MS_Is64BitMode (snd (firstPass I PB)) = MS_Is64BitMode (snd PB)"
  by (simp_all add: firstPass_def Let_def)

lemma firstPass_HasVBPtr:
  "MS_HasVBPtr (snd (firstPass I PB)) =
     (MS_HasVBPtr (snd PB) \<or> isVirtual I \<or>
      (MS_SharedVBPtrBase (snd PB) = None \<and> hasVBPtr (getASTRecordLayout (getBaseDecl I))))"
  by (auto simp: firstPass_def Let_def)

lemma firstPass_Shared:
  "MS_SharedVBPtrBase (snd (firstPass I PB)) =
     (if MS_SharedVBPtrBase (snd PB) = None \<and> \<not> isVirtual I \<and>
         hasVBPtr (getASTRecordLayout (getBaseDecl I))
      then Some (getBaseDecl I) else MS_SharedVBPtrBase (snd PB))"
  by (auto simp: firstPass_def Let_def)

lemma firstPass_mono:
  "MS_Alignment (snd PB) \<le> MS_Alignment (snd (firstPass I PB))"
  "MS_RequiredAlignment (snd PB) \<le> MS_RequiredAlignment (snd (firstPass I PB))"
  by (auto simp: firstPass_def Let_def)

lemma firstPass_invariant:
  "ms_invariant (snd PB) \<Longrightarrow> ms_invariant (snd (firstPass I PB))"
  using firstPass_mono [of PB I] by (simp add: ms_invariant_def)

lemma basePadding_ge: "MS_Size (snd PB) \<le> basePadding L PB"
  by (simp add: basePadding_def)

lemma layoutNonVirtualBase_Size:
  "MS_Size (snd (layoutNonVirtualBase D L PB)) =
     RoundUpToAlignment (basePadding L PB)
       (max (packedAlignment L (snd PB)) (getRequiredAlignment L)) + getDataSize L"
  by (simp add: layoutNonVirtualBase_def Let_def)

lemma layoutNonVirtualBase_Bases:
  "MS_Bases (snd (layoutNonVirtualBase D L PB)) =
     (if declId (info D) \<in> dom (MS_Bases (snd PB)) then MS_Bases (snd PB)
      else (MS_Bases (snd PB))(declId (info D) \<mapsto>
             RoundUpToAlignment (basePadding L PB)
               (max (packedAlignment L (snd PB)) (getRequiredAlignment L))))"
  by (simp add: layoutNonVirtualBase_def Let_def)

lemma layoutNonVirtualBase_dom:
  "dom (MS_Bases (snd (layoutNonVirtualBase D L PB))) =
     insert (declId (info D)) (dom (MS_Bases (snd PB)))"
  by (auto simp: layoutNonVirtualBase_Bases)

lemma layoutNonVirtualBase_nonneg:
  assumes "ms_invariant (snd PB)" and "ms_nonneg (snd PB)" and "placeable L"
  shows "ms_nonneg (snd (layoutNonVirtualBase D L PB))"
proof -
  have p: "0 < max (packedAlignment L (snd PB)) (getRequiredAlignment L)"
    using packedAlignment_pos [OF assms(1), of L] assms(3) by (simp add: placeable_def)
  have "0 \<le> basePadding L PB"
    using basePadding_ge [of PB L] assms(2) by (simp add: ms_nonneg_def)
  then have r: "0 \<le> RoundUpToAlignment (basePadding L PB)
                      (max (packedAlignment L (snd PB)) (getRequiredAlignment L))"
    using RoundUp_ge [OF p, of "basePadding L PB"] by linarith
  have d: "0 \<le> getDataSize L" using assms(3) by (simp add: placeable_def)
  show ?thesis
    using r d assms(2)
    by (auto simp: ms_nonneg_def layoutNonVirtualBase_Size layoutNonVirtualBase_Bases
        split: if_splits)
qed

lemma nonneg_update [simp]:
  "ms_nonneg (B\<lparr>MS_RequiredAlignment := r\<rparr>) = ms_nonneg B"
  "ms_nonneg (B\<lparr>MS_SharedVBPtrBase := s\<rparr>) = ms_nonneg B"
  "ms_nonneg (B\<lparr>MS_HasVBPtr := h\<rparr>) = ms_nonneg B"
  "ms_nonneg (B\<lparr>MS_HasOwnVFPtr := h\<rparr>) = ms_nonneg B"
  "ms_nonneg (B\<lparr>MS_PrimaryBase := p\<rparr>) = ms_nonneg B"
  "ms_nonneg (B\<lparr>MS_LeadsWithZeroSizedBase := z\<rparr>) = ms_nonneg B"
  "ms_nonneg (B\<lparr>MS_HasZeroSizedSubObject := z\<rparr>) = ms_nonneg B"
  "ms_nonneg (B\<lparr>MS_VBPtrOffset := v\<rparr>) = ms_nonneg B"
  "ms_nonneg (B\<lparr>MS_Alignment := a\<rparr>) = ms_nonneg B"
  "ms_nonneg (B\<lparr>MS_FieldOffsets := fs\<rparr>) = ms_nonneg B"
  "ms_nonneg (B\<lparr>MS_LastFieldIsNonZeroWidthBitfield := l\<rparr>) = ms_nonneg B"
  by (simp_all add: ms_nonneg_def)

lemma invariant_Required:
  "ms_invariant B \<Longrightarrow>
     ms_invariant (B\<lparr>MS_RequiredAlignment := max (MS_RequiredAlignment B) r\<rparr>)"
  by (auto simp: ms_invariant_def)

lemma firstPass_nonneg:
  assumes "ms_invariant (snd PB)" and "ms_nonneg (snd PB)"
    and "isVirtual I \<or> placeable (getASTRecordLayout (getBaseDecl I))"
  shows "ms_nonneg (snd (firstPass I PB))"
  using assms
  by (auto simp: firstPass_def Let_def invariant_Required intro!: layoutNonVirtualBase_nonneg)

lemma firstPass_dom:
  "dom (MS_Bases (snd (firstPass I PB))) =
     (if \<not> isVirtual I \<and> hasExtendableVFPtr (getASTRecordLayout (getBaseDecl I))
      then insert (declId (info (getBaseDecl I))) (dom (MS_Bases (snd PB)))
      else dom (MS_Bases (snd PB)))"
  by (auto simp: firstPass_def Let_def layoutNonVirtualBase_dom)

lemma firstPass_shared_ok: "shared_ok (snd PB) \<Longrightarrow> shared_ok (snd (firstPass I PB))"
  by (auto simp: shared_ok_def firstPass_HasVBPtr firstPass_Shared split: option.splits)

lemma first_frame [simp]:
  "MS_DataSize (snd (layoutNonVirtualBases_first bs PB)) = MS_DataSize (snd PB)"
  "MS_MaxFieldAlignment (snd (layoutNonVirtualBases_first bs PB)) = MS_MaxFieldAlignment (snd PB)"
  "MS_CurrentBitfieldSize (snd (layoutNonVirtualBases_first bs PB)) =
     MS_CurrentBitfieldSize (snd PB)"
  "MS_PointerInfo (snd (layoutNonVirtualBases_first bs PB)) = MS_PointerInfo (snd PB)"
  "MS_FieldOffsets (snd (layoutNonVirtualBases_first bs PB)) = MS_FieldOffsets (snd PB)"
  "MS_VBases (snd (layoutNonVirtualBases_first bs PB)) = MS_VBases (snd PB)"
  "MS_IsUnion (snd (layoutNonVirtualBases_first bs PB)) = MS_IsUnion (snd PB)"
  "MS_HasOwnVFPtr (snd (layoutNonVirtualBases_first bs PB)) = MS_HasOwnVFPtr (snd PB)"
  "MS_Is64BitMode (snd (layoutNonVirtualBases_first bs PB)) = MS_Is64BitMode (snd PB)"
  by (induction bs arbitrary: PB; simp)+

lemma first_invariant:
  "ms_invariant (snd PB) \<Longrightarrow> ms_invariant (snd (layoutNonVirtualBases_first bs PB))"
  by (induction bs arbitrary: PB) (simp_all add: firstPass_invariant)

lemma first_nonneg:
  "ms_invariant (snd PB) \<Longrightarrow> ms_nonneg (snd PB) \<Longrightarrow>
     list_all (\<lambda>I. isVirtual I \<or> placeable (getASTRecordLayout (getBaseDecl I))) bs \<Longrightarrow>
     ms_nonneg (snd (layoutNonVirtualBases_first bs PB))"
  by (induction bs arbitrary: PB) (simp_all add: firstPass_invariant firstPass_nonneg)

lemma first_shared_ok:
  "shared_ok (snd PB) \<Longrightarrow> shared_ok (snd (layoutNonVirtualBases_first bs PB))"
  by (induction bs arbitrary: PB) (simp_all add: firstPass_shared_ok)

lemma first_HasVBPtr:
  "shared_ok (snd PB) \<Longrightarrow>
     MS_HasVBPtr (snd (layoutNonVirtualBases_first bs PB)) =
       (MS_HasVBPtr (snd PB) \<or>
        list_ex (\<lambda>I. isVirtual I \<or> hasVBPtr (getASTRecordLayout (getBaseDecl I))) bs)"
proof (induction bs arbitrary: PB)
  case Nil
  then show ?case by simp
next
  case (Cons I bs)
  have "MS_HasVBPtr (snd (firstPass I PB)) =
          (MS_HasVBPtr (snd PB) \<or> isVirtual I \<or> hasVBPtr (getASTRecordLayout (getBaseDecl I)))"
    using Cons.prems by (auto simp: firstPass_HasVBPtr shared_ok_def split: option.splits)
  then show ?case
    using Cons.IH [OF firstPass_shared_ok [OF Cons.prems, of I]] by auto
qed

lemma first_Shared:
  "MS_SharedVBPtrBase (snd (layoutNonVirtualBases_first bs PB)) =
     (case MS_SharedVBPtrBase (snd PB) of
        Some Shared \<Rightarrow> Some Shared
      | None \<Rightarrow>
          map_option getBaseDecl
            (find (\<lambda>I. \<not> isVirtual I \<and> hasVBPtr (getASTRecordLayout (getBaseDecl I))) bs))"
  by (induction bs arbitrary: PB) (auto simp: firstPass_Shared split: option.splits)

lemma first_dom:
  "dom (MS_Bases (snd (layoutNonVirtualBases_first bs PB))) =
     (\<lambda>I. declId (info (getBaseDecl I))) `
       {I \<in> set bs. \<not> isVirtual I \<and> hasExtendableVFPtr (getASTRecordLayout (getBaseDecl I))} \<union>
     dom (MS_Bases (snd PB))"
  by (induction bs arbitrary: PB) (auto simp: firstPass_dom)

lemma secondPass_frame [simp]:
  "MS_DataSize (snd (snd (secondPass I CPB))) = MS_DataSize (snd (snd CPB))"
  "MS_MaxFieldAlignment (snd (snd (secondPass I CPB))) = MS_MaxFieldAlignment (snd (snd CPB))"
  "MS_RequiredAlignment (snd (snd (secondPass I CPB))) = MS_RequiredAlignment (snd (snd CPB))"
  "MS_CurrentBitfieldSize (snd (snd (secondPass I CPB))) = MS_CurrentBitfieldSize (snd (snd CPB))"
  "MS_PointerInfo (snd (snd (secondPass I CPB))) = MS_PointerInfo (snd (snd CPB))"
  "MS_PrimaryBase (snd (snd (secondPass I CPB))) = MS_PrimaryBase (snd (snd CPB))"
  "MS_SharedVBPtrBase (snd (snd (secondPass I CPB))) = MS_SharedVBPtrBase (snd (snd CPB))"
  "MS_FieldOffsets (snd (snd (secondPass I CPB))) = MS_FieldOffsets (snd (snd CPB))"
  "MS_VBases (snd (snd (secondPass I CPB))) = MS_VBases (snd (snd CPB))"
  "MS_IsUnion (snd (snd (secondPass I CPB))) = MS_IsUnion (snd (snd CPB))"
  "MS_HasOwnVFPtr (snd (snd (secondPass I CPB))) = MS_HasOwnVFPtr (snd (snd CPB))"
  "MS_HasVBPtr (snd (snd (secondPass I CPB))) = MS_HasVBPtr (snd (snd CPB))"
  "MS_Is64BitMode (snd (snd (secondPass I CPB))) = MS_Is64BitMode (snd (snd CPB))"
  by (simp_all add: secondPass_def Let_def)

lemma secondPass_invariant:
  "ms_invariant (snd (snd CPB)) \<Longrightarrow> ms_invariant (snd (snd (secondPass I CPB)))"
  by (auto simp: secondPass_def Let_def intro!: layoutNonVirtualBase_invariant)

lemma secondPass_nonneg:
  assumes "ms_invariant (snd (snd CPB))" and "ms_nonneg (snd (snd CPB))"
    and "isVirtual I \<or> placeable (getASTRecordLayout (getBaseDecl I))"
  shows "ms_nonneg (snd (snd (secondPass I CPB)))"
  using assms
  by (auto simp: secondPass_def Let_def intro!: layoutNonVirtualBase_nonneg)

lemma secondPass_dom:
  "dom (MS_Bases (snd (snd (secondPass I CPB)))) =
     (if \<not> isVirtual I \<and> \<not> hasExtendableVFPtr (getASTRecordLayout (getBaseDecl I))
      then insert (declId (info (getBaseDecl I))) (dom (MS_Bases (snd (snd CPB))))
      else dom (MS_Bases (snd (snd CPB))))"
  by (auto simp: secondPass_def Let_def layoutNonVirtualBase_dom)

lemma second_frame [simp]:
  "MS_DataSize (snd (snd (layoutNonVirtualBases_second bs CPB))) = MS_DataSize (snd (snd CPB))"
  "MS_MaxFieldAlignment (snd (snd (layoutNonVirtualBases_second bs CPB))) =
     MS_MaxFieldAlignment (snd (snd CPB))"
  "MS_RequiredAlignment (snd (snd (layoutNonVirtualBases_second bs CPB))) =
     MS_RequiredAlignment (snd (snd CPB))"
  "MS_CurrentBitfieldSize (snd (snd (layoutNonVirtualBases_second bs CPB))) =
     MS_CurrentBitfieldSize (snd (snd CPB))"
  "MS_PointerInfo (snd (snd (layoutNonVirtualBases_second bs CPB))) =
     MS_PointerInfo (snd (snd CPB))"
  "MS_PrimaryBase (snd (snd (layoutNonVirtualBases_second bs CPB))) =
     MS_PrimaryBase (snd (snd CPB))"
  "MS_SharedVBPtrBase (snd (snd (layoutNonVirtualBases_second bs CPB))) =
     MS_SharedVBPtrBase (snd (snd CPB))"
  "MS_FieldOffsets (snd (snd (layoutNonVirtualBases_second bs CPB))) =
     MS_FieldOffsets (snd (snd CPB))"
  "MS_VBases (snd (snd (layoutNonVirtualBases_second bs CPB))) = MS_VBases (snd (snd CPB))"
  "MS_IsUnion (snd (snd (layoutNonVirtualBases_second bs CPB))) = MS_IsUnion (snd (snd CPB))"
  "MS_HasOwnVFPtr (snd (snd (layoutNonVirtualBases_second bs CPB))) =
     MS_HasOwnVFPtr (snd (snd CPB))"
  "MS_HasVBPtr (snd (snd (layoutNonVirtualBases_second bs CPB))) = MS_HasVBPtr (snd (snd CPB))"
  "MS_Is64BitMode (snd (snd (layoutNonVirtualBases_second bs CPB))) =
     MS_Is64BitMode (snd (snd CPB))"
  by (induction bs arbitrary: CPB; simp)+

lemma second_invariant:
  "ms_invariant (snd (snd CPB)) \<Longrightarrow>
     ms_invariant (snd (snd (layoutNonVirtualBases_second bs CPB)))"
  by (induction bs arbitrary: CPB) (simp_all add: secondPass_invariant)

lemma second_nonneg:
  "ms_invariant (snd (snd CPB)) \<Longrightarrow> ms_nonneg (snd (snd CPB)) \<Longrightarrow>
     list_all (\<lambda>I. isVirtual I \<or> placeable (getASTRecordLayout (getBaseDecl I))) bs \<Longrightarrow>
     ms_nonneg (snd (snd (layoutNonVirtualBases_second bs CPB)))"
  by (induction bs arbitrary: CPB) (simp_all add: secondPass_invariant secondPass_nonneg)

lemma second_dom:
  "dom (MS_Bases (snd (snd (layoutNonVirtualBases_second bs CPB)))) =
     (\<lambda>I. declId (info (getBaseDecl I))) `
       {I \<in> set bs. \<not> isVirtual I \<and> \<not> hasExtendableVFPtr (getASTRecordLayout (getBaseDecl I))} \<union>
     dom (MS_Bases (snd (snd CPB)))"
  by (induction bs arbitrary: CPB) (auto simp: secondPass_dom)

lemma layoutNonVirtualBase_VBPtr_nonneg:
  assumes "ms_invariant (snd PB)" and "ms_nonneg (snd PB)" and "placeable L"
  shows "0 \<le> MS_VBPtrOffset (snd (layoutNonVirtualBase D L PB))"
  using layoutNonVirtualBase_nonneg [OF assms, of D] by (simp add: ms_nonneg_def)

lemma layoutNonVirtualBase_Size_nonneg:
  assumes "ms_invariant (snd PB)" and "ms_nonneg (snd PB)" and "placeable L"
  shows "0 \<le> MS_Size (snd (layoutNonVirtualBase D L PB))"
  using layoutNonVirtualBase_nonneg [OF assms, of D] by (simp add: ms_nonneg_def)

lemma firstPass_VBPtr_nonneg:
  assumes "ms_invariant (snd PB)" and "ms_nonneg (snd PB)" and "0 \<le> MS_VBPtrOffset (snd PB)"
    and "isVirtual I \<or> placeable (getASTRecordLayout (getBaseDecl I))"
  shows "0 \<le> MS_VBPtrOffset (snd (firstPass I PB))"
  using assms
  by (auto simp: firstPass_def Let_def invariant_Required
      intro!: layoutNonVirtualBase_Size_nonneg)

lemma first_VBPtr_nonneg:
  "ms_invariant (snd PB) \<Longrightarrow> ms_nonneg (snd PB) \<Longrightarrow> 0 \<le> MS_VBPtrOffset (snd PB) \<Longrightarrow>
     list_all (\<lambda>I. isVirtual I \<or> placeable (getASTRecordLayout (getBaseDecl I))) bs \<Longrightarrow>
     0 \<le> MS_VBPtrOffset (snd (layoutNonVirtualBases_first bs PB))"
  by (induction bs arbitrary: PB)
     (simp_all add: firstPass_invariant firstPass_nonneg firstPass_VBPtr_nonneg)

lemma secondPass_VBPtr_nonneg:
  assumes "ms_invariant (snd (snd CPB))" and "ms_nonneg (snd (snd CPB))"
    and "0 \<le> MS_VBPtrOffset (snd (snd CPB))"
    and "isVirtual I \<or> placeable (getASTRecordLayout (getBaseDecl I))"
  shows "0 \<le> MS_VBPtrOffset (snd (snd (secondPass I CPB)))"
  using assms
  by (auto simp: secondPass_def Let_def intro!: layoutNonVirtualBase_Size_nonneg)

lemma second_VBPtr_nonneg:
  "ms_invariant (snd (snd CPB)) \<Longrightarrow> ms_nonneg (snd (snd CPB)) \<Longrightarrow>
     0 \<le> MS_VBPtrOffset (snd (snd CPB)) \<Longrightarrow>
     list_all (\<lambda>I. isVirtual I \<or> placeable (getASTRecordLayout (getBaseDecl I))) bs \<Longrightarrow>
     0 \<le> MS_VBPtrOffset (snd (snd (layoutNonVirtualBases_second bs CPB)))"
  by (induction bs arbitrary: CPB)
     (simp_all add: secondPass_invariant secondPass_nonneg secondPass_VBPtr_nonneg)

lemma layoutNonVirtualBases_afterPasses:
  "layoutNonVirtualBases RD B = setVBPtrOffset (afterPasses RD B)"
  by (simp add: layoutNonVirtualBases_def afterPasses_def Let_def)

lemma afterPasses_frame [simp]:
  "MS_DataSize (afterPasses RD B) = MS_DataSize B"
  "MS_MaxFieldAlignment (afterPasses RD B) = MS_MaxFieldAlignment B"
  "MS_CurrentBitfieldSize (afterPasses RD B) = MS_CurrentBitfieldSize B"
  "MS_PointerInfo (afterPasses RD B) = MS_PointerInfo B"
  "MS_FieldOffsets (afterPasses RD B) = MS_FieldOffsets B"
  "MS_VBases (afterPasses RD B) = MS_VBases B"
  "MS_IsUnion (afterPasses RD B) = MS_IsUnion B"
  "MS_Is64BitMode (afterPasses RD B) = MS_Is64BitMode B"
  by (simp_all add: afterPasses_def Let_def)

lemma afterPasses_invariant: "ms_invariant B \<Longrightarrow> ms_invariant (afterPasses RD B)"
  using first_invariant [of "(None, B)" "bases RD"]
  by (auto simp: afterPasses_def Let_def intro!: second_invariant)

lemma afterPasses_nonneg:
  assumes "ms_invariant B" and "ms_nonneg B" and "bases_placeable RD"
  shows "ms_nonneg (afterPasses RD B)"
  using first_invariant [of "(None, B)" "bases RD"] first_nonneg [of "(None, B)" "bases RD"] assms
  by (auto simp: afterPasses_def Let_def bases_placeable_def intro!: second_nonneg)

lemma afterPasses_VBPtr_nonneg:
  assumes "ms_invariant B" and "ms_nonneg B" and "bases_placeable RD" and "0 \<le> MS_VBPtrOffset B"
  shows "0 \<le> MS_VBPtrOffset (afterPasses RD B)"
  using first_invariant [of "(None, B)" "bases RD"] first_nonneg [of "(None, B)" "bases RD"]
    first_VBPtr_nonneg [of "(None, B)" "bases RD"] assms
  by (auto simp: afterPasses_def Let_def bases_placeable_def intro!: second_VBPtr_nonneg)

lemma afterPasses_HasVBPtr:
  "shared_ok B \<Longrightarrow> MS_HasVBPtr (afterPasses RD B) = (MS_HasVBPtr B \<or> spec_hasVBPtr RD)"
  using first_HasVBPtr [of "(None, B)" "bases RD"]
  by (auto simp: afterPasses_def Let_def spec_hasVBPtr_def)

lemma afterPasses_Shared:
  "MS_SharedVBPtrBase (afterPasses RD B) =
     (case MS_SharedVBPtrBase B of
        Some Shared \<Rightarrow> Some Shared | None \<Rightarrow> spec_sharedVBPtrBase RD)"
  using first_Shared [of "bases RD" "(None, B)"]
  by (auto simp: afterPasses_def Let_def spec_sharedVBPtrBase_def split: option.splits)

lemma afterPasses_shared_ok: "shared_ok B \<Longrightarrow> shared_ok (afterPasses RD B)"
  using first_shared_ok [of "(None, B)" "bases RD"]
  by (auto simp: afterPasses_def Let_def shared_ok_def split: option.splits)

lemma afterPasses_dom:
  "dom (MS_Bases (afterPasses RD B)) =
     (\<lambda>I. declId (info (getBaseDecl I))) ` {I \<in> set (bases RD). \<not> isVirtual I} \<union>
     dom (MS_Bases B)"
  by (auto simp: afterPasses_def Let_def second_dom first_dom)

lemma setVBPtrOffset_frame [simp]:
  "MS_Size (setVBPtrOffset B) = MS_Size B"
  "MS_DataSize (setVBPtrOffset B) = MS_DataSize B"
  "MS_Alignment (setVBPtrOffset B) = MS_Alignment B"
  "MS_MaxFieldAlignment (setVBPtrOffset B) = MS_MaxFieldAlignment B"
  "MS_RequiredAlignment (setVBPtrOffset B) = MS_RequiredAlignment B"
  "MS_CurrentBitfieldSize (setVBPtrOffset B) = MS_CurrentBitfieldSize B"
  "MS_PointerInfo (setVBPtrOffset B) = MS_PointerInfo B"
  "MS_PrimaryBase (setVBPtrOffset B) = MS_PrimaryBase B"
  "MS_SharedVBPtrBase (setVBPtrOffset B) = MS_SharedVBPtrBase B"
  "MS_FieldOffsets (setVBPtrOffset B) = MS_FieldOffsets B"
  "MS_Bases (setVBPtrOffset B) = MS_Bases B"
  "MS_VBases (setVBPtrOffset B) = MS_VBases B"
  "MS_IsUnion (setVBPtrOffset B) = MS_IsUnion B"
  "MS_HasOwnVFPtr (setVBPtrOffset B) = MS_HasOwnVFPtr B"
  "MS_HasVBPtr (setVBPtrOffset B) = MS_HasVBPtr B"
  "MS_Is64BitMode (setVBPtrOffset B) = MS_Is64BitMode B"
  "ms_invariant (setVBPtrOffset B) = ms_invariant B"
  "ms_nonneg (setVBPtrOffset B) = ms_nonneg B"
  "shared_ok (setVBPtrOffset B) = shared_ok B"
  "baseOffset (setVBPtrOffset B) D = baseOffset B D"
  by (simp_all add: setVBPtrOffset_def ms_invariant_def ms_nonneg_def shared_ok_def
      baseOffset_def split: option.splits)

lemma setVBPtrOffset_set: "vbptr_set (setVBPtrOffset B)"
  by (simp add: vbptr_set_def setVBPtrOffset_def baseOffset_def split: option.splits)

lemma baseOffset_nonneg: "ms_nonneg B \<Longrightarrow> 0 \<le> baseOffset B D"
  by (auto simp: ms_nonneg_def baseOffset_def split: option.splits)

lemma setVBPtrOffset_nonneg:
  assumes "ms_nonneg B" and "shared_ok B" and "0 \<le> MS_VBPtrOffset B" and "MS_HasVBPtr B"
  shows "0 \<le> MS_VBPtrOffset (setVBPtrOffset B)"
  using assms baseOffset_nonneg [OF assms(1)]
  by (auto simp: setVBPtrOffset_def shared_ok_def hasVBPtr_def split: option.splits
      intro!: add_nonneg_nonneg)

lemma shared_nonneg:
  assumes "ms_nonneg B" and "shared_ok B" and "vbptr_set B" and "MS_HasVBPtr B"
    and "MS_SharedVBPtrBase B = Some Shared"
  shows "0 \<le> MS_VBPtrOffset B"
  using assms baseOffset_nonneg [OF assms(1), of Shared]
  by (simp add: vbptr_set_def shared_ok_def hasVBPtr_def)

lemma layoutNonVirtualBases_frame [simp]:
  "MS_DataSize (layoutNonVirtualBases RD B) = MS_DataSize B"
  "MS_MaxFieldAlignment (layoutNonVirtualBases RD B) = MS_MaxFieldAlignment B"
  "MS_CurrentBitfieldSize (layoutNonVirtualBases RD B) = MS_CurrentBitfieldSize B"
  "MS_PointerInfo (layoutNonVirtualBases RD B) = MS_PointerInfo B"
  "MS_FieldOffsets (layoutNonVirtualBases RD B) = MS_FieldOffsets B"
  "MS_VBases (layoutNonVirtualBases RD B) = MS_VBases B"
  "MS_IsUnion (layoutNonVirtualBases RD B) = MS_IsUnion B"
  "MS_Is64BitMode (layoutNonVirtualBases RD B) = MS_Is64BitMode B"
  by (simp_all add: layoutNonVirtualBases_afterPasses)

subsection \<open>Microsoft builder: the vbptr\<close>

lemma ms_nonneg_bases: "ms_nonneg B \<Longrightarrow> bases_nonneg B"
  by (simp add: ms_nonneg_def bases_nonneg_def)

lemma bases_nonneg_offset: "bases_nonneg B \<Longrightarrow> 0 \<le> baseOffset B D"
  by (auto simp: bases_nonneg_def baseOffset_def split: option.splits)

lemma layoutNonVirtualBases_props:
  assumes "shared_ok B" and "ms_invariant B" and "ms_nonneg B" and "bases_placeable RD"
  shows "MS_HasVBPtr (layoutNonVirtualBases RD B) = (MS_HasVBPtr B \<or> spec_hasVBPtr RD)"
    and "MS_SharedVBPtrBase (layoutNonVirtualBases RD B) =
           (case MS_SharedVBPtrBase B of
              Some Shared \<Rightarrow> Some Shared | None \<Rightarrow> spec_sharedVBPtrBase RD)"
    and "vbptr_set (layoutNonVirtualBases RD B)"
    and "shared_ok (layoutNonVirtualBases RD B)"
    and "ms_invariant (layoutNonVirtualBases RD B)"
    and "ms_nonneg (layoutNonVirtualBases RD B)"
    and "dom (MS_Bases (layoutNonVirtualBases RD B)) =
           (\<lambda>I. declId (info (getBaseDecl I))) ` {I \<in> set (bases RD). \<not> isVirtual I} \<union>
           dom (MS_Bases B)"
    and "0 \<le> MS_VBPtrOffset B \<Longrightarrow> MS_HasVBPtr (layoutNonVirtualBases RD B) \<Longrightarrow>
           0 \<le> MS_VBPtrOffset (layoutNonVirtualBases RD B)"
proof -
  note a = layoutNonVirtualBases_afterPasses
  show "MS_HasVBPtr (layoutNonVirtualBases RD B) = (MS_HasVBPtr B \<or> spec_hasVBPtr RD)"
    by (simp add: a afterPasses_HasVBPtr [OF assms(1)])
  show "MS_SharedVBPtrBase (layoutNonVirtualBases RD B) =
           (case MS_SharedVBPtrBase B of
              Some Shared \<Rightarrow> Some Shared | None \<Rightarrow> spec_sharedVBPtrBase RD)"
    by (simp add: a afterPasses_Shared)
  show "vbptr_set (layoutNonVirtualBases RD B)" by (simp add: a setVBPtrOffset_set)
  show "shared_ok (layoutNonVirtualBases RD B)"
    by (simp add: a afterPasses_shared_ok [OF assms(1)])
  show "ms_invariant (layoutNonVirtualBases RD B)"
    by (simp add: a afterPasses_invariant [OF assms(2)])
  show "ms_nonneg (layoutNonVirtualBases RD B)"
    by (simp add: a afterPasses_nonneg [OF assms(2,3,4)])
  show "dom (MS_Bases (layoutNonVirtualBases RD B)) =
           (\<lambda>I. declId (info (getBaseDecl I))) ` {I \<in> set (bases RD). \<not> isVirtual I} \<union>
           dom (MS_Bases B)"
    by (simp add: a afterPasses_dom)
  show "0 \<le> MS_VBPtrOffset (layoutNonVirtualBases RD B)"
    if "0 \<le> MS_VBPtrOffset B" and "MS_HasVBPtr (layoutNonVirtualBases RD B)"
    using that(2) unfolding a
    by (intro setVBPtrOffset_nonneg afterPasses_nonneg [OF assms(2,3,4)]
        afterPasses_shared_ok [OF assms(1)] afterPasses_VBPtr_nonneg [OF assms(2,3,4) that(1)])
       simp
qed

lemma spec_shared_is_base:
  "spec_sharedVBPtrBase RD = Some Shared \<Longrightarrow>
     declId (info Shared) \<in>
       (\<lambda>I. declId (info (getBaseDecl I))) ` {I \<in> set (bases RD). \<not> isVirtual I}"
  by (auto simp: spec_sharedVBPtrBase_def find_Some_iff)

lemma injectVBPtr_frame [simp]:
  "MS_DataSize (injectVBPtr C B) = MS_DataSize B"
  "MS_Alignment (injectVBPtr C B) = MS_Alignment B"
  "MS_MaxFieldAlignment (injectVBPtr C B) = MS_MaxFieldAlignment B"
  "MS_RequiredAlignment (injectVBPtr C B) = MS_RequiredAlignment B"
  "MS_CurrentBitfieldSize (injectVBPtr C B) = MS_CurrentBitfieldSize B"
  "MS_PointerInfo (injectVBPtr C B) = MS_PointerInfo B"
  "MS_PrimaryBase (injectVBPtr C B) = MS_PrimaryBase B"
  "MS_SharedVBPtrBase (injectVBPtr C B) = MS_SharedVBPtrBase B"
  "MS_VBases (injectVBPtr C B) = MS_VBases B"
  "MS_HasOwnVFPtr (injectVBPtr C B) = MS_HasOwnVFPtr B"
  "MS_HasVBPtr (injectVBPtr C B) = MS_HasVBPtr B"
  "MS_Is64BitMode (injectVBPtr C B) = MS_Is64BitMode B"
  "dom (MS_Bases (injectVBPtr C B)) = dom (MS_Bases B)"
  by (auto simp: injectVBPtr_def Let_def dom_def)

lemma injectVBPtr_VBPtrOffset:
  "MS_VBPtrOffset (injectVBPtr C B) =
     (if MS_HasVBPtr B \<and> MS_SharedVBPtrBase B = None
      then RoundUpToAlignment (MS_VBPtrOffset B) (EI_Alignment (MS_PointerInfo B))
      else MS_VBPtrOffset B)"
  by (simp add: injectVBPtr_def Let_def)

lemma injectVBPtr_shared:
  "MS_SharedVBPtrBase B \<noteq> None \<Longrightarrow> injectVBPtr C B = B"
  by (simp add: injectVBPtr_def)

lemma injectVFPtr_frame [simp]:
  "MS_DataSize (injectVFPtr C B) = MS_DataSize B"
  "MS_Alignment (injectVFPtr C B) = MS_Alignment B"
  "MS_MaxFieldAlignment (injectVFPtr C B) = MS_MaxFieldAlignment B"
  "MS_RequiredAlignment (injectVFPtr C B) = MS_RequiredAlignment B"
  "MS_CurrentBitfieldSize (injectVFPtr C B) = MS_CurrentBitfieldSize B"
  "MS_PointerInfo (injectVFPtr C B) = MS_PointerInfo B"
  "MS_PrimaryBase (injectVFPtr C B) = MS_PrimaryBase B"
  "MS_SharedVBPtrBase (injectVFPtr C B) = MS_SharedVBPtrBase B"
  "MS_VBases (injectVFPtr C B) = MS_VBases B"
  "MS_HasOwnVFPtr (injectVFPtr C B) = MS_HasOwnVFPtr B"
  "MS_HasVBPtr (injectVFPtr C B) = MS_HasVBPtr B"
  "MS_Is64BitMode (injectVFPtr C B) = MS_Is64BitMode B"
  "dom (MS_Bases (injectVFPtr C B)) = dom (MS_Bases B)"
  by (auto simp: injectVFPtr_def Let_def dom_def)

lemma injectVFPtr_VBPtrOffset:
  "MS_VBPtrOffset (injectVFPtr C B) =
     (if MS_HasOwnVFPtr B \<and> MS_HasVBPtr B
      then MS_VBPtrOffset B +
           RoundUpToAlignment (EI_Size (MS_PointerInfo B)) (MS_Alignment B)
      else MS_VBPtrOffset B)"
  by (simp add: injectVFPtr_def Let_def)

lemma injectVFPtr_baseOffset:
  "declId (info D) \<in> dom (MS_Bases B) \<Longrightarrow>
     baseOffset (injectVFPtr C B) D =
       (if MS_HasOwnVFPtr B
        then baseOffset B D + RoundUpToAlignment (EI_Size (MS_PointerInfo B)) (MS_Alignment B)
        else baseOffset B D)"
  by (auto simp: injectVFPtr_def Let_def baseOffset_def)

lemma injectVFPtr_vbptr_set:
  assumes "vbptr_set B" and "shared_placed B"
  shows "vbptr_set (injectVFPtr C B)"
proof (cases "MS_SharedVBPtrBase B")
  case None
  then show ?thesis using assms(1) by (simp add: vbptr_set_def injectVFPtr_VBPtrOffset)
next
  case (Some Shared)
  then have "declId (info Shared) \<in> dom (MS_Bases B)"
    using assms(2) by (simp add: shared_placed_def)
  then show ?thesis
    using assms(1) Some
    by (auto simp: vbptr_set_def injectVFPtr_VBPtrOffset injectVFPtr_baseOffset
        split: if_splits)
qed

lemma update_Alignment [simp]:
  "vbptr_set (B\<lparr>MS_Alignment := a\<rparr>) = vbptr_set B"
  "vbptr_set (B\<lparr>MS_HasZeroSizedSubObject := z\<rparr>) = vbptr_set B"
  "vbptr_set (B\<lparr>MS_Size := s, MS_DataSize := d\<rparr>) = vbptr_set B"
  by (auto simp: vbptr_set_def baseOffset_def split: option.splits)

lemma vbptr_set_cong:
  "MS_HasVBPtr B' = MS_HasVBPtr B \<Longrightarrow> MS_SharedVBPtrBase B' = MS_SharedVBPtrBase B \<Longrightarrow>
     MS_VBPtrOffset B' = MS_VBPtrOffset B \<Longrightarrow> MS_Bases B' = MS_Bases B \<Longrightarrow>
     vbptr_set B' = vbptr_set B"
  by (auto simp: vbptr_set_def baseOffset_def split: option.splits)

lemma placeVBPtr_frame [simp]:
  "MS_DataSize (placeVBPtr RD B) = MS_DataSize B"
  "MS_Alignment (placeVBPtr RD B) = MS_Alignment B"
  "MS_MaxFieldAlignment (placeVBPtr RD B) = MS_MaxFieldAlignment B"
  "MS_RequiredAlignment (placeVBPtr RD B) = MS_RequiredAlignment B"
  "MS_CurrentBitfieldSize (placeVBPtr RD B) = MS_CurrentBitfieldSize B"
  "MS_PointerInfo (placeVBPtr RD B) = MS_PointerInfo B"
  "MS_PrimaryBase (placeVBPtr RD B) = MS_PrimaryBase B"
  "MS_SharedVBPtrBase (placeVBPtr RD B) = MS_SharedVBPtrBase B"
  "MS_VBases (placeVBPtr RD B) = MS_VBases B"
  "MS_HasOwnVFPtr (placeVBPtr RD B) = MS_HasOwnVFPtr B"
  "MS_HasVBPtr (placeVBPtr RD B) = MS_HasVBPtr B"
  "MS_Is64BitMode (placeVBPtr RD B) = MS_Is64BitMode B"
  "ms_invariant (placeVBPtr RD B) = ms_invariant B"
  by (simp_all add: placeVBPtr_def Let_def ms_invariant_def)

lemma placeVBPtr_VBPtrOffset:
  "MS_VBPtrOffset (placeVBPtr RD B) =
     RoundUpToAlignment (vbptrSite RD B) (EI_Alignment (MS_PointerInfo B))"
  by (simp add: placeVBPtr_def vbptrSite_def Let_def)

lemma vbptrSite_nonneg: "ms_nonneg B \<Longrightarrow> 0 \<le> vbptrSite RD B"
  using baseOffset_nonneg [of B] by (simp add: vbptrSite_def ms_nonneg_def)

lemma general_VBPtrOffset:
  "MS_VBPtrOffset (injectVPtrs_general C B) =
     (if MS_HasVBPtr B \<and> MS_SharedVBPtrBase B = None
      then RoundUpToAlignment (MS_VBPtrOffset B) (EI_Alignment (MS_PointerInfo B))
      else MS_VBPtrOffset B) +
     (if MS_HasOwnVFPtr B \<and> MS_HasVBPtr B
      then RoundUpToAlignment (EI_Size (MS_PointerInfo B)) (MS_Alignment B) else 0)"
  by (simp add: injectVPtrs_general_def injectVFPtr_VBPtrOffset injectVBPtr_VBPtrOffset)

lemma general_frame [simp]:
  "MS_DataSize (injectVPtrs_general C B) = MS_DataSize B"
  "MS_MaxFieldAlignment (injectVPtrs_general C B) = MS_MaxFieldAlignment B"
  "MS_RequiredAlignment (injectVPtrs_general C B) = MS_RequiredAlignment B"
  "MS_CurrentBitfieldSize (injectVPtrs_general C B) = MS_CurrentBitfieldSize B"
  "MS_PointerInfo (injectVPtrs_general C B) = MS_PointerInfo B"
  "MS_SharedVBPtrBase (injectVPtrs_general C B) = MS_SharedVBPtrBase B"
  "MS_VBases (injectVPtrs_general C B) = MS_VBases B"
  "MS_HasOwnVFPtr (injectVPtrs_general C B) = MS_HasOwnVFPtr B"
  "MS_HasVBPtr (injectVPtrs_general C B) = MS_HasVBPtr B"
  "MS_Alignment (injectVPtrs_general C B) =
     max (MS_Alignment B) (EI_Alignment (MS_PointerInfo B))"
  by (simp_all add: injectVPtrs_general_def)

lemma general_injected:
  assumes "ready RD B"
  shows "injected RD B (injectVPtrs_general C B)"
proof -
  have r: "MS_HasVBPtr B = spec_hasVBPtr RD" "MS_SharedVBPtrBase B = spec_sharedVBPtrBase RD"
    "vbptr_set B" "shared_placed B" "ms_invariant B" "pointer_ok B"
    "MS_HasVBPtr B \<longrightarrow> 0 \<le> MS_VBPtrOffset B"
    using assms by (simp_all add: ready_def)
  have vb: "vbptr_set (injectVBPtr C B)"
  proof (cases "MS_SharedVBPtrBase B")
    case None
    then show ?thesis using r(3) by (simp add: vbptr_set_def injectVBPtr_VBPtrOffset)
  next
    case (Some Shared)
    then show ?thesis using r(3) by (simp add: injectVBPtr_shared)
  qed
  have sp: "shared_placed (injectVBPtr C B)"
    using r(4) by (simp add: shared_placed_def)
  have v: "vbptr_set (injectVPtrs_general C B)"
    using injectVFPtr_vbptr_set [OF vb sp, of C] by (simp add: injectVPtrs_general_def)
  have i: "ms_invariant (injectVPtrs_general C B)"
    using r(5) by (auto simp: ms_invariant_def)
  have pa: "0 < EI_Alignment (MS_PointerInfo B)" and ps: "0 \<le> EI_Size (MS_PointerInfo B)"
    using r(6) by (simp_all add: pointer_ok_def)
  have al: "0 < MS_Alignment B" using r(5) by (simp add: ms_invariant_def)
  have n: "MS_HasVBPtr B \<longrightarrow> 0 \<le> MS_VBPtrOffset (injectVPtrs_general C B)"
    using r(7) RoundUp_nonneg [OF pa, of "MS_VBPtrOffset B"]
      RoundUp_nonneg [OF al ps]
    by (auto simp: general_VBPtrOffset)
  show ?thesis using r(1,2) v i n by (simp add: injected_def)
qed

lemma special_injected:
  assumes "ready RD B" and "bases_placeable RD" and "field_sizes_nonneg C (fieldDecls RD)"
  shows "injected RD B (injectVPtrs_special C RD B)"
    and "MS_HasVBPtr B \<and> MS_SharedVBPtrBase B = None \<longrightarrow>
           EI_Alignment (MS_PointerInfo B) dvd MS_VBPtrOffset (injectVPtrs_special C RD B)"
proof -
  have r: "MS_HasVBPtr B = spec_hasVBPtr RD" "MS_SharedVBPtrBase B = spec_sharedVBPtrBase RD"
    "shared_ok B" "ms_invariant B" "pointer_ok B"
    using assms(1) by (simp_all add: ready_def)
  define B1 where "B1 = B\<lparr>MS_FieldOffsets := [], MS_Bases := Map.empty,
                   MS_Size := (if MS_HasOwnVFPtr B then EI_Size (MS_PointerInfo B) else 0),
                   MS_Alignment := max (MS_Alignment B) (EI_Alignment (MS_PointerInfo B))\<rparr>"
  define B2 where "B2 = layoutNonVirtualBases RD B1"
  define B3 where "B3 = (if MS_HasVBPtr B2 \<and> MS_SharedVBPtrBase B2 = None
                          then placeVBPtr RD B2 else B2)"
  have e: "injectVPtrs_special C RD B =
             (layoutFields C (fieldDecls RD) B3)\<lparr>MS_HasZeroSizedSubObject := False\<rparr>"
    by (simp add: injectVPtrs_special_def B1_def B2_def B3_def Let_def)
  have pa: "0 < EI_Alignment (MS_PointerInfo B)" and ps: "0 \<le> EI_Size (MS_PointerInfo B)"
    using r(5) by (simp_all add: pointer_ok_def)
  have s1: "shared_ok B1" using r(3) by (simp add: B1_def shared_ok_def)
  have i1: "ms_invariant B1" using r(4) by (auto simp: B1_def ms_invariant_def)
  have n1: "ms_nonneg B1" using ps by (simp add: B1_def ms_nonneg_def)
  have f1: "MS_HasVBPtr B1 = MS_HasVBPtr B" "MS_SharedVBPtrBase B1 = MS_SharedVBPtrBase B"
    "MS_PointerInfo B1 = MS_PointerInfo B" "MS_VBases B1 = MS_VBases B"
    "MS_DataSize B1 = MS_DataSize B"
    by (simp_all add: B1_def)
  note p = layoutNonVirtualBases_props [OF s1 i1 n1 assms(2)]
  have h2: "MS_HasVBPtr B2 = spec_hasVBPtr RD"
    using p(1) r(1) f1 by (simp add: B2_def)
  have sh2: "MS_SharedVBPtrBase B2 = spec_sharedVBPtrBase RD"
    using p(2) r(2) f1 by (simp add: B2_def split: option.splits)
  have v2: "vbptr_set B2" and ok2: "shared_ok B2" and i2: "ms_invariant B2" and n2: "ms_nonneg B2"
    using p(3,4,5,6) by (simp_all add: B2_def)
  have f2: "MS_PointerInfo B2 = MS_PointerInfo B" "MS_VBases B2 = MS_VBases B"
    "MS_DataSize B2 = MS_DataSize B"
    using f1 by (simp_all add: B2_def)
  have h3: "MS_HasVBPtr B3 = spec_hasVBPtr RD" and sh3: "MS_SharedVBPtrBase B3 = spec_sharedVBPtrBase RD"
    and i3: "ms_invariant B3"
    and f3: "MS_PointerInfo B3 = MS_PointerInfo B" "MS_VBases B3 = MS_VBases B"
      "MS_DataSize B3 = MS_DataSize B"
    using h2 sh2 i2 f2 by (simp_all add: B3_def)
  have v3: "vbptr_set B3"
  proof (cases "MS_HasVBPtr B2 \<and> MS_SharedVBPtrBase B2 = None")
    case True
    then show ?thesis by (simp add: B3_def vbptr_set_def)
  next
    case False
    then have b: "B3 = B2" unfolding B3_def by (rule if_not_P)
    show ?thesis unfolding b by (rule v2)
  qed
  have o3: "MS_HasVBPtr B3 \<longrightarrow> 0 \<le> MS_VBPtrOffset B3"
  proof (cases "MS_SharedVBPtrBase B2")
    case None
    then show ?thesis
      using RoundUp_nonneg [OF pa vbptrSite_nonneg [OF n2, of RD]] f2
      by (simp add: B3_def placeVBPtr_VBPtrOffset)
  next
    case (Some Shared)
    then show ?thesis
      using shared_nonneg [OF n2 ok2 v2 _ Some] by (simp add: B3_def)
  qed
  have d3: "MS_HasVBPtr B \<and> MS_SharedVBPtrBase B = None \<longrightarrow>
              EI_Alignment (MS_PointerInfo B) dvd MS_VBPtrOffset B3"
    using h2 sh2 r(1,2) f2 by (simp add: B3_def placeVBPtr_VBPtrOffset RoundUp_dvd)
  have v: "vbptr_set (injectVPtrs_special C RD B)"
    unfolding e using v3
    by (subst vbptr_set_cong [of _ B3]) simp_all
  have i: "ms_invariant (injectVPtrs_special C RD B)"
    unfolding e using layoutFields_invariant [OF i3 assms(3)] by simp
  show "injected RD B (injectVPtrs_special C RD B)"
    using v i h3 sh3 f3 o3 unfolding injected_def e by simp
  show "MS_HasVBPtr B \<and> MS_SharedVBPtrBase B = None \<longrightarrow>
           EI_Alignment (MS_PointerInfo B) dvd MS_VBPtrOffset (injectVPtrs_special C RD B)"
    using d3 unfolding e by simp
qed

subsection \<open>Microsoft builder: the whole layout of a class\<close>

lemma RoundUp_of_multiple:
  assumes "0 < a" and "a dvd v"
  shows "RoundUpToAlignment v a = v"
proof -
  obtain k where k: "v = a * k" using assms(2) by (auto simp: dvd_def)
  have e: "a * k + a - 1 = (a - 1) + k * a" by (simp add: algebra_simps)
  have "((a - 1) + k * a) div a = k + (a - 1) div a"
    using assms(1) by (subst div_mult_self1) simp_all
  also have "(a - 1) div a = 0" using assms(1) by (simp add: div_pos_pos_trivial)
  finally have "(a * k + a - 1) div a = k" unfolding e by simp
  then show ?thesis unfolding RoundUpToAlignment_def k by simp
qed

lemma shift_fits:
  assumes "p dvd s" and "a dvd s \<or> s dvd a" and "0 < a"
  shows "p dvd RoundUpToAlignment s a"
proof (cases "a dvd s")
  case True
  then show ?thesis using RoundUp_of_multiple [OF assms(3) True] assms(1) by simp
next
  case False
  then have "s dvd a" using assms(2) by simp
  then have "s dvd RoundUpToAlignment s a"
    using RoundUp_dvd [of a s] by (rule dvd_trans)
  then show ?thesis using assms(1) by (rule dvd_trans [rotated])
qed

lemma init_frame [simp]:
  "MS_HasVBPtr (cxxLayout_init C RD) = False"
  "MS_SharedVBPtrBase (cxxLayout_init C RD) = None"
  "MS_VBPtrOffset (cxxLayout_init C RD) = 0"
  "MS_Size (cxxLayout_init C RD) = 0"
  "MS_Bases (cxxLayout_init C RD) = Map.empty"
  "MS_VBases (cxxLayout_init C RD) = Map.empty"
  by (simp_all add: cxxLayout_init_def initializeCXXLayout_def initializeLayout_def Let_def
      newMicrosoftRecordLayoutBuilder_def)

lemma init_invariant:
  assumes "pack_nonneg C (info RD)"
  shows "ms_invariant (cxxLayout_init C RD)"
proof -
  have "ms_invariant (initializeLayout C (info RD) newMicrosoftRecordLayoutBuilder)"
    using assms by (rule initializeLayout_invariant) (simp add: newMicrosoftRecordLayoutBuilder_def)
  then show ?thesis by (simp add: cxxLayout_init_def initializeCXXLayout_def Let_def)
qed

lemma init_pointer_ok:
  assumes "pack_nonneg C (info RD)" and "0 < toCharUnitsFromBits C (PointerWidth C 0)"
  shows "pointer_ok (cxxLayout_init C RD)"
proof -
  have "ms_invariant (initializeLayout C (info RD) newMicrosoftRecordLayoutBuilder)"
    using assms(1)
    by (rule initializeLayout_invariant) (simp add: newMicrosoftRecordLayoutBuilder_def)
  then have "0 \<le> MS_MaxFieldAlignment (initializeLayout C (info RD) newMicrosoftRecordLayoutBuilder)"
    by (simp add: ms_invariant_def)
  then show ?thesis
    using assms(2)
    by (auto simp: pointer_ok_def cxxLayout_init_def initializeCXXLayout_def Let_def)
qed

lemma cxxLayout_fields_init:
  "cxxLayout_fields C RD newMicrosoftRecordLayoutBuilder =
     layoutFields C (fieldDecls RD) (layoutNonVirtualBases RD (cxxLayout_init C RD))"
  by (simp add: cxxLayout_fields_def cxxLayout_init_def)

lemma fields_ready:
  assumes "ms_wellformed C RD"
  shows "ready RD (cxxLayout_fields C RD newMicrosoftRecordLayoutBuilder)"
    and "MS_VBases (cxxLayout_fields C RD newMicrosoftRecordLayoutBuilder) = Map.empty"
    and "MS_PointerInfo (cxxLayout_fields C RD newMicrosoftRecordLayoutBuilder) =
           MS_PointerInfo (cxxLayout_init C RD)"
proof -
  let ?B0 = "cxxLayout_init C RD"
  let ?B1 = "layoutNonVirtualBases RD ?B0"
  let ?B2 = "layoutFields C (fieldDecls RD) ?B1"
  have w: "pack_nonneg C (info RD)" "0 < toCharUnitsFromBits C (PointerWidth C 0)"
    "bases_placeable RD" "field_sizes_nonneg C (fieldDecls RD)"
    using assms by (simp_all add: ms_wellformed_def)
  have s0: "shared_ok ?B0" by (simp add: shared_ok_def)
  have i0: "ms_invariant ?B0" using init_invariant [OF w(1)] .
  have n0: "ms_nonneg ?B0" by (simp add: ms_nonneg_def)
  note p = layoutNonVirtualBases_props [OF s0 i0 n0 w(3)]
  have h1: "MS_HasVBPtr ?B1 = spec_hasVBPtr RD" using p(1) by simp
  have sh1: "MS_SharedVBPtrBase ?B1 = spec_sharedVBPtrBase RD" using p(2) by simp
  have o1: "MS_HasVBPtr ?B1 \<longrightarrow> 0 \<le> MS_VBPtrOffset ?B1" using p(8) by simp
  have sp1: "shared_placed ?B1"
    using spec_shared_is_base [of RD] by (auto simp: shared_placed_def sh1 p(7))
  have v2: "vbptr_set ?B2"
    using p(3) by (subst vbptr_set_cong [of _ ?B1]) simp_all
  have s2: "shared_ok ?B2" using p(4) by (simp add: shared_ok_def)
  have sp2: "shared_placed ?B2" using sp1 by (simp add: shared_placed_def)
  have i2: "ms_invariant ?B2" using layoutFields_invariant [OF p(5) w(4)] .
  have po: "pointer_ok ?B2" using init_pointer_ok [OF w(1,2)] by (simp add: pointer_ok_def)
  show "ready RD (cxxLayout_fields C RD newMicrosoftRecordLayoutBuilder)"
    unfolding cxxLayout_fields_init ready_def
    using h1 sh1 o1 v2 s2 sp2 i2 po by simp
  show "MS_VBases (cxxLayout_fields C RD newMicrosoftRecordLayoutBuilder) = Map.empty"
    unfolding cxxLayout_fields_init by simp
  show "MS_PointerInfo (cxxLayout_fields C RD newMicrosoftRecordLayoutBuilder) =
           MS_PointerInfo (cxxLayout_init C RD)"
    unfolding cxxLayout_fields_init by simp
qed

lemma ready_injected: "ready RD B \<Longrightarrow> injected RD B B"
  by (simp add: ready_def injected_def)

lemma injectVPtrs_injected:
  assumes "ready RD B" and "bases_placeable RD" and "field_sizes_nonneg C (fieldDecls RD)"
  shows "injected RD B (injectVPtrs C RD B)"
  using ready_injected [OF assms(1)] general_injected [OF assms(1), of C]
    special_injected(1) [OF assms]
  by (simp add: injectVPtrs_def)

lemma injectVPtrs_aligned:
  assumes "ready RD B" and "bases_placeable RD" and "field_sizes_nonneg C (fieldDecls RD)"
    and "MS_HasVBPtr B" and "MS_SharedVBPtrBase B = None"
    and "EI_Alignment (MS_PointerInfo B) dvd
           RoundUpToAlignment (EI_Size (MS_PointerInfo B)) (MS_Alignment B)"
  shows "EI_Alignment (MS_PointerInfo B) dvd MS_VBPtrOffset (injectVPtrs C RD B)"
proof -
  have g: "EI_Alignment (MS_PointerInfo B) dvd MS_VBPtrOffset (injectVPtrs_general C B)"
    using assms(4,5,6) by (simp add: general_VBPtrOffset RoundUp_dvd)
  show ?thesis
    using g special_injected(2) [OF assms(1,2,3)] assms(4,5)
    by (simp add: injectVPtrs_def)
qed

text \<open>The state that \<^verbatim>\<open>cxxLayout\<close> ends in.\<close>

lemma cxxLayout_props:
  fixes S :: "nat set"
  assumes "ms_wellformed C RD"
  defines "B \<equiv> cxxLayout C S RD newMicrosoftRecordLayoutBuilder"
  shows "MS_HasVBPtr B = spec_hasVBPtr RD"
    and "MS_SharedVBPtrBase B = spec_sharedVBPtrBase RD"
    and "vbptr_set B"
    and "MS_HasVBPtr B \<longrightarrow> 0 \<le> MS_VBPtrOffset B"
    and "dom (MS_VBases B) =
           (if spec_hasVBPtr RD then (\<lambda>V. declId (info V)) ` set (vbases RD) else {})"
    and "MS_PointerInfo B = MS_PointerInfo (cxxLayout_init C RD)"
    and "MS_DataSize B \<le> MS_Size B"
    and "MS_RequiredAlignment B \<noteq> 0 \<longrightarrow> MS_Size B mod MS_Alignment B = 0"
    and "pointer_fits C RD \<longrightarrow> spec_hasVBPtr RD \<longrightarrow> spec_sharedVBPtrBase RD = None \<longrightarrow>
           pointerAlignment C RD dvd MS_VBPtrOffset B"
proof -
  let ?B2 = "cxxLayout_fields C RD newMicrosoftRecordLayoutBuilder"
  let ?B3 = "injectVPtrs C RD ?B2"
  let ?B4 = "alignSize ?B3"
  let ?B5 = "layoutVirtualBases S RD ?B4"
  have e: "B = finalizeLayout ?B5" by (simp add: B_def cxxLayout_def)
  have w: "bases_placeable RD" "field_sizes_nonneg C (fieldDecls RD)"
    "list_all (\<lambda>V. placeable (getASTRecordLayout V)) (vbases RD)"
    using assms(1) by (simp_all add: ms_wellformed_def)
  note r = fields_ready [OF assms(1)]
  have inj: "injected RD ?B2 ?B3" using injectVPtrs_injected [OF r(1) w(1,2)] .
  then have i3: "MS_HasVBPtr ?B3 = spec_hasVBPtr RD"
    "MS_SharedVBPtrBase ?B3 = spec_sharedVBPtrBase RD" "vbptr_set ?B3" "ms_invariant ?B3"
    "MS_PointerInfo ?B3 = MS_PointerInfo ?B2" "MS_VBases ?B3 = MS_VBases ?B2"
    "MS_HasVBPtr ?B3 \<longrightarrow> 0 \<le> MS_VBPtrOffset ?B3"
    by (simp_all add: injected_def)
  show "MS_HasVBPtr B = spec_hasVBPtr RD" unfolding e using i3(1) by simp
  show "MS_SharedVBPtrBase B = spec_sharedVBPtrBase RD" unfolding e using i3(2) by simp
  show "vbptr_set B"
    unfolding e using i3(3) by (subst vbptr_set_cong [of _ ?B3]) simp_all
  show "MS_HasVBPtr B \<longrightarrow> 0 \<le> MS_VBPtrOffset B" unfolding e using i3(7) by simp
  show "dom (MS_VBases B) =
           (if spec_hasVBPtr RD then (\<lambda>V. declId (info V)) ` set (vbases RD) else {})"
    unfolding e using i3(1,6) r(2) by (simp add: layoutVirtualBases_dom)
  show "MS_PointerInfo B = MS_PointerInfo (cxxLayout_init C RD)"
    unfolding e using i3(5) r(3) by simp
  have i4: "ms_invariant ?B4" using i3(4) by simp
  note v = layoutVirtualBases_props [OF i4 w(3), of S]
  have a5: "0 < MS_Alignment ?B5" using v(1) by (simp add: ms_invariant_def)
  have "MS_DataSize B = MS_Size ?B4" unfolding e by simp
  also have "\<dots> \<le> MS_Size ?B5" using v(2) .
  also have "\<dots> \<le> MS_Size B" unfolding e using finalizeLayout_ge [OF a5] .
  finally show "MS_DataSize B \<le> MS_Size B" .
  show "MS_RequiredAlignment B \<noteq> 0 \<longrightarrow> MS_Size B mod MS_Alignment B = 0"
    unfolding e using finalizeLayout_multiple [of ?B5] by simp
  show "pointer_fits C RD \<longrightarrow> spec_hasVBPtr RD \<longrightarrow> spec_sharedVBPtrBase RD = None \<longrightarrow>
           pointerAlignment C RD dvd MS_VBPtrOffset B"
  proof (intro impI)
    assume f: "pointer_fits C RD" and h: "spec_hasVBPtr RD" and n: "spec_sharedVBPtrBase RD = None"
    have r2: "MS_HasVBPtr ?B2" "MS_SharedVBPtrBase ?B2 = None" "0 < MS_Alignment ?B2"
      using r(1) h n by (simp_all add: ready_def ms_invariant_def)
    have "EI_Alignment (MS_PointerInfo ?B2) dvd
            RoundUpToAlignment (EI_Size (MS_PointerInfo ?B2)) (MS_Alignment ?B2)"
      using f r2(3) by (intro shift_fits) (simp_all add: pointer_fits_def Let_def)
    then have "EI_Alignment (MS_PointerInfo ?B2) dvd MS_VBPtrOffset ?B3"
      using injectVPtrs_aligned [OF r(1) w(1,2) r2(1,2)] by simp
    then show "pointerAlignment C RD dvd MS_VBPtrOffset B"
      unfolding e pointerAlignment_def using r(3) by simp
  qed
qed
















lemma spec_shared_has:
  "spec_sharedVBPtrBase RD = Some Shared \<Longrightarrow> spec_hasVBPtr RD"
  by (auto simp: spec_sharedVBPtrBase_def spec_hasVBPtr_def list_ex_iff find_Some_iff)

text \<open>
  Claim C6, as the code has it, for a class whose packing values, pointer size, field
  sizes and base layouts are not negative. The class has a vbptr when one of its direct
  bases is virtual or has a vbptr. The offset of the vbptr is \<open>-1\<close> exactly when the
  class has no vbptr, and is not negative otherwise; the table of virtual base offsets
  then holds the virtual bases of the class, and is empty otherwise. When a non-virtual
  base has a vbptr, the first such base shares it, and the offset is the offset of that
  base plus the offset of the vbptr in it. Otherwise the vbptr is the class's own, and
  its offset is a multiple of the alignment of a pointer (the size of a pointer, clamped
  by the packing of the class).
\<close>

theorem vbptr_offset:
  assumes "ms_wellformed C RD"
  shows
    "(getVBPtrOffset (BuildMicrosoftASTRecordLayout_CXX C S RD) = -1 \<longleftrightarrow> \<not> spec_hasVBPtr RD) \<and>
     (spec_hasVBPtr RD \<longrightarrow> 0 \<le> getVBPtrOffset (BuildMicrosoftASTRecordLayout_CXX C S RD)) \<and>
     dom (getVBaseOffsetsMap (BuildMicrosoftASTRecordLayout_CXX C S RD)) =
       (if spec_hasVBPtr RD then (\<lambda>V. declId (info V)) ` set (vbases RD) else {}) \<and>
     ((spec_hasVBPtr RD \<longleftrightarrow> vbases RD \<noteq> []) \<longrightarrow>
        (getVBPtrOffset (BuildMicrosoftASTRecordLayout_CXX C S RD) = -1 \<longleftrightarrow>
         getVBaseOffsetsMap (BuildMicrosoftASTRecordLayout_CXX C S RD) = Map.empty)) \<and>
     (\<forall>Shared. spec_sharedVBPtrBase RD = Some Shared \<longrightarrow>
        getVBPtrOffset (BuildMicrosoftASTRecordLayout_CXX C S RD) =
          getBaseClassOffset (BuildMicrosoftASTRecordLayout_CXX C S RD) (declId (info Shared)) +
          getVBPtrOffset (getASTRecordLayout Shared)) \<and>
     (spec_hasVBPtr RD \<and> spec_sharedVBPtrBase RD = None \<and> pointer_fits C RD \<longrightarrow>
        pointerAlignment C RD dvd getVBPtrOffset (BuildMicrosoftASTRecordLayout_CXX C S RD))"
proof -
  define B where "B = cxxLayout C S RD newMicrosoftRecordLayoutBuilder"
  note p = cxxLayout_props [OF assms, of S, folded B_def]
  have L: "getVBPtrOffset (BuildMicrosoftASTRecordLayout_CXX C S RD) = MS_VBPtrOffset B"
    "getVBaseOffsetsMap (BuildMicrosoftASTRecordLayout_CXX C S RD) = MS_VBases B"
    "\<And>k. getBaseClassOffset (BuildMicrosoftASTRecordLayout_CXX C S RD) k =
          (case MS_Bases B k of None \<Rightarrow> 0 | Some Offset \<Rightarrow> Offset)"
    by (simp_all add: BuildMicrosoftASTRecordLayout_CXX_def B_def Let_def getBaseClassOffset_def)
  have v: "\<not> MS_HasVBPtr B \<longrightarrow> MS_VBPtrOffset B = -1"
    and sh: "\<forall>Shared. MS_HasVBPtr B \<and> MS_SharedVBPtrBase B = Some Shared \<longrightarrow>
               MS_VBPtrOffset B = baseOffset B Shared + getVBPtrOffset (getASTRecordLayout Shared)"
    using p(3) by (simp_all add: vbptr_set_def)
  have a: "MS_VBPtrOffset B = -1 \<longleftrightarrow> \<not> spec_hasVBPtr RD"
    using v p(1,4) by auto
  have b: "spec_hasVBPtr RD \<longrightarrow> 0 \<le> MS_VBPtrOffset B" using p(1,4) by simp
  have d: "dom (MS_VBases B) =
             (if spec_hasVBPtr RD then (\<lambda>V. declId (info V)) ` set (vbases RD) else {})"
    using p(5) .
  have e: "(spec_hasVBPtr RD \<longleftrightarrow> vbases RD \<noteq> []) \<longrightarrow>
             (MS_VBPtrOffset B = -1 \<longleftrightarrow> MS_VBases B = Map.empty)"
  proof
    assume w: "spec_hasVBPtr RD \<longleftrightarrow> vbases RD \<noteq> []"
    have "MS_VBases B = Map.empty \<longleftrightarrow> dom (MS_VBases B) = {}" by auto
    also have "\<dots> \<longleftrightarrow> \<not> spec_hasVBPtr RD" unfolding d using w by auto
    finally show "MS_VBPtrOffset B = -1 \<longleftrightarrow> MS_VBases B = Map.empty" using a by simp
  qed
  have f: "\<forall>Shared. spec_sharedVBPtrBase RD = Some Shared \<longrightarrow>
             MS_VBPtrOffset B =
               (case MS_Bases B (declId (info Shared)) of None \<Rightarrow> 0 | Some Offset \<Rightarrow> Offset) +
               getVBPtrOffset (getASTRecordLayout Shared)"
    using sh p(1,2) spec_shared_has [of RD] by (auto simp: baseOffset_def)
  have g: "spec_hasVBPtr RD \<and> spec_sharedVBPtrBase RD = None \<and> pointer_fits C RD \<longrightarrow>
             pointerAlignment C RD dvd MS_VBPtrOffset B"
    using p(9) by blast
  show ?thesis unfolding L using a b d e f g by blast
qed

theorem vbptr_offset_witness:
  "ms_wellformed ex_MSContext ex_MSVirtualChar \<and> spec_hasVBPtr ex_MSVirtualChar \<and>
   vbases ex_MSVirtualChar \<noteq> [] \<and> spec_sharedVBPtrBase ex_MSVirtualChar = None \<and>
   pointer_fits ex_MSContext ex_MSVirtualChar \<and>
   pointerAlignment ex_MSContext ex_MSVirtualChar = 4 \<and>
   getVBPtrOffset (BuildMicrosoftASTRecordLayout_CXX ex_MSContext {} ex_MSVirtualChar) = 0 \<and>
   pointerAlignment ex_MSContext ex_MSVirtualChar dvd
     getVBPtrOffset (BuildMicrosoftASTRecordLayout_CXX ex_MSContext {} ex_MSVirtualChar) \<and>
   getVBaseOffsetsMap (BuildMicrosoftASTRecordLayout_CXX ex_MSContext {} ex_MSVirtualChar) \<noteq>
     Map.empty \<and>
   ms_wellformed ex_MSContext ex_MSShares \<and>
   map_option (\<lambda>D. declId (info D)) (spec_sharedVBPtrBase ex_MSShares) = Some 84 \<and>
   getBaseClassOffset (BuildMicrosoftASTRecordLayout_CXX ex_MSContext {} ex_MSShares) 84 = 1 \<and>
   getVBPtrOffset (getASTRecordLayout ex_MSPacked) = 0 \<and>
   getVBPtrOffset (BuildMicrosoftASTRecordLayout_CXX ex_MSContext {} ex_MSShares) = 1"
proof -
  have w: "ms_wellformed ex_MSContext ex_MSVirtualChar" "spec_hasVBPtr ex_MSVirtualChar"
    "pointer_fits ex_MSContext ex_MSVirtualChar"
    "pointerAlignment ex_MSContext ex_MSVirtualChar = 4"
    "getVBPtrOffset (BuildMicrosoftASTRecordLayout_CXX ex_MSContext {} ex_MSVirtualChar) = 0"
    "ms_wellformed ex_MSContext ex_MSShares"
    "map_option (\<lambda>D. declId (info D)) (spec_sharedVBPtrBase ex_MSShares) = Some 84"
    "getBaseClassOffset (BuildMicrosoftASTRecordLayout_CXX ex_MSContext {} ex_MSShares) 84 = 1"
    "getVBPtrOffset (getASTRecordLayout ex_MSPacked) = 0"
    by code_simp+
  have n: "vbases ex_MSVirtualChar \<noteq> []" "spec_sharedVBPtrBase ex_MSVirtualChar = None"
    by (simp_all add: ex_MSVirtualChar_def spec_sharedVBPtrBase_def)
  have s: "spec_sharedVBPtrBase ex_MSShares = Some ex_MSPacked"
    by (simp add: spec_sharedVBPtrBase_def ex_MSShares_def ex_MSChar_def ex_Layout_def hasVBPtr_def
        w(9))
  note T1 = vbptr_offset [OF w(1), of "{}"]
  note T2 = vbptr_offset [OF w(6), of "{}"]
  have d: "pointerAlignment ex_MSContext ex_MSVirtualChar dvd
           getVBPtrOffset (BuildMicrosoftASTRecordLayout_CXX ex_MSContext {} ex_MSVirtualChar)"
    using T1 w(2,3) n(2) by blast
  have m: "getVBaseOffsetsMap (BuildMicrosoftASTRecordLayout_CXX ex_MSContext {} ex_MSVirtualChar) \<noteq>
           Map.empty"
    using T1 w(2,5) n(1) by auto
  have "getVBPtrOffset (BuildMicrosoftASTRecordLayout_CXX ex_MSContext {} ex_MSShares) =
          getBaseClassOffset (BuildMicrosoftASTRecordLayout_CXX ex_MSContext {} ex_MSShares)
            (declId (info ex_MSPacked)) +
          getVBPtrOffset (getASTRecordLayout ex_MSPacked)"
    using T2 s by blast
  moreover have "declId (info ex_MSPacked) = 84" by code_simp
  ultimately have
    o: "getVBPtrOffset (BuildMicrosoftASTRecordLayout_CXX ex_MSContext {} ex_MSShares) = 1"
    using w(8,9) by simp
  show ?thesis using w n d m o by simp
qed

text \<open>
  The vbptr that \<^verbatim>\<open>struct Sh : C1, P {}\<close> shares with its base \<^verbatim>\<open>P\<close> is at offset 1:
  \<^verbatim>\<open>P\<close> was declared under \<^verbatim>\<open>#pragma pack(1)\<close>, has alignment 1 and is placed after the
  \<^verbatim>\<open>char\<close> of \<^verbatim>\<open>C1\<close>. The alignment of a pointer in \<^verbatim>\<open>Sh\<close> is 4.
\<close>

theorem shared_vbptr_unaligned_counterexample:
  "ms_wellformed ex_MSContext ex_MSShares \<and>
   vbases ex_MSShares \<noteq> [] \<and>
   map_option (\<lambda>D. declId (info D)) (spec_sharedVBPtrBase ex_MSShares) = Some 84 \<and>
   getAlignment (getASTRecordLayout ex_MSPacked) = 1 \<and>
   getVBPtrOffset (getASTRecordLayout ex_MSPacked) = 0 \<and>
   getBaseClassOffset (BuildMicrosoftASTRecordLayout_CXX ex_MSContext {} ex_MSShares) 84 = 1 \<and>
   getVBPtrOffset (BuildMicrosoftASTRecordLayout_CXX ex_MSContext {} ex_MSShares) = 1 \<and>
   pointerAlignment ex_MSContext ex_MSShares = 4 \<and>
   \<not> pointerAlignment ex_MSContext ex_MSShares dvd
       getVBPtrOffset (BuildMicrosoftASTRecordLayout_CXX ex_MSContext {} ex_MSShares)"
  by code_simp


subsection \<open>Field offsets through libclang\<close>














end
